(* ===== verification/Prelude.thy ===== *)
theory Prelude
  imports Complex_Main "HOL-Library.Multiset"
begin

text \<open>
  Shared vocabulary of the model of \<^verbatim>\<open>src/interactive_report.py\<close>.
  \<^item> \<open>fl\<close>: a numpy \<^verbatim>\<open>float64\<close> result. Finite values are idealised as reals;
    the IEEE special values the code can produce (NaN, +inf, -inf) are constructors,
    and the few float operations the program applies to results (subtraction,
    division, comparison) are written out with their IEEE behaviour on them.
  \<^item> \<open>cell\<close>: one entry of a numeric pandas column, \<open>None\<close> for a missing value (NaN).
  \<^item> \<open>py_error\<close>: the exceptions the code can raise.
  \<^item> \<open>dropna\<close>: pandas' \<^verbatim>\<open>Series.dropna()\<close>, the non-missing values in order.
  \<^item> \<open>int_str\<close>: Python's \<^verbatim>\<open>str(int)\<close>, used by the f-string labels.
  The collection \<open>fl_simps\<close> holds the evaluation rules of the float operations, and
  \<open>dropna_simps\<close> the rewriting rules of \<open>dropna\<close>.
\<close>

named_theorems fl_simps "evaluation rules of the float model"
named_theorems dropna_simps "rewriting rules for dropna"

section \<open>Floats with their special values\<close>

datatype fl = Fin real | NaN | PInf | NInf

type_synonym cell = "real option"

text \<open>IEEE comparison \<open><\<close>: every comparison with NaN is false.\<close>

fun fl_less :: "fl \<Rightarrow> fl \<Rightarrow> bool" where
  "fl_less (Fin a) (Fin b) = (a < b)"
| "fl_less NaN _ = False"
| "fl_less _ NaN = False"
| "fl_less NInf y = (y \<noteq> NInf)"
| "fl_less _ NInf = False"
| "fl_less PInf _ = False"
| "fl_less (Fin _) PInf = True"

text \<open>IEEE subtraction: NaN propagates, \<open>inf - inf\<close> is NaN.\<close>

fun fl_sub :: "fl \<Rightarrow> fl \<Rightarrow> fl" where
  "fl_sub (Fin a) (Fin b) = Fin (a - b)"
| "fl_sub NaN _ = NaN"
| "fl_sub _ NaN = NaN"
| "fl_sub PInf PInf = NaN"
| "fl_sub NInf NInf = NaN"
| "fl_sub PInf _ = PInf"
| "fl_sub NInf _ = NInf"
| "fl_sub _ PInf = NInf"
| "fl_sub _ NInf = PInf"

text \<open>
  IEEE division under numpy's \<^verbatim>\<open>errstate(divide='ignore')\<close>: a nonzero finite value
  divided by zero is an infinity of its sign, \<open>0/0\<close> and \<open>inf/inf\<close> are NaN. A zero
  divisor is the positive zero: every divisor the program forms is a square root.
\<close>

fun fl_div :: "fl \<Rightarrow> fl \<Rightarrow> fl" where
  "fl_div (Fin a) (Fin b) =
     (if b \<noteq> 0 then Fin (a / b) else if 0 < a then PInf else if a < 0 then NInf else NaN)"
| "fl_div NaN _ = NaN"
| "fl_div _ NaN = NaN"
| "fl_div (Fin _) _ = Fin 0"
| "fl_div PInf (Fin b) = (if b < 0 then NInf else PInf)"
| "fl_div NInf (Fin b) = (if b < 0 then PInf else NInf)"
| "fl_div _ _ = NaN"

section \<open>Python exceptions\<close>

datatype py_error =
    KeyError string   \<comment> \<open>a column label that is not in the frame\<close>
  | ValueError string \<comment> \<open>scipy's check on a kde sample with fewer than two points\<close>
  | LinAlgError       \<comment> \<open>singular covariance in \<^verbatim>\<open>gaussian_kde\<close>\<close>
  | IndexError        \<comment> \<open>a list index out of range\<close>
  | InvalidIndex "string list" \<comment> \<open>Dash's \<^verbatim>\<open>InvalidIndexException\<close>: the placeholders a page template lacks\<close>

section \<open>Missing values\<close>

primrec dropna :: "cell list \<Rightarrow> real list" where
  "dropna [] = []"
| "dropna (c # cs) = (case c of None \<Rightarrow> dropna cs | Some x \<Rightarrow> x # dropna cs)"

section \<open>Python dicts with insertion order\<close>

text \<open>
  A dict as the list of its items in insertion order: assigning to a new key appends the
  item, assigning to a present key replaces its value in place.
\<close>

fun dict_set :: "('k \<times> 'v) list \<Rightarrow> 'k \<Rightarrow> 'v \<Rightarrow> ('k \<times> 'v) list" where
  "dict_set [] k v = [(k, v)]"
| "dict_set ((k', v') # kvs) k v = (if k' = k then (k, v) # kvs else (k', v') # dict_set kvs k v)"

section \<open>Decimal printing of integers\<close>

text \<open>Python's \<^verbatim>\<open>str(n)\<close> for an \<open>int\<close>: the decimal digits, a minus sign first.\<close>

fun nat_str :: "nat \<Rightarrow> string" where
  "nat_str n =
     (if n < 10 then [''0123456789'' ! n] else nat_str (n div 10) @ [''0123456789'' ! (n mod 10)])"

definition int_str :: "int \<Rightarrow> string" where
  "int_str i = (if i < 0 then CHR ''-'' # nat_str (nat (- i)) else nat_str (nat i))"

section \<open>Rounding to the nearest integer, ties to even\<close>

text \<open>
  IEEE 754's default rounding, used by Python's float formatting and by every binary64
  operation: the nearest integer, and on a tie the even one.
\<close>

definition round_half_even :: "real \<Rightarrow> int" where
  "round_half_even y =
     (let f = \<lfloor>y\<rfloor>; r = y - real_of_int f
      in if r < 1 / 2 then f else if 1 / 2 < r then f + 1 else if even f then f else f + 1)"

section \<open>Lemmas\<close>

subsection \<open>Floats with their special values\<close>

declare fl_less.simps [fl_simps] fl_sub.simps [fl_simps] fl_div.simps [fl_simps]

lemma fl_less_NaN_right [simp]: "\<not> fl_less x NaN"
  by (cases x) auto

lemma fl_less_Fin_iff [fl_simps]:
  "fl_less (Fin a) y \<longleftrightarrow> (case y of Fin b \<Rightarrow> a < b | PInf \<Rightarrow> True | _ \<Rightarrow> False)"
  by (cases y) auto

lemma fl_div_Fin_pos [fl_simps]: "0 < b \<Longrightarrow> fl_div (Fin a) (Fin b) = Fin (a / b)"
  by simp

subsection \<open>Missing values\<close>

lemma dropna_append [dropna_simps]: "dropna (xs @ ys) = dropna xs @ dropna ys"
  by (induction xs) (auto split: option.split)

lemma dropna_map_Some [dropna_simps]: "dropna (map Some xs) = xs"
  by (induction xs) auto

lemma length_dropna_le [simp]: "length (dropna xs) \<le> length xs"
  by (induction xs) (auto split: option.split)

lemma set_dropna [dropna_simps]: "set (dropna xs) = {x. Some x \<in> set xs}"
  by (induction xs) (auto split: option.split)

lemma length_dropna_filter: "length (dropna xs) = length (filter (\<lambda>c. c \<noteq> None) xs)"
  by (induction xs) (auto split: option.split)

lemma dropna_replicate_None [dropna_simps]: "dropna (replicate n None) = []"
  by (induction n) auto

subsection \<open>Decimal printing of integers\<close>

declare nat_str.simps [simp del]

lemma nat_str_not_Nil [simp]: "nat_str n \<noteq> []"
  by (subst nat_str.simps) simp

subsection \<open>Rounding to the nearest integer, ties to even\<close>

lemma round_half_even_cases:
  "round_half_even y = \<lfloor>y\<rfloor> \<or> round_half_even y = \<lfloor>y\<rfloor> + 1"
  by (simp add: round_half_even_def Let_def)

lemma round_half_even_near: "\<bar>y - real_of_int (round_half_even y)\<bar> \<le> 1 / 2"
  by (simp add: round_half_even_def Let_def)

lemma round_half_even_nearest:
  "\<bar>y - real_of_int (round_half_even y)\<bar> \<le> \<bar>y - real_of_int n\<bar>"

proof -
  have fl: "real_of_int \<lfloor>y\<rfloor> \<le> y" "y < real_of_int \<lfloor>y\<rfloor> + 1" by linarith+
  consider "n \<le> \<lfloor>y\<rfloor>" | "\<lfloor>y\<rfloor> + 1 \<le> n" by linarith
  then show ?thesis
  proof cases
    case 1
    then have "real_of_int n \<le> real_of_int \<lfloor>y\<rfloor>" by linarith
    with fl show ?thesis by (simp add: round_half_even_def Let_def) linarith
  next
    case 2
    then have "real_of_int \<lfloor>y\<rfloor> + 1 \<le> real_of_int n" by linarith
    with fl show ?thesis by (simp add: round_half_even_def Let_def) linarith
  qed

qed

subsection \<open>Shared lemmas on lists and reals\<close>

lemma sum_list_nonneg_map:
  "(\<And>x. x \<in> set xs \<Longrightarrow> (0::real) \<le> f x) \<Longrightarrow> 0 \<le> sum_list (map f xs)"
  by (induction xs) (auto intro: add_nonneg_nonneg)

lemma sum_list_pos_map:
  "xs \<noteq> [] \<Longrightarrow> (\<And>x. x \<in> set xs \<Longrightarrow> (0::real) < f x) \<Longrightarrow> 0 < sum_list (map f xs)"

proof (induction xs)
  case Nil
  then show ?case by simp

next
  case (Cons y ys)
  then show ?case by (cases "ys = []") (auto intro: add_pos_pos)

qed

subsection \<open>Maps written from a list of keys\<close>

lemma map_add_zip_other: "k \<notin> set ks \<Longrightarrow> (m ++ map_of (zip ks vs)) k = m k"
proof -
  assume k: "k \<notin> set ks"
  then have "map_of (zip ks vs) k = None"
    by (auto simp: map_of_eq_None_iff dest: set_zip_leftD)
  then show ?thesis by (simp add: map_add_def)
qed

lemma map_add_zip_hit:
  "length ks = length vs \<Longrightarrow> distinct ks \<Longrightarrow> list_all2 (\<lambda>k v. (m ++ map_of (zip ks vs)) k = Some v) ks vs"
  by (simp add: list_all2_conv_all_nth map_of_zip_nth)

lemma fold_remove1_self: "fold remove1 xs xs = []"
proof -
  have "fold remove1 xs (xs @ ys) = ys" for ys by (induction xs) simp_all
  from this [of "[]"] show ?thesis by simp
qed

end
