(* ===== verification/Frame.thy ===== *)
theory Frame
  imports Prelude "HOL-Library.Option_ord"
begin

text \<open>
  The pandas DataFrame operations \<^verbatim>\<open>analyze_split\<close> uses: a frame is its list of
  column labels and its rows in order, each row an index label and the row's cells;
  \<open>get_column\<close> is \<^verbatim>\<open>df[c]\<close> (KeyError for an unknown label), \<open>iloc_upto\<close> and
  \<open>iloc_from\<close> are \<^verbatim>\<open>df.iloc[:k]\<close> and \<^verbatim>\<open>df.iloc[k:]\<close>, and
  \<open>sort_values_desc\<close> is \<^verbatim>\<open>df.sort_values(by=c, ascending=False)\<close> as pandas' \<^verbatim>\<open>nargsort\<close>
  computes it: rows with a missing key go last in their original order; the others are
  reversed, sorted ascending by a stable sort, and reversed again.
  With \<^verbatim>\<open>HOL-Library.Option_ord\<close> a missing key \<open>None\<close> is below every value, so
  "descending with NaN last" is \<open>sorted_wrt (\<ge>)\<close> on the keys.
\<close>

type_synonym row = "string \<Rightarrow> cell"

record frame =
  columns :: "string list"
  rows :: "(nat \<times> row) list"

abbreviation gdp_col :: string where "gdp_col \<equiv> ''2021_GDP''"
abbreviation he2019_col :: string where "he2019_col \<equiv> ''2019_HE''"
abbreviation he2021_col :: string where "he2021_col \<equiv> ''2021_HE''"

definition get_column :: "frame \<Rightarrow> string \<Rightarrow> py_error + cell list" where
  "get_column df c =
     (if c \<in> set (columns df) then Inr (map (\<lambda>(i, r). r c) (rows df)) else Inl (KeyError c))"

definition iloc_upto :: "nat \<Rightarrow> frame \<Rightarrow> frame" where
  "iloc_upto k df = df\<lparr>rows := take k (rows df)\<rparr>"

definition iloc_from :: "nat \<Rightarrow> frame \<Rightarrow> frame" where
  "iloc_from k df = df\<lparr>rows := drop k (rows df)\<rparr>"

definition nargsort_desc :: "('a \<Rightarrow> cell) \<Rightarrow> 'a list \<Rightarrow> 'a list" where
  "nargsort_desc k xs =
     rev (sort_key (\<lambda>x. the (k x)) (rev (filter (\<lambda>x. k x \<noteq> None) xs)))
     @ filter (\<lambda>x. k x = None) xs"

definition row_key :: "string \<Rightarrow> nat \<times> row \<Rightarrow> cell" where
  "row_key c = (\<lambda>(i, r). r c)"

definition sort_values_desc :: "frame \<Rightarrow> string \<Rightarrow> py_error + frame" where
  "sort_values_desc df c =
     (if c \<in> set (columns df) then Inr (df\<lparr>rows := nargsort_desc (row_key c) (rows df)\<rparr>)
      else Inl (KeyError c))"

subsection \<open>The descending sort\<close>

lemma mset_nargsort_desc [simp]: "mset (nargsort_desc k xs) = mset xs"
  by (simp add: nargsort_desc_def)

lemma length_nargsort_desc [simp]: "length (nargsort_desc k xs) = length xs"
  by (metis mset_nargsort_desc size_mset)

lemma set_nargsort_desc [simp]: "set (nargsort_desc k xs) = set xs"
  by (metis mset_nargsort_desc set_mset_mset)

lemma sorted_desc_some_keys:
  fixes xs :: "'a list"
  assumes "\<forall>x\<in>set xs. k x \<noteq> None"
    and "sorted_wrt (\<lambda>a b. the (k b) \<le> the (k a)) xs"
  shows "sorted_wrt (\<lambda>a b. b \<le> a) (map k xs)"
  using assms by (induction xs) (auto simp: less_eq_option_def split: option.splits)

lemma nargsort_desc_sorted: "sorted_wrt (\<lambda>a b. b \<le> a) (map k (nargsort_desc k xs))"
proof -
  let ?S = "rev (sort_key (\<lambda>x. the (k x)) (rev (filter (\<lambda>x. k x \<noteq> None) xs)))"
  let ?N = "filter (\<lambda>x. k x = None) xs"
  have some: "\<forall>x\<in>set ?S. k x \<noteq> None" by simp
  have "sorted (map (\<lambda>x. the (k x)) (sort_key (\<lambda>x. the (k x)) (rev (filter (\<lambda>x. k x \<noteq> None) xs))))"
    by simp
  then have "sorted_wrt (\<lambda>a b. the (k b) \<le> the (k a)) ?S"
    by (simp add: sorted_map sorted_wrt_rev)
  with some have S: "sorted_wrt (\<lambda>a b. b \<le> a) (map k ?S)"
    by (rule sorted_desc_some_keys)
  have N: "sorted_wrt (\<lambda>a b. b \<le> a) (map k ?N)"
    by (induction xs) auto
  have cross: "\<forall>a\<in>set (map k ?S). \<forall>b\<in>set (map k ?N). b \<le> a"
    by auto
  from S N cross show ?thesis
    by (simp add: nargsort_desc_def sorted_wrt_append del: set_map)
qed

text \<open>
  Whatever the tie-break, a descending sort puts the same sequence of keys: any
  permutation of the rows whose keys descend has the keys of \<open>nargsort_desc\<close>.
\<close>

lemma desc_keys_unique:
  fixes k :: "'a \<Rightarrow> 'b::linorder"
  assumes "mset ys = mset xs" and "sorted_wrt (\<lambda>a b. b \<le> a) (map k ys)"
    and "mset zs = mset xs" and "sorted_wrt (\<lambda>a b. b \<le> a) (map k zs)"
  shows "map k ys = map k zs"
proof -
  have "sort (map k xs) = rev (map k ys)"
    using assms(1,2) by (intro properties_for_sort) (simp_all add: sorted_wrt_rev mset_map)
  moreover have "sort (map k xs) = rev (map k zs)"
    using assms(3,4) by (intro properties_for_sort) (simp_all add: sorted_wrt_rev mset_map)
  ultimately show ?thesis by simp
qed

end
