(* ===== verification/Binary64.thy ===== *)
theory Binary64
  imports Prelude
begin

text \<open>
  Binary64 arithmetic as Python's floats do it, for the one place the program's result
  depends on it, the cutoff of line 26.
  \<open>f64_round\<close> is IEEE 754 round-to-nearest, ties to even, for a 53-bit significand:
  \<open>fexp x\<close> is the binary exponent of a positive \<open>x\<close> (\<open>2^e \<le> x < 2^(e+1)\<close>), found by
  halving or doubling \<open>x\<close> until it lies in \<open>[1, 2)\<close>; the significand is then
  \<open>x / 2^(e-52)\<close> rounded to an integer. The exponent range is not bounded: overflow to
  infinity and subnormal results need values beyond \<open>10^308\<close> or below \<open>10^-307\<close>,
  which a percentile and a row count cannot produce.
  \<open>f64_representable\<close> is the abstract description of the doubles in that range
  (an integer significand below \<open>2^53\<close> times a power of two). The lemmas show that
  \<open>f64_round\<close> picks the nearest of them, with relative error at most \<open>2^-53\<close>, and
  that it is monotone, the two facts the cutoff's proofs use.
\<close>

function (domintros) fexp :: "real \<Rightarrow> int" where
  "fexp x = (if 2 \<le> x then fexp (x / 2) + 1 else if 0 < x \<and> x < 1 then fexp (2 * x) - 1 else 0)"
  by pat_completeness auto

definition fexp_measure :: "real \<Rightarrow> nat" where
  "fexp_measure x = (if 2 \<le> x then nat \<lceil>x\<rceil> else if 0 < x \<and> x < 1 then nat \<lceil>1 / x\<rceil> else 0)"

definition f64_round :: "real \<Rightarrow> real" where
  "f64_round x =
     (if x = 0 then 0
      else let e = fexp \<bar>x\<bar> - 52 in sgn x * (real_of_int (round_half_even (\<bar>x\<bar> / 2 powi e)) * 2 powi e))"

definition f64_representable :: "real \<Rightarrow> bool" where
  "f64_representable y \<longleftrightarrow> (\<exists>m k. \<bar>m\<bar> < 2 ^ 53 \<and> y = real_of_int m * 2 powi k)"

section \<open>Lemmas\<close>

lemma ceiling_half_less: "2 \<le> (y::real) \<Longrightarrow> nat \<lceil>y / 2\<rceil> < nat \<lceil>y\<rceil>"
proof -
  assume y: "2 \<le> y"
  have "real_of_int \<lceil>y / 2\<rceil> - 1 < y / 2" "y \<le> real_of_int \<lceil>y\<rceil>"
    using ceiling_correct [of "y / 2"] ceiling_correct [of y] by simp_all
  with y have "\<lceil>y / 2\<rceil> < \<lceil>y\<rceil>" by linarith
  then show ?thesis using y by linarith
qed

lemma fexp_measure_half: "2 \<le> x \<Longrightarrow> fexp_measure (x / 2) < fexp_measure x"
proof (cases "2 \<le> x / 2")
  case True
  assume "2 \<le> x"
  then show ?thesis using True ceiling_half_less [of x] by (simp add: fexp_measure_def)
next
  case False
  assume "2 \<le> x"
  with False show ?thesis by (simp add: fexp_measure_def)
qed

lemma fexp_measure_double:
  assumes "\<not> 2 \<le> x" and "0 < x \<and> x < 1"
  shows "fexp_measure (2 * x) < fexp_measure x"
proof (cases "2 * x < 1")
  case True
  then have "2 \<le> 1 / x" using assms by (simp add: field_simps)
  then have "nat \<lceil>1 / x / 2\<rceil> < nat \<lceil>1 / x\<rceil>" by (rule ceiling_half_less)
  moreover have "1 / x / 2 = 1 / (2 * x)" by simp
  ultimately have "nat \<lceil>1 / (2 * x)\<rceil> < nat \<lceil>1 / x\<rceil>" by metis
  with True assms show ?thesis by (simp add: fexp_measure_def)
next
  case False
  have "1 < 1 / x" using assms by simp
  then have "1 < \<lceil>1 / x\<rceil>" by (simp add: less_ceiling_iff)
  with False assms show ?thesis by (simp add: fexp_measure_def)
qed

termination fexp
  by (relation "measure fexp_measure") (simp_all add: fexp_measure_half fexp_measure_double)

declare fexp.simps [simp del]

lemma fexp_dom_all: "fexp_dom x"
proof (induction x rule: measure_induct_rule [of fexp_measure])
  case (less x)
  show ?case
  proof (rule fexp.domintros)
    fix y assume "x = y * 2" "1 \<le> y"
    then have "2 \<le> x" "y = x / 2" by simp_all
    then show "fexp_dom y" using less fexp_measure_half by blast
  next
    assume "0 < x" "x < 1"
    then show "fexp_dom (2 * x)" using less fexp_measure_double by simp
  qed
qed

lemma fexp_bounds: "0 < x \<Longrightarrow> 2 powi fexp x \<le> x \<and> x < 2 powi (fexp x + 1)"
proof (induction x rule: fexp.induct)
  case (1 x)
  consider "2 \<le> x" | "x < 1" | "1 \<le> x" "x < 2" by linarith
  then show ?case
  proof cases
    case 1
    then have "2 powi fexp (x / 2) \<le> x / 2 \<and> x / 2 < 2 powi (fexp (x / 2) + 1)"
      using "1.IH"(1) by simp
    moreover have "fexp x = fexp (x / 2) + 1" using 1 by (simp add: fexp.simps)
    ultimately show ?thesis by (simp add: power_int_add)
  next
    case 2
    then have "2 powi fexp (2 * x) \<le> 2 * x \<and> 2 * x < 2 powi (fexp (2 * x) + 1)"
      using "1.IH"(2) "1.prems" by simp
    moreover have "fexp x = fexp (2 * x) - 1" using 2 "1.prems" by (simp add: fexp.simps)
    ultimately show ?thesis by (simp add: power_int_add power_int_diff)
  next
    case 3
    then have "fexp x = 0" by (simp add: fexp.simps)
    with 3 show ?thesis by simp
  qed
qed

lemma f64_scaled:
  assumes "0 < x"
  shows "2 ^ 52 \<le> x / 2 powi (fexp x - 52) \<and> x / 2 powi (fexp x - 52) < 2 ^ 53"
proof -
  have p: "0 < (2::real) powi fexp x" by simp
  have eq: "x / 2 powi (fexp x - 52) = x * 2 ^ 52 / 2 powi fexp x"
    by (simp add: power_int_diff)
  have "2 powi fexp x \<le> x" "x < 2 * 2 powi fexp x"
    using fexp_bounds [OF assms] by (simp_all add: power_int_add)
  with p show ?thesis unfolding eq by (simp add: field_simps)
qed


lemma f64_round_pos:
  "0 < x \<Longrightarrow> f64_round x = real_of_int (round_half_even (x / 2 powi (fexp x - 52))) * 2 powi (fexp x - 52)"
  by (simp add: f64_round_def Let_def)

lemma f64_round_neg: "f64_round (- x) = - f64_round x"
  by (simp add: f64_round_def Let_def)

lemma f64_representable_neg: "f64_representable (- y) \<longleftrightarrow> f64_representable y"
proof -
  have "f64_representable y \<Longrightarrow> f64_representable (- y)" for y
    unfolding f64_representable_def
    by (metis (no_types, opaque_lifting) abs_minus_cancel mult_minus_left of_int_minus)
  from this [of y] this [of "- y"] show ?thesis by auto
qed

lemma f64_err_pos:
  assumes "0 < x"
  shows "\<bar>f64_round x - x\<bar> \<le> 2 powi (fexp x - 52) / 2"
proof -
  define u where "u = (2::real) powi (fexp x - 52)"
  have u: "0 < u" by (simp add: u_def)
  have "f64_round x - x = u * (real_of_int (round_half_even (x / u)) - x / u)"
    using assms u by (simp add: f64_round_pos u_def algebra_simps)
  then have "\<bar>f64_round x - x\<bar> = u * \<bar>real_of_int (round_half_even (x / u)) - x / u\<bar>"
    using u by (simp add: abs_mult)
  also have "\<dots> \<le> u * (1 / 2)"
    using round_half_even_near [of "x / u"] u by (intro mult_left_mono) (simp_all add: abs_minus_commute)
  finally show ?thesis by (simp add: u_def)
qed

lemma f64_round_error: "\<bar>f64_round x - x\<bar> \<le> \<bar>x\<bar> / 2 ^ 53"
proof -
  have pos: "\<bar>f64_round x - x\<bar> \<le> x / 2 ^ 53" if "0 < x" for x
  proof -
    have "2 ^ 52 * 2 powi (fexp x - 52) \<le> x"
      using f64_scaled [OF that] by (simp add: field_simps)
    then show ?thesis using f64_err_pos [OF that] by simp
  qed
  consider "0 < x" | "x = 0" | "x < 0" by linarith
  then show ?thesis
  proof cases
    case 1
    then show ?thesis using pos [of x] by simp
  next
    case 2
    then show ?thesis by (simp add: f64_round_def)
  next
    case 3
    then have "\<bar>f64_round (- x) - (- x)\<bar> \<le> - x / 2 ^ 53" using pos [of "- x"] by simp
    with 3 show ?thesis by (simp add: f64_round_neg abs_minus_commute)
  qed
qed


lemma round_half_even_range:
  assumes s: "2 ^ 52 \<le> (z::real)" "z < 2 ^ 53"
  shows "0 \<le> round_half_even z \<and> round_half_even z \<le> 2 ^ 53"
proof -
  have "round_half_even z \<le> \<lfloor>z\<rfloor> + 1" "\<lfloor>z\<rfloor> \<le> round_half_even z"
    using round_half_even_cases [of z] by auto
  moreover have "\<lfloor>z\<rfloor> < 2 ^ 53" "0 \<le> \<lfloor>z\<rfloor>"
    using s by (simp_all add: floor_less_iff)
  ultimately show ?thesis by linarith
qed

lemma f64_representable_pos: "0 < x \<Longrightarrow> f64_representable (f64_round x)"
proof -
  assume x: "0 < x"
  define e where "e = fexp x - 52"
  define r where "r = round_half_even (x / 2 powi e)"
  have r: "0 \<le> r" "r \<le> 2 ^ 53"
    using round_half_even_range [of "x / 2 powi e"] f64_scaled [OF x] by (simp_all add: e_def r_def)
  have val: "f64_round x = real_of_int r * 2 powi e" using x by (simp add: f64_round_pos e_def r_def)
  show ?thesis
  proof (cases "r = 2 ^ 53")
    case True
    have "f64_round x = real_of_int (2 ^ 52) * 2 powi (e + 1)"
      using True by (simp add: val power_int_add)
    moreover have "\<bar>(2::int) ^ 52\<bar> < 2 ^ 53" by simp
    ultimately show ?thesis unfolding f64_representable_def by blast
  next
    case False
    with r have "\<bar>r\<bar> < 2 ^ 53" by simp
    with val show ?thesis unfolding f64_representable_def by blast
  qed
qed

lemma f64_representable_round: "f64_representable (f64_round x)"
proof -
  consider "0 < x" | "x = 0" | "x < 0" by linarith
  then show ?thesis
  proof cases
    case 1
    then show ?thesis by (rule f64_representable_pos)
  next
    case 2
    have "(0::real) = real_of_int 0 * 2 powi 0" by simp
    with 2 show ?thesis unfolding f64_representable_def f64_round_def by fastforce
  next
    case 3
    then have "f64_representable (f64_round (- x))" by (intro f64_representable_pos) simp
    then show ?thesis by (simp add: f64_round_neg f64_representable_neg)
  qed
qed

lemma f64_closest_pos:
  assumes x: "0 < x" and y: "f64_representable y"
  shows "\<bar>f64_round x - x\<bar> \<le> \<bar>y - x\<bar>"
proof -
  define e where "e = fexp x - 52"
  define u where "u = (2::real) powi e"
  have u: "0 < u" by (simp add: u_def)
  have s: "2 ^ 52 \<le> x / u" "x / u < 2 ^ 53" using f64_scaled [OF x] by (simp_all add: e_def u_def)
  obtain m k where m: "\<bar>m\<bar> < 2 ^ 53" and yv: "y = real_of_int m * 2 powi k"
    using y unfolding f64_representable_def by blast
  have err: "\<bar>f64_round x - x\<bar> = u * \<bar>real_of_int (round_half_even (x / u)) - x / u\<bar>"
  proof -
    have "f64_round x - x = u * (real_of_int (round_half_even (x / u)) - x / u)"
      using x u by (simp add: f64_round_pos u_def e_def algebra_simps)
    then show ?thesis using u by (simp add: abs_mult)
  qed
  show ?thesis
  proof (cases "e \<le> k")
    case True
    obtain n where kn: "k = e + int n" using True by (metis le_add_diff_inverse zle_iff_zadd)
    define N where "N = m * 2 ^ n"
    have "2 powi k = u * 2 ^ n" by (simp add: kn u_def power_int_add)
    then have yN: "y = real_of_int N * u" by (simp add: yv N_def)
    have "\<bar>real_of_int (round_half_even (x / u)) - x / u\<bar> \<le> \<bar>real_of_int N - x / u\<bar>"
      using round_half_even_nearest [of "x / u" N] by (simp add: abs_minus_commute)
    then have "u * \<bar>real_of_int (round_half_even (x / u)) - x / u\<bar> \<le> u * \<bar>real_of_int N - x / u\<bar>"
      using u by (intro mult_left_mono) simp_all
    also have "\<dots> = \<bar>u * (real_of_int N - x / u)\<bar>" using u by (simp add: abs_mult)
    also have "\<dots> = \<bar>y - x\<bar>" using u by (simp add: yN algebra_simps)
    finally show ?thesis using err by simp
  next
    case False
    then have "2 powi k \<le> (2::real) powi (e - 1)" by (intro power_int_increasing) simp_all
    also have "\<dots> = u / 2" by (simp add: u_def power_int_diff)
    finally have pk: "2 powi k \<le> u / 2" .
    have "y \<le> real_of_int \<bar>m\<bar> * 2 powi k" by (simp add: yv mult_right_mono)
    also have "\<dots> < 2 ^ 53 * 2 powi k" using m by (intro mult_strict_right_mono) simp_all
    also have "\<dots> \<le> 2 ^ 53 * (u / 2)" using pk by simp
    finally have ylt: "y < 2 ^ 52 * u" by simp
    have "2 ^ 52 \<le> \<lfloor>x / u\<rfloor>" using s(1) by (simp add: le_floor_iff)
    then have fl: "(2::real) ^ 52 \<le> real_of_int \<lfloor>x / u\<rfloor>" by (metis of_int_le_iff of_int_numeral of_int_power)
    have "\<bar>real_of_int (round_half_even (x / u)) - x / u\<bar> \<le> \<bar>real_of_int \<lfloor>x / u\<rfloor> - x / u\<bar>"
      using round_half_even_nearest [of "x / u" "\<lfloor>x / u\<rfloor>"] by (simp add: abs_minus_commute)
    also have "\<dots> = x / u - real_of_int \<lfloor>x / u\<rfloor>" by simp
    also have "\<dots> \<le> x / u - 2 ^ 52" using fl by linarith
    finally have "u * \<bar>real_of_int (round_half_even (x / u)) - x / u\<bar> \<le> u * (x / u - 2 ^ 52)"
      using u by (intro mult_left_mono) simp_all
    also have "\<dots> = x - 2 ^ 52 * u" using u by (simp add: algebra_simps)
    also have "\<dots> < \<bar>y - x\<bar>" using ylt by simp
    finally show ?thesis using err by simp
  qed
qed

lemma f64_round_nearest:
  "f64_representable (f64_round x) \<and> (\<forall>y. f64_representable y \<longrightarrow> \<bar>f64_round x - x\<bar> \<le> \<bar>y - x\<bar>)"
proof -
  have "\<bar>f64_round x - x\<bar> \<le> \<bar>y - x\<bar>" if y: "f64_representable y" for y
  proof -
    consider "0 < x" | "x = 0" | "x < 0" by linarith
    then show ?thesis
    proof cases
      case 1
      then show ?thesis using f64_closest_pos y by blast
    next
      case 2
      then show ?thesis by (simp add: f64_round_def)
    next
      case 3
      have "\<bar>f64_round (- x) - (- x)\<bar> \<le> \<bar>(- y) - (- x)\<bar>"
        using 3 y by (intro f64_closest_pos) (simp_all add: f64_representable_neg)
      then show ?thesis by (simp add: f64_round_neg abs_minus_commute)
    qed
  qed
  then show ?thesis using f64_representable_round by blast
qed

lemma f64_round_zero [simp]: "f64_round 0 = 0"
  by (simp add: f64_round_def)

text \<open>Rounding to nearest is monotone: two values in order cannot round out of order.\<close>

lemma f64_round_mono:
  assumes xy: "x \<le> y"
  shows "f64_round x \<le> f64_round y"
proof (rule ccontr)
  assume "\<not> f64_round x \<le> f64_round y"
  then have ba: "f64_round y < f64_round x" by simp
  have rx: "f64_representable (f64_round x)" and ry: "f64_representable (f64_round y)"
    using f64_round_nearest by blast+
  have "\<bar>f64_round x - x\<bar> \<le> \<bar>f64_round y - x\<bar>" using f64_round_nearest ry by blast
  then have "f64_round x + f64_round y \<le> 2 * x" using ba by (auto simp: abs_if split: if_splits)
  moreover have "\<bar>f64_round y - y\<bar> \<le> \<bar>f64_round x - y\<bar>" using f64_round_nearest rx by blast
  then have "2 * y \<le> f64_round x + f64_round y" using ba by (auto simp: abs_if split: if_splits)
  ultimately have "x = y" using xy by linarith
  with ba show False by simp
qed

lemma f64_round_nonpos: "x \<le> 0 \<Longrightarrow> f64_round x \<le> 0"
  using f64_round_mono [of x 0] by simp

end
