(* ===== verification/Splitter.thy ===== *)
theory Splitter
  imports Frame Binary64
begin

text \<open>
  The Splitter, lines 23 to 33 of \<^verbatim>\<open>analyze_split\<close>: sort the rows by
  \<^verbatim>\<open>2021_GDP\<close> descending, compute \<^verbatim>\<open>cutoff_idx = int(len * (p / 100))\<close>, clamp it
  to \<open>[1, len - 1]\<close> with \<^verbatim>\<open>max(1, min(cutoff_idx, len - 1))\<close>, and cut the sorted
  frame there. \<open>py_int\<close> is Python's \<^verbatim>\<open>int()\<close> on a float, which truncates towards
  zero. The percentile is a Python \<open>int\<close> (the slider's values), and the cutoff is
  computed as Python computes it, in binary64 floats: \<^verbatim>\<open>percentile_threshold / 100\<close>
  is int true division, correctly rounded to the nearest double, and
  \<^verbatim>\<open>len(data_sorted) * (...)\<close> converts the length to a double (exactly, below
  \<open>2^53\<close>) and rounds the product (\<open>f64_round\<close>, from Binary64).
  \<open>cutoff_floor\<close> and \<open>split_groups_floor\<close> are the spec's cutoff
  \<open>floor(len * p / 100)\<close> with the same clamp, in exact arithmetic: the abstract split
  the code is compared with.
\<close>

definition py_int :: "real \<Rightarrow> int" where
  "py_int x = (if 0 \<le> x then \<lfloor>x\<rfloor> else \<lceil>x\<rceil>)"

definition cutoff_idx :: "nat \<Rightarrow> int \<Rightarrow> int" where
  "cutoff_idx n p =
     max 1 (min (py_int (f64_round (real n * f64_round (real_of_int p / 100)))) (int n - 1))"

definition split_groups :: "frame \<Rightarrow> int \<Rightarrow> py_error + frame \<times> frame" where
  "split_groups data p =
     (case sort_values_desc data gdp_col of
        Inl e \<Rightarrow> Inl e
      | Inr s \<Rightarrow>
          (let k = nat (cutoff_idx (length (rows s)) p) in Inr (iloc_upto k s, iloc_from k s)))"

text \<open>The spec's split: the floor of the exact product, clamped as the code clamps.\<close>

definition cutoff_floor :: "nat \<Rightarrow> int \<Rightarrow> int" where
  "cutoff_floor n p = max 1 (min \<lfloor>real n * real_of_int p / 100\<rfloor> (int n - 1))"

definition split_groups_floor :: "frame \<Rightarrow> int \<Rightarrow> py_error + frame \<times> frame" where
  "split_groups_floor data p =
     (case sort_values_desc data gdp_col of
        Inl e \<Rightarrow> Inl e
      | Inr s \<Rightarrow>
          (let k = nat (cutoff_floor (length (rows s)) p) in Inr (iloc_upto k s, iloc_from k s)))"

text \<open>A frame in the shape of the spec's scenarios: ten rows, GDP 100, 90, ..., 10.\<close>

definition gdp_row :: "real \<Rightarrow> row" where
  "gdp_row g = (\<lambda>c. if c = gdp_col then Some g else None)"

definition ten_rows :: frame where
  "ten_rows =
     \<lparr>columns = [gdp_col, he2019_col, he2021_col],
      rows = map (\<lambda>i. (i, gdp_row (100 - 10 * real i))) [0..<10]\<rparr>"

text \<open>A frame of one row.\<close>

definition one_row :: frame where
  "one_row = \<lparr>columns = [gdp_col, he2019_col, he2021_col], rows = [(0, gdp_row 1)]\<rparr>"

text \<open>A frame of \<open>n\<close> rows with distinct GDP values, for the witnesses.\<close>

definition gdp_frame :: "nat \<Rightarrow> frame" where
  "gdp_frame n = \<lparr>columns = [gdp_col, he2019_col, he2021_col], rows = map (\<lambda>i. (i, gdp_row (real i))) [0..<n]\<rparr>"

subsection \<open>The cutoff\<close>

lemma py_int_nonneg [simp]: "0 \<le> x \<Longrightarrow> py_int x = \<lfloor>x\<rfloor>"
  by (simp add: py_int_def)

lemma cutoff_idx_bounds:
  "2 \<le> n \<Longrightarrow> 1 \<le> cutoff_idx n p \<and> cutoff_idx n p \<le> int n - 1"
  by (auto simp: cutoff_idx_def)

lemma cutoff_idx_pos: "1 \<le> cutoff_idx n p"
  by (simp add: cutoff_idx_def)

text \<open>
  On the exact product, truncation and the spec's floor agree after the clamp: they
  differ only on negative products, which the clamp sends to 1 either way.
\<close>

lemma cutoff_floor_py_int:
  "cutoff_floor n p = max 1 (min (py_int (real n * (real_of_int p / 100))) (int n - 1))"
proof (cases "0 \<le> real n * (real_of_int p / 100)")
  case True
  then show ?thesis by (simp add: cutoff_floor_def)
next
  case False
  then have "\<lceil>real n * (real_of_int p / 100)\<rceil> \<le> 0" and "\<lfloor>real n * real_of_int p / 100\<rfloor> \<le> 0"
    by (simp_all add: ceiling_le_iff floor_le_iff)
  then have "max 1 (min \<lceil>real n * (real_of_int p / 100)\<rceil> (int n - 1)) = 1"
    and "max 1 (min \<lfloor>real n * real_of_int p / 100\<rfloor> (int n - 1)) = 1"
    by linarith+
  with False show ?thesis by (simp add: cutoff_floor_def py_int_def)
qed

lemma py_int_mono: "x \<le> y \<Longrightarrow> py_int x \<le> py_int y"
proof -
  assume xy: "x \<le> y"
  consider "0 \<le> x" | "x < 0" "0 \<le> y" | "y < 0" by linarith
  then show ?thesis
  proof cases
    case 1
    with xy show ?thesis by (simp add: floor_mono)
  next
    case 2
    then have "\<lceil>x\<rceil> \<le> 0" and "0 \<le> \<lfloor>y\<rfloor>" by (simp_all add: ceiling_le_iff)
    moreover have "py_int x = \<lceil>x\<rceil>" and "py_int y = \<lfloor>y\<rfloor>" using 2 by (simp_all add: py_int_def)
    ultimately show ?thesis by linarith
  next
    case 3
    with xy show ?thesis by (simp add: py_int_def ceiling_mono)
  qed
qed

lemma cutoff_idx_mono: "p \<le> q \<Longrightarrow> cutoff_idx n p \<le> cutoff_idx n q"
proof -
  assume "p \<le> q"
  then have "f64_round (real_of_int p / 100) \<le> f64_round (real_of_int q / 100)"
    by (intro f64_round_mono) simp
  then have "real n * f64_round (real_of_int p / 100) \<le> real n * f64_round (real_of_int q / 100)"
    by (intro mult_left_mono) auto
  then have "py_int (f64_round (real n * f64_round (real_of_int p / 100)))
      \<le> py_int (f64_round (real n * f64_round (real_of_int q / 100)))"
    by (intro py_int_mono f64_round_mono)
  then show ?thesis by (simp add: cutoff_idx_def)
qed

lemma cutoff_product_error:
  assumes p: "0 \<le> p" "p \<le> 100" and n: "n < 2 ^ 40"
  shows "\<bar>f64_round (real n * f64_round (real_of_int p / 100)) - real n * real_of_int p / 100\<bar> < 1 / 100"
proof -
  define a where "a = real_of_int p / 100"
  define q where "q = f64_round a"
  have a: "0 \<le> a" "a \<le> 1" using p by (simp_all add: a_def)
  have eq: "\<bar>q - a\<bar> \<le> a / 2 ^ 53" using f64_round_error [of a] a by (simp add: q_def)
  moreover have "a / 2 ^ 53 \<le> a" using a by simp
  ultimately have qa: "\<bar>q\<bar> \<le> 2 * a" using a unfolding abs_le_iff by linarith
  have ez: "\<bar>f64_round (real n * q) - real n * q\<bar> \<le> real n * \<bar>q\<bar> / 2 ^ 53"
    using f64_round_error [of "real n * q"] by (simp add: abs_mult)
  have "\<bar>real n * q - real n * a\<bar> = real n * \<bar>q - a\<bar>" by (simp add: abs_mult right_diff_distrib [symmetric])
  also have "\<dots> \<le> real n * (a / 2 ^ 53)" using eq by (intro mult_left_mono) simp_all
  finally have e1: "\<bar>real n * q - real n * a\<bar> \<le> real n * a / 2 ^ 53" by simp
  have "real n * \<bar>q\<bar> \<le> real n * (2 * a)" using qa by (intro mult_left_mono) simp_all
  then have e2: "real n * \<bar>q\<bar> / 2 ^ 53 \<le> real n * (2 * a) / 2 ^ 53"
    by (rule divide_right_mono) simp
  define t where "t = real n * a"
  have "real n * a \<le> real n * 1" using a by (intro mult_left_mono) simp_all
  then have "t \<le> 2 ^ 40" using n by (simp add: t_def)
  then have t3: "3 * t / 2 ^ 53 < 1 / 100" by simp
  have "real n * (2 * a) / 2 ^ 53 = 2 * t / 2 ^ 53" "real n * a / 2 ^ 53 = t / 2 ^ 53"
    by (simp_all add: t_def)
  with ez e1 e2 t3 have "\<bar>f64_round (real n * q) - real n * a\<bar> < 1 / 100" by linarith
  then show ?thesis by (simp add: q_def a_def)
qed

lemma py_int_close:
  assumes close: "\<bar>z - real_of_int N / 100\<bar> < 1 / 100" and N: "0 \<le> N"
  shows "py_int (real_of_int N / 100) - 1 \<le> py_int z \<and> py_int z \<le> py_int (real_of_int N / 100) \<and>
         (\<not> 100 dvd N \<longrightarrow> py_int z = py_int (real_of_int N / 100))"
proof -
  define a where "a = N div 100"
  define b where "b = N mod 100"
  have "N = 100 * a + b" by (simp add: a_def b_def)
  then have "real_of_int N = 100 * real_of_int a + real_of_int b" by simp
  then have Nab: "real_of_int N / 100 = real_of_int a + real_of_int b / 100" by simp
  have b: "0 \<le> b" "b < 100" by (simp_all add: b_def)
  then have rb: "0 \<le> real_of_int b" "real_of_int b \<le> 99" by simp_all
  have a: "0 \<le> a" using N by (simp add: a_def)
  have "\<lfloor>real_of_int a + real_of_int b / 100\<rfloor> = a" using rb by (simp add: floor_eq_iff)
  then have ft: "py_int (real_of_int N / 100) = a" using a rb by (simp add: Nab py_int_def)
  have zlo: "real_of_int a + real_of_int b / 100 - 1 / 100 < z"
    and zhi: "z < real_of_int a + real_of_int b / 100 + 1 / 100"
    using close unfolding Nab abs_less_iff by linarith+
  show ?thesis
  proof (cases "0 \<le> z")
    case True
    have "real_of_int a - 1 < z" "z < real_of_int a + 1" using zlo zhi rb by linarith+
    then have "a - 1 \<le> \<lfloor>z\<rfloor> \<and> \<lfloor>z\<rfloor> \<le> a" by linarith
    moreover have "\<lfloor>z\<rfloor> = a" if "\<not> 100 dvd N"
    proof -
      have "b \<noteq> 0" using that by (simp add: b_def dvd_eq_mod_eq_0)
      then have "1 \<le> real_of_int b" using b by simp
      then have "real_of_int a \<le> z" "z < real_of_int a + 1" using zlo zhi rb by linarith+
      then show "\<lfloor>z\<rfloor> = a" by (simp add: floor_eq_iff)
    qed
    ultimately show ?thesis using True ft by (simp add: py_int_def)
  next
    case False
    then have "a = 0" using zlo rb a by linarith
    moreover have "- 1 < z" using zlo rb \<open>a = 0\<close> by simp
    ultimately have "py_int z = 0" using False by (simp add: py_int_def ceiling_eq_iff)
    then show ?thesis using ft \<open>a = 0\<close> by simp
  qed
qed

lemma clamp_close:
  "v - 1 \<le> w \<Longrightarrow> w \<le> v \<Longrightarrow>
   max 1 (min v c) - 1 \<le> max 1 (min w c) \<and> max 1 (min w c) \<le> max 1 (min (v::int) c)"
  by linarith

lemma py_int_product_close:
  assumes "0 \<le> p" "p \<le> 100" "n < 2 ^ 40"
  shows "py_int (real n * (real_of_int p / 100)) - 1 \<le> py_int (f64_round (real n * f64_round (real_of_int p / 100))) \<and>
         py_int (f64_round (real n * f64_round (real_of_int p / 100))) \<le> py_int (real n * (real_of_int p / 100)) \<and>
         (\<not> 100 dvd (int n * p) \<longrightarrow>
            py_int (f64_round (real n * f64_round (real_of_int p / 100))) = py_int (real n * (real_of_int p / 100)))"
proof -
  have eq: "real n * (real_of_int p / 100) = real_of_int (int n * p) / 100" by simp
  have "\<bar>f64_round (real n * f64_round (real_of_int p / 100)) - real_of_int (int n * p) / 100\<bar> < 1 / 100"
    using cutoff_product_error [OF assms] by simp
  from py_int_close [OF this] show ?thesis using assms(1) unfolding eq by simp
qed

lemma cutoff_idx_180_35: "cutoff_idx 180 35 = 62"
  by (simp add: cutoff_idx_def f64_round_def fexp.simps round_half_even_def Let_def py_int_def)

lemma cutoff_idx_4_50: "cutoff_idx 4 50 = 2"
  by (simp add: cutoff_idx_def f64_round_def fexp.simps round_half_even_def Let_def)

text \<open>
  Below one row's worth of percent the cutoff is 1: a product under 1 stays under 1
  after rounding, since the rounding errors are far below the gap of \<open>1/100\<close>.
\<close>

lemma py_int_le_0: "x < 1 \<Longrightarrow> py_int x \<le> 0"
  by (simp add: py_int_def floor_less_iff ceiling_le_iff)

lemma cutoff_idx_small:
  assumes "real n * real_of_int p < 100"
  shows "cutoff_idx n p = 1"
proof (cases "n = 0 \<or> p \<le> 0")
  case True
  then have "n = 0 \<or> f64_round (real n * f64_round (real_of_int p / 100)) \<le> 0"
    by (auto intro!: f64_round_nonpos mult_nonneg_nonpos)
  then have "n = 0 \<or> py_int (f64_round (real n * f64_round (real_of_int p / 100))) \<le> 0"
    by (auto intro: py_int_le_0)
  then show ?thesis by (auto simp: cutoff_idx_def max_def min_def)
next
  case False
  then have n1: "1 \<le> real n" and p1: "1 \<le> real_of_int p" by simp_all
  have "real_of_int (int n * p) < 100" using assms by simp
  then have "int n * p < 100" by (metis of_int_less_iff of_int_numeral)
  then have "int n * p \<le> 99" by simp
  then have "real_of_int (int n * p) \<le> 99" by (metis of_int_le_iff of_int_numeral)
  then have le: "real n * real_of_int p / 100 \<le> 99 / 100" by simp
  have "real n * 1 \<le> real n * real_of_int p" and "1 * real_of_int p \<le> real n * real_of_int p"
    using n1 p1 by (intro mult_left_mono mult_right_mono; simp)+
  then have "real n < 100" and "real_of_int p < 100" using assms by simp_all
  then have "0 \<le> p" "p \<le> 100" "n < 2 ^ 40" using p1 by simp_all
  from cutoff_product_error [OF this] le
  have "f64_round (real n * f64_round (real_of_int p / 100)) < 1" by linarith
  then have "py_int (f64_round (real n * f64_round (real_of_int p / 100))) \<le> 0" by (rule py_int_le_0)
  then show ?thesis by (simp add: cutoff_idx_def max_def min_def)
qed

subsection \<open>The split\<close>

lemma split_groups_Inr:
  assumes "gdp_col \<in> set (columns data)"
  shows "split_groups data p =
           Inr (data\<lparr>rows := take (nat (cutoff_idx (length (rows data)) p))
                        (nargsort_desc (row_key gdp_col) (rows data))\<rparr>,
                data\<lparr>rows := drop (nat (cutoff_idx (length (rows data)) p))
                        (nargsort_desc (row_key gdp_col) (rows data))\<rparr>)"
  using assms by (simp add: split_groups_def sort_values_desc_def iloc_upto_def iloc_from_def Let_def)

lemma split_groups_Inl:
  "gdp_col \<notin> set (columns data) \<Longrightarrow> split_groups data p = Inl (KeyError gdp_col)"
  by (simp add: split_groups_def sort_values_desc_def)

lemma split_groups_floor_Inr:
  assumes "gdp_col \<in> set (columns data)"
  shows "split_groups_floor data p =
           Inr (data\<lparr>rows := take (nat (cutoff_floor (length (rows data)) p))
                        (nargsort_desc (row_key gdp_col) (rows data))\<rparr>,
                data\<lparr>rows := drop (nat (cutoff_floor (length (rows data)) p))
                        (nargsort_desc (row_key gdp_col) (rows data))\<rparr>)"
  using assms by (simp add: split_groups_floor_def sort_values_desc_def iloc_upto_def iloc_from_def Let_def)

lemma split_groups_floor_Inl:
  "gdp_col \<notin> set (columns data) \<Longrightarrow> split_groups_floor data p = Inl (KeyError gdp_col)"
  by (simp add: split_groups_floor_def sort_values_desc_def)

lemma split_groups_rows:
  assumes "split_groups data p = Inr (u, l)"
  shows "gdp_col \<in> set (columns data)"
    and "rows u = take (nat (cutoff_idx (length (rows data)) p)) (nargsort_desc (row_key gdp_col) (rows data))"
    and "rows l = drop (nat (cutoff_idx (length (rows data)) p)) (nargsort_desc (row_key gdp_col) (rows data))"
    and "columns u = columns data" and "columns l = columns data"
proof -
  show col: "gdp_col \<in> set (columns data)"
    using assms by (cases "gdp_col \<in> set (columns data)") (simp_all add: split_groups_Inl)
  from assms [unfolded split_groups_Inr [OF col]]
  show "rows u = take (nat (cutoff_idx (length (rows data)) p)) (nargsort_desc (row_key gdp_col) (rows data))"
    and "rows l = drop (nat (cutoff_idx (length (rows data)) p)) (nargsort_desc (row_key gdp_col) (rows data))"
    and "columns u = columns data" and "columns l = columns data"
    by auto
qed

lemma take_drop_sorted_desc:
  "sorted_wrt (\<lambda>a b. b \<le> a) (map f xs) \<Longrightarrow> x \<in> set (take k xs) \<Longrightarrow> y \<in> set (drop k xs)
   \<Longrightarrow> f y \<le> f x"
proof -
  assume s: "sorted_wrt (\<lambda>a b. b \<le> a) (map f xs)"
    and x: "x \<in> set (take k xs)" and y: "y \<in> set (drop k xs)"
  have "sorted_wrt (\<lambda>a b. b \<le> a) (map f (take k xs) @ map f (drop k xs))"
    using s by (simp flip: map_append)
  then have "\<forall>a\<in>set (take k xs). \<forall>b\<in>set (drop k xs). f b \<le> f a"
    by (simp add: sorted_wrt_append)
  with x y show ?thesis by blast
qed

subsection \<open>Properties of the split\<close>

text \<open>
  C1. For a frame of at least two rows the two groups are non-empty and together have
  as many rows as the frame (the spec's invariant of the data model).
\<close>

theorem split_groups_sizes:
  assumes col: "gdp_col \<in> set (columns data)" and two: "2 \<le> length (rows data)"
  shows "\<exists>u l. split_groups data p = Inr (u, l) \<and>
           length (rows u) + length (rows l) = length (rows data) \<and>
           1 \<le> length (rows u) \<and> 1 \<le> length (rows l)"
proof -
  let ?n = "length (rows data)"
  have "1 \<le> cutoff_idx ?n p \<and> cutoff_idx ?n p \<le> int ?n - 1"
    using two by (rule cutoff_idx_bounds)
  then have "1 \<le> nat (cutoff_idx ?n p)" and "nat (cutoff_idx ?n p) < ?n"
    by linarith+
  then show ?thesis by (simp add: split_groups_Inr [OF col])
qed

theorem split_groups_sizes_witness:
  "\<exists>u l. split_groups ten_rows 0 = Inr (u, l) \<and>
     length (rows u) + length (rows l) = 10 \<and> 1 \<le> length (rows u) \<and> 1 \<le> length (rows l)"
  using split_groups_sizes [of ten_rows 0] by (simp add: ten_rows_def)

text \<open>
  C2. The split is a partition of the rows: the upper group followed by the lower group is
  the sorted frame, so together they hold every row exactly once, and both keep the
  frame's columns.
\<close>

theorem split_groups_partition:
  assumes col: "gdp_col \<in> set (columns data)"
  shows "\<exists>u l. split_groups data p = Inr (u, l) \<and>
           rows u @ rows l = nargsort_desc (row_key gdp_col) (rows data) \<and>
           mset (rows u) + mset (rows l) = mset (rows data) \<and>
           columns u = columns data \<and> columns l = columns data"
proof -
  have "mset (take k ys) + mset (drop k ys) = mset ys" for k and ys :: "(nat \<times> row) list"
    by (simp flip: mset_append)
  then show ?thesis by (simp add: split_groups_Inr [OF col])
qed

theorem split_groups_partition_witness:
  "\<exists>u l. split_groups ten_rows 30 = Inr (u, l) \<and>
     rows u @ rows l = nargsort_desc (row_key gdp_col) (rows ten_rows) \<and>
     mset (rows u) + mset (rows l) = mset (rows ten_rows) \<and>
     columns u = columns ten_rows \<and> columns l = columns ten_rows"
  using split_groups_partition [of ten_rows 30] by (simp add: ten_rows_def)

text \<open>
  C5. Every row of the upper group ranks at least as high by GDP as every row of the lower
  group, and each group is in descending GDP order, rows with a missing GDP last.
\<close>

theorem split_groups_ordered:
  assumes col: "gdp_col \<in> set (columns data)"
  shows "\<exists>u l. split_groups data p = Inr (u, l) \<and>
           (\<forall>x\<in>set (rows u). \<forall>y\<in>set (rows l). row_key gdp_col y \<le> row_key gdp_col x) \<and>
           sorted_wrt (\<lambda>a b. b \<le> a) (map (row_key gdp_col) (rows u)) \<and>
           sorted_wrt (\<lambda>a b. b \<le> a) (map (row_key gdp_col) (rows l))"
proof -
  let ?s = "nargsort_desc (row_key gdp_col) (rows data)"
  let ?k = "nat (cutoff_idx (length (rows data)) p)"
  have s: "sorted_wrt (\<lambda>a b. b \<le> a) (map (row_key gdp_col) ?s)"
    by (rule nargsort_desc_sorted)
  then have "\<forall>x\<in>set (take ?k ?s). \<forall>y\<in>set (drop ?k ?s). row_key gdp_col y \<le> row_key gdp_col x"
    by (blast intro: take_drop_sorted_desc)
  moreover have "sorted_wrt (\<lambda>a b. b \<le> a) (map (row_key gdp_col) (take ?k ?s))"
    using s by (simp add: take_map [symmetric] sorted_wrt_take)
  moreover have "sorted_wrt (\<lambda>a b. b \<le> a) (map (row_key gdp_col) (drop ?k ?s))"
    using s by (simp add: drop_map [symmetric] sorted_wrt_drop)
  ultimately show ?thesis by (simp add: split_groups_Inr [OF col])
qed

theorem split_groups_ordered_witness:
  "\<exists>u l. split_groups ten_rows 70 = Inr (u, l) \<and>
     (\<forall>x\<in>set (rows u). \<forall>y\<in>set (rows l). row_key gdp_col y \<le> row_key gdp_col x) \<and>
     sorted_wrt (\<lambda>a b. b \<le> a) (map (row_key gdp_col) (rows u)) \<and>
     sorted_wrt (\<lambda>a b. b \<le> a) (map (row_key gdp_col) (rows l))"
  using split_groups_ordered [of ten_rows 70] by (simp add: ten_rows_def)

text \<open>
  C14. Raising the percentile never shrinks the upper group: the upper group at \<open>p\<close> is a
  prefix of the upper group at \<open>q \<ge> p\<close>, and the lower group at \<open>q\<close> is a suffix of
  the lower group at \<open>p\<close>.
\<close>

theorem split_groups_mono:
  assumes col: "gdp_col \<in> set (columns data)" and pq: "p \<le> q"
  shows "\<exists>u l u' l'. split_groups data p = Inr (u, l) \<and> split_groups data q = Inr (u', l') \<and>
           length (rows u) \<le> length (rows u') \<and>
           rows u = take (length (rows u)) (rows u') \<and>
           rows l' = drop (length (rows u') - length (rows u)) (rows l)"
proof -
  let ?s = "nargsort_desc (row_key gdp_col) (rows data)"
  let ?n = "length (rows data)"
  have le: "nat (cutoff_idx ?n p) \<le> nat (cutoff_idx ?n q)"
    using cutoff_idx_mono [OF pq, of ?n] by (rule nat_mono)
  then have "min ?n (nat (cutoff_idx ?n p)) \<le> min ?n (nat (cutoff_idx ?n q))"
    by simp
  moreover have "take (nat (cutoff_idx ?n p)) ?s = take (min ?n (nat (cutoff_idx ?n p))) (take (nat (cutoff_idx ?n q)) ?s)"
    using le by (simp add: min_def)
  moreover have "drop (nat (cutoff_idx ?n q)) ?s
      = drop (min ?n (nat (cutoff_idx ?n q)) - min ?n (nat (cutoff_idx ?n p))) (drop (nat (cutoff_idx ?n p)) ?s)"
    using le by (simp add: min_def)
  ultimately show ?thesis by (simp add: split_groups_Inr [OF col] min.commute)
qed

theorem split_groups_mono_witness:
  "\<exists>u l u' l'. split_groups ten_rows 20 = Inr (u, l) \<and> split_groups ten_rows 60 = Inr (u', l') \<and>
     length (rows u) \<le> length (rows u') \<and> rows u = take (length (rows u)) (rows u') \<and>
     rows l' = drop (length (rows u') - length (rows u)) (rows l)"
  using split_groups_mono [of ten_rows 20 60] by (simp add: ten_rows_def)

text \<open>
  C17. The tie-break does not matter for GDP: against any arrangement \<open>ys\<close> of the rows
  in descending GDP order (NaN last), the upper and lower groups have exactly the GDP
  values of the first \<open>k\<close> and the remaining rows of \<open>ys\<close>. Only which of several
  rows with equal GDP lands on either side of the cut can depend on the sort.
\<close>

theorem split_groups_tie_independent:
  assumes col: "gdp_col \<in> set (columns data)"
    and perm: "mset ys = mset (rows data)"
    and desc: "sorted_wrt (\<lambda>a b. b \<le> a) (map (row_key gdp_col) ys)"
  shows "\<exists>u l. split_groups data p = Inr (u, l) \<and>
           map (row_key gdp_col) (rows u) = map (row_key gdp_col) (take (length (rows u)) ys) \<and>
           map (row_key gdp_col) (rows l) = map (row_key gdp_col) (drop (length (rows u)) ys)"
proof -
  let ?s = "nargsort_desc (row_key gdp_col) (rows data)"
  let ?k = "nat (cutoff_idx (length (rows data)) p)"
  have keys: "map (row_key gdp_col) ?s = map (row_key gdp_col) ys"
    by (rule desc_keys_unique [OF _ nargsort_desc_sorted perm desc]) simp
  have len: "length ys = length ?s"
    using perm by (metis length_nargsort_desc size_mset)
  have t: "take (length (take ?k ?s)) ys = take ?k ys" and d: "drop (length (take ?k ?s)) ys = drop ?k ys"
    using len by (simp_all add: min_def)
  have "map (row_key gdp_col) (take ?k ?s) = map (row_key gdp_col) (take (length (take ?k ?s)) ys)"
    unfolding t take_map [symmetric] keys ..
  moreover have "map (row_key gdp_col) (drop ?k ?s) = map (row_key gdp_col) (drop (length (take ?k ?s)) ys)"
    unfolding d drop_map [symmetric] keys ..
  ultimately show ?thesis by (simp add: split_groups_Inr [OF col])
qed

theorem split_groups_tie_independent_witness:
  "\<exists>u l. split_groups ten_rows 40 = Inr (u, l) \<and>
     map (row_key gdp_col) (rows u) = map (row_key gdp_col) (take (length (rows u)) (rows ten_rows)) \<and>
     map (row_key gdp_col) (rows l) = map (row_key gdp_col) (drop (length (rows u)) (rows ten_rows))"
proof -
  have "sorted_wrt (\<lambda>a b. b \<le> a) (map (row_key gdp_col) (rows ten_rows))"
    by (simp add: ten_rows_def row_key_def gdp_row_def upt_conv_Cons)
  then show ?thesis
    using split_groups_tie_independent [of ten_rows "rows ten_rows" 40] by (simp add: ten_rows_def)
qed

text \<open>
  C16. On a frame of one row the clamp cannot make both groups non-empty: the code returns
  the row as the upper group and an empty lower group, without the spec's
  \<open>InsufficientDataError\<close>; an empty frame gives two empty groups.
\<close>

theorem split_groups_degenerate:
  assumes col: "gdp_col \<in> set (columns data)" and small: "length (rows data) \<le> 1"
  shows "\<exists>u l. split_groups data p = Inr (u, l) \<and>
           mset (rows u) = mset (rows data) \<and> rows l = []"
proof -
  have "nat (cutoff_idx (length (rows data)) p) \<ge> length (rows data)"
    using small cutoff_idx_pos [of "length (rows data)" p] by linarith
  then show ?thesis by (simp add: split_groups_Inr [OF col])
qed

theorem split_groups_degenerate_witness:
  "\<exists>u l. split_groups one_row 50 = Inr (u, l) \<and> mset (rows u) = mset (rows one_row) \<and> rows l = []"
  using split_groups_degenerate [of one_row 50] by (simp add: one_row_def)

text \<open>
  C3. Off the exact multiples the code's split is the spec's: when \<open>n * p\<close> is not a
  multiple of 100, the split Python computes with binary64 floats is the split with the
  spec's cutoff \<open>floor(n * p / 100)\<close> (for percentiles in \<open>[0, 100]\<close> and fewer than
  \<open>2^40\<close> rows).
\<close>

theorem split_groups_refines_floor:
  assumes "0 \<le> p" and "p \<le> 100" and "length (rows data) < 2 ^ 40"
    and "\<not> 100 dvd (int (length (rows data)) * p)"
  shows "split_groups data p = split_groups_floor data p"
proof (cases "gdp_col \<in> set (columns data)")
  case True
  have "cutoff_idx (length (rows data)) p = cutoff_floor (length (rows data)) p"
    using py_int_product_close [OF assms(1-3)] assms(4) by (simp add: cutoff_idx_def cutoff_floor_py_int)
  then show ?thesis using True by (simp add: split_groups_Inr split_groups_floor_Inr)
next
  case False
  then show ?thesis by (simp add: split_groups_Inl split_groups_floor_Inl)
qed

theorem split_groups_refines_floor_witness:
  "split_groups (gdp_frame 10) 55 = split_groups_floor (gdp_frame 10) 55"
  by (rule split_groups_refines_floor) (simp_all add: gdp_frame_def)

text \<open>
  C10. On every input the code's cutoff is the spec's or one less, never more: at an
  exact multiple the rounded product may fall just below the integer, as at 180 rows and
  percentile 35, where \<open>180 * 0.35\<close> is \<open>62.99999999999999\<close> in binary64.
\<close>

theorem cutoff_idx_floor_bounds:
  assumes "0 \<le> p" and "p \<le> 100" and "n < 2 ^ 40"
  shows "cutoff_floor n p - 1 \<le> cutoff_idx n p \<and> cutoff_idx n p \<le> cutoff_floor n p"
  using py_int_product_close [OF assms] clamp_close unfolding cutoff_idx_def cutoff_floor_py_int
  by (metis (no_types, lifting))

theorem cutoff_idx_floor_bounds_witness:
  "cutoff_idx 180 35 = 62 \<and> cutoff_floor 180 35 = 63 \<and>
   cutoff_floor 180 35 - 1 \<le> cutoff_idx 180 35 \<and> cutoff_idx 180 35 \<le> cutoff_floor 180 35"
proof -
  have "cutoff_floor 180 35 = 63" by (simp add: cutoff_floor_def)
  then show ?thesis using cutoff_idx_floor_bounds [of 35 180] cutoff_idx_180_35 by simp
qed

end
