(* ===== verification/Stats.thy ===== *)
theory Stats
  imports Prelude
begin

text \<open>
  The descriptive statistics of lines 48 to 62 of \<^verbatim>\<open>analyze_split\<close>: for a column
  \<^verbatim>\<open>group[year]\<close> of a group, the twelve values of the dict, each computed by a pandas
  \<^verbatim>\<open>Series\<close> reduction with \<^verbatim>\<open>skipna=True\<close> (so over \<open>dropna col\<close>), as pandas'
  \<^verbatim>\<open>nanops\<close> module computes them:
  \<^item> \<^verbatim>\<open>mean\<close>, \<^verbatim>\<open>median\<close>, \<^verbatim>\<open>min\<close>, \<^verbatim>\<open>max\<close>: NaN on no values;
  \<^item> \<^verbatim>\<open>var\<close> and \<^verbatim>\<open>std\<close> with \<^verbatim>\<open>ddof=1\<close>: NaN on fewer than two values;
  \<^item> \<^verbatim>\<open>skew\<close> (\<^verbatim>\<open>nanskew\<close>): NaN on fewer than three values, 0 when the sum of squared
    deviations is (after \<^verbatim>\<open>_zero_out_fperr\<close>) zero;
  \<^item> \<^verbatim>\<open>kurtosis\<close> (\<^verbatim>\<open>nankurt\<close>): NaN on fewer than four values, 0 when its denominator
    is zero;
  \<^item> \<^verbatim>\<open>sum\<close>: 0 on no values (\<^verbatim>\<open>min_count=0\<close>); \<^verbatim>\<open>count\<close>: the number of values.
  The source composes two more: \<^verbatim>\<open>Range = max() - min()\<close> and
  \<^verbatim>\<open>Standard Error = std() / len(group[year]) ** 0.5\<close>, where \<^verbatim>\<open>len\<close> counts the
  missing cells too.
\<close>

named_theorems stats_defs "definitions of the column statistics"

definition mean_of :: "real list \<Rightarrow> real" where
  "mean_of v = sum_list v / real (length v)"

text \<open>Sum of the \<open>k\<close>-th powers of the deviations from the mean (pandas' \<open>m2\<close>, \<open>m3\<close>, \<open>m4\<close>).\<close>

definition moment_sum :: "nat \<Rightarrow> real list \<Rightarrow> real" where
  "moment_sum k v = sum_list (map (\<lambda>x. (x - mean_of v) ^ k) v)"

text \<open>pandas' \<^verbatim>\<open>_zero_out_fperr\<close>: values below \<open>1e-14\<close> in magnitude are taken as 0.\<close>

definition zero_out_fperr :: "real \<Rightarrow> real" where
  "zero_out_fperr x = (if \<bar>x\<bar> < 1 / 10 ^ 14 then 0 else x)"

definition median_of :: "real list \<Rightarrow> real" where
  "median_of v =
     (let s = sort v; n = length v
      in if even n then (s ! (n div 2 - 1) + s ! (n div 2)) / 2 else s ! (n div 2))"

definition s_count :: "cell list \<Rightarrow> nat" where
  "s_count col = length (dropna col)"

definition s_sum :: "cell list \<Rightarrow> fl" where
  "s_sum col = Fin (sum_list (dropna col))"

definition s_mean :: "cell list \<Rightarrow> fl" where
  "s_mean col = (let v = dropna col in if v = [] then NaN else Fin (mean_of v))"

definition s_median :: "cell list \<Rightarrow> fl" where
  "s_median col = (let v = dropna col in if v = [] then NaN else Fin (median_of v))"

definition s_min :: "cell list \<Rightarrow> fl" where
  "s_min col = (let v = dropna col in if v = [] then NaN else Fin (Min (set v)))"

definition s_max :: "cell list \<Rightarrow> fl" where
  "s_max col = (let v = dropna col in if v = [] then NaN else Fin (Max (set v)))"

definition s_var :: "cell list \<Rightarrow> fl" where
  "s_var col =
     (let v = dropna col in
      if length v \<le> 1 then NaN else Fin (moment_sum 2 v / real (length v - 1)))"

definition s_std :: "cell list \<Rightarrow> fl" where
  "s_std col = (case s_var col of Fin x \<Rightarrow> Fin (sqrt x) | r \<Rightarrow> r)"

text \<open>
  \<^verbatim>\<open>nanskew\<close>: \<open>n (n - 1) ** 0.5 / (n - 2) * (m3 / m2 ** 1.5)\<close>, written with \<open>sqrt\<close>
  (\<open>m2 ** 1.5 = m2 * sqrt m2\<close> for the non-negative \<open>m2\<close>).
\<close>

definition s_skew :: "cell list \<Rightarrow> fl" where
  "s_skew col =
     (let v = dropna col; n = real (length v);
          m2 = zero_out_fperr (moment_sum 2 v); m3 = zero_out_fperr (moment_sum 3 v)
      in if length v < 3 then NaN
         else if m2 = 0 then Fin 0
         else Fin (n * sqrt (n - 1) / (n - 2) * (m3 / (m2 * sqrt m2))))"

text \<open>\<^verbatim>\<open>nankurt\<close>: \<open>numerator / denominator - adj\<close>, both zeroed when tiny.\<close>

definition s_kurt :: "cell list \<Rightarrow> fl" where
  "s_kurt col =
     (let v = dropna col; n = real (length v);
          m2 = moment_sum 2 v; m4 = moment_sum 4 v;
          adj = 3 * (n - 1) ^ 2 / ((n - 2) * (n - 3));
          numer = zero_out_fperr (n * (n + 1) * (n - 1) * m4);
          denom = zero_out_fperr ((n - 2) * (n - 3) * m2 ^ 2)
      in if length v < 4 then NaN
         else if denom = 0 then Fin 0
         else Fin (numer / denom - adj))"

declare mean_of_def [stats_defs] moment_sum_def [stats_defs] s_count_def [stats_defs]
  s_sum_def [stats_defs] s_mean_def [stats_defs] s_median_def [stats_defs]
  s_min_def [stats_defs] s_max_def [stats_defs] s_var_def [stats_defs] s_std_def [stats_defs]

text \<open>The dict \<^verbatim>\<open>stats[year]\<close>, one field per key, in the source's order.\<close>

record desc_stats =
  st_mean :: fl
  st_std_error :: fl
  st_median :: fl
  st_std :: fl
  st_variance :: fl
  st_kurtosis :: fl
  st_skewness :: fl
  st_range :: fl
  st_minimum :: fl
  st_maximum :: fl
  st_sum :: fl
  st_count :: nat

definition describe :: "cell list \<Rightarrow> desc_stats" where
  "describe col =
     \<lparr>st_mean = s_mean col,
      st_std_error = fl_div (s_std col) (Fin (sqrt (real (length col)))),
      st_median = s_median col,
      st_std = s_std col,
      st_variance = s_var col,
      st_kurtosis = s_kurt col,
      st_skewness = s_skew col,
      st_range = fl_sub (s_max col) (s_min col),
      st_minimum = s_min col,
      st_maximum = s_max col,
      st_sum = s_sum col,
      st_count = s_count col\<rparr>"

text \<open>
  The textbook sample skewness and excess kurtosis the spec names as the convention
  (the adjusted Fisher-Pearson \<open>G1\<close> and the bias-corrected \<open>G2\<close>), from the
  population moments \<open>k_j = m_j / n\<close>.
\<close>

definition sample_skewness :: "real list \<Rightarrow> real" where
  "sample_skewness v =
     (let n = real (length v); k2 = moment_sum 2 v / n; k3 = moment_sum 3 v / n
      in sqrt (n * (n - 1)) / (n - 2) * (k3 / (k2 * sqrt k2)))"

definition sample_excess_kurtosis :: "real list \<Rightarrow> real" where
  "sample_excess_kurtosis v =
     (let n = real (length v); k2 = moment_sum 2 v / n; k4 = moment_sum 4 v / n;
          g2 = k4 / k2 ^ 2 - 3
      in ((n + 1) * g2 + 6) * (n - 1) / ((n - 2) * (n - 3)))"

subsection \<open>Lemmas on the list statistics\<close>

lemma moment_sum_2_nonneg [simp]: "0 \<le> moment_sum 2 v"
  by (simp add: moment_sum_def sum_list_nonneg_map)

lemma zero_out_fperr_id: "1 / 10 ^ 14 \<le> \<bar>x\<bar> \<Longrightarrow> zero_out_fperr x = x"
  by (simp add: zero_out_fperr_def)

lemma skew_convention:
  fixes n m2 m3 :: real
  assumes "3 \<le> n" "0 < m2"
  shows "n * sqrt (n - 1) / (n - 2) * (m3 / (m2 * sqrt m2)) =
         sqrt (n * (n - 1)) / (n - 2) * (m3 / n / (m2 / n * sqrt (m2 / n)))"
proof -
  have n: "0 < n" "sqrt n * sqrt n = n" "0 < sqrt n" using assms by auto
  have m: "0 < sqrt m2" using assms by simp
  have s1: "sqrt (n * (n - 1)) = sqrt n * sqrt (n - 1)" by (rule real_sqrt_mult)
  have s2: "sqrt (m2 / n) = sqrt m2 / sqrt n" by (rule real_sqrt_divide)
  have "m3 / n / (m2 / n * (sqrt m2 / sqrt n)) = m3 * sqrt n / (m2 * sqrt m2)"
    using n m assms by (simp add: field_simps)
  then show ?thesis unfolding s1 s2 using n m assms
    by (simp add: field_simps)
qed

lemma kurt_convention:
  fixes n m2 m4 :: real
  assumes "4 \<le> n" "m2 \<noteq> 0"
  shows "n * (n + 1) * (n - 1) * m4 / ((n - 2) * (n - 3) * m2 ^ 2) - 3 * (n - 1) ^ 2 / ((n - 2) * (n - 3))
   = ((n + 1) * ((m4 / n) / (m2 / n) ^ 2 - 3) + 6) * (n - 1) / ((n - 2) * (n - 3))"
proof -
  define D where "D = (n - 2) * (n - 3)"
  have D: "D \<noteq> 0" using assms by (simp add: D_def)
  have n: "n \<noteq> 0" using assms by simp
  have "(m4 / n) / (m2 / n) ^ 2 = n * m4 / m2 ^ 2"
    using n assms by (simp add: field_simps power2_eq_square)
  then have "((n + 1) * ((m4 / n) / (m2 / n) ^ 2 - 3) + 6) * (n - 1) / D
           = n * (n + 1) * (n - 1) * m4 / (D * m2 ^ 2) - 3 * (n - 1) ^ 2 / D"
    using D assms by (simp add: field_simps power2_eq_square)
  then show ?thesis by (simp add: D_def mult.assoc)
qed

lemma describe_fields [simp]:
  "st_mean (describe col) = s_mean col"
  "st_std_error (describe col) = fl_div (s_std col) (Fin (sqrt (real (length col))))"
  "st_median (describe col) = s_median col"
  "st_std (describe col) = s_std col"
  "st_variance (describe col) = s_var col"
  "st_kurtosis (describe col) = s_kurt col"
  "st_skewness (describe col) = s_skew col"
  "st_range (describe col) = fl_sub (s_max col) (s_min col)"
  "st_minimum (describe col) = s_min col"
  "st_maximum (describe col) = s_max col"
  "st_sum (describe col) = s_sum col"
  "st_count (describe col) = s_count col"
  by (simp_all add: describe_def)

lemma s_var_Fin:
  "2 \<le> s_count col \<Longrightarrow> s_var col = Fin (moment_sum 2 (dropna col) / real (s_count col - 1))"
  by (simp add: s_var_def s_count_def Let_def)

subsection \<open>Properties of the statistics\<close>

text \<open>
  C9. \<^verbatim>\<open>Count\<close> excludes the missing cells: it is the column's length less the number of
  missing values, not the group size.
\<close>

theorem describe_count:
  "st_count (describe col) = length col - length (filter (\<lambda>c. c = None) col)"
proof -
  have "length (filter (\<lambda>c. c \<noteq> None) col) + length (filter (\<lambda>c. \<not> c \<noteq> None) col) = length col"
    by (rule sum_length_filter_compl)
  then show ?thesis by (simp add: s_count_def length_dropna_filter)
qed

text \<open>
  C8. A column with no value in the group gives the NaN sentinel for every statistic
  but \<^verbatim>\<open>Sum\<close> (0) and \<^verbatim>\<open>Count\<close> (0); nothing raises.
\<close>

theorem describe_all_missing:
  assumes "dropna col = []"
  shows "describe col =
           \<lparr>st_mean = NaN, st_std_error = NaN, st_median = NaN, st_std = NaN,
            st_variance = NaN, st_kurtosis = NaN, st_skewness = NaN, st_range = NaN,
            st_minimum = NaN, st_maximum = NaN, st_sum = Fin 0, st_count = 0\<rparr>"
  using assms by (simp add: describe_def stats_defs s_skew_def s_kurt_def)

theorem describe_all_missing_witness:
  "describe [None, None] =
     \<lparr>st_mean = NaN, st_std_error = NaN, st_median = NaN, st_std = NaN,
      st_variance = NaN, st_kurtosis = NaN, st_skewness = NaN, st_range = NaN,
      st_minimum = NaN, st_maximum = NaN, st_sum = Fin 0, st_count = 0\<rparr>"
  using describe_all_missing [of "[None, None]"] by simp

text \<open>
  C20. \<^verbatim>\<open>Standard Error\<close> divides the standard deviation by the square root of the
  column's length, missing cells included. When the group has missing values and the
  values vary, it is strictly smaller than the spec's \<open>std / sqrt(non-missing count)\<close>.
\<close>

theorem describe_std_error_len:
  assumes two: "2 \<le> st_count (describe col)"
    and miss: "st_count (describe col) < length col"
    and var: "st_variance (describe col) \<noteq> Fin 0"
  shows "\<exists>sd se. st_std (describe col) = Fin sd \<and> st_std_error (describe col) = Fin se \<and>
           se = sd / sqrt (real (length col)) \<and>
           se < sd / sqrt (real (st_count (describe col)))"
proof -
  let ?s2 = "moment_sum 2 (dropna col) / real (s_count col - 1)"
  have n: "0 < real (s_count col - 1)" using two by simp
  have "moment_sum 2 (dropna col) \<noteq> 0" using var two by (simp add: s_var_Fin)
  then have "0 < moment_sum 2 (dropna col)"
    using moment_sum_2_nonneg [of "dropna col"] by linarith
  then have sd: "0 < sqrt ?s2" using n by simp
  have lt: "sqrt (real (s_count col)) < sqrt (real (length col))"
    using miss by simp
  have c: "0 < sqrt (real (s_count col))" using two by simp
  have l: "0 < sqrt (real (length col))" using miss by (cases col) simp_all
  have "sqrt ?s2 / sqrt (real (length col)) < sqrt ?s2 / sqrt (real (s_count col))"
    by (rule divide_strict_left_mono [OF lt sd]) (rule mult_pos_pos [OF l c])
  with l show ?thesis using two by (simp add: s_std_def s_var_Fin)
qed

theorem describe_std_error_len_witness:
  "\<exists>sd se. st_std (describe [Some 1, Some 3, None]) = Fin sd \<and>
     st_std_error (describe [Some 1, Some 3, None]) = Fin se \<and>
     se = sd / sqrt (real (length [Some (1::real), Some 3, None])) \<and>
     se < sd / sqrt (real (st_count (describe [Some 1, Some 3, None])))"
  by (rule describe_std_error_len) (simp_all add: stats_defs)

text \<open>
  C18. \<^verbatim>\<open>Skewness\<close> is the bias-corrected sample skewness (adjusted Fisher-Pearson
  \<open>G1\<close>), as the spec requires, wherever pandas' \<open>1e-14\<close> rounding guard does not
  apply to the second and third moment sums.
\<close>

theorem describe_skewness_convention:
  assumes three: "3 \<le> st_count (describe col)"
    and m2: "1 / 10 ^ 14 \<le> moment_sum 2 (dropna col)"
    and m3: "1 / 10 ^ 14 \<le> \<bar>moment_sum 3 (dropna col)\<bar>"
  shows "st_skewness (describe col) = Fin (sample_skewness (dropna col))"
proof -
  let ?v = "dropna col"
  have pos: "0 < moment_sum 2 ?v" by (rule less_le_trans [OF _ m2]) simp
  have "zero_out_fperr (moment_sum 2 ?v) = moment_sum 2 ?v"
    and "zero_out_fperr (moment_sum 3 ?v) = moment_sum 3 ?v"
    using m2 m3 by (simp_all add: zero_out_fperr_id)
  moreover have "3 \<le> real (length ?v)" using three by (simp add: s_count_def)
  ultimately show ?thesis
    using three pos skew_convention [of "real (length ?v)" "moment_sum 2 ?v" "moment_sum 3 ?v"]
    by (simp add: s_skew_def sample_skewness_def s_count_def Let_def)
qed

theorem describe_skewness_convention_witness:
  "st_skewness (describe [Some 0, Some 0, Some 3]) = Fin (sample_skewness (dropna [Some 0, Some 0, Some 3]))"
  by (rule describe_skewness_convention) (simp_all add: stats_defs)

text \<open>
  C19. \<^verbatim>\<open>Kurtosis\<close> is the bias-corrected sample excess kurtosis \<open>G2\<close>, wherever
  pandas' \<open>1e-14\<close> guard does not apply to its numerator and denominator.
\<close>

theorem describe_kurtosis_convention:
  assumes four: "4 \<le> st_count (describe col)"
    and den: "1 / 10 ^ 14 \<le> (real (st_count (describe col)) - 2) * (real (st_count (describe col)) - 3)
                               * moment_sum 2 (dropna col) ^ 2"
    and num: "1 / 10 ^ 14 \<le> real (st_count (describe col)) * (real (st_count (describe col)) + 1)
                               * (real (st_count (describe col)) - 1) * moment_sum 4 (dropna col)"
  shows "st_kurtosis (describe col) = Fin (sample_excess_kurtosis (dropna col))"
proof -
  let ?v = "dropna col"
  let ?n = "real (length ?v)"
  have n: "4 \<le> ?n" using four by (simp add: s_count_def)
  have "(?n - 2) * (?n - 3) * moment_sum 2 ?v ^ 2 \<noteq> 0"
    using den by (auto simp: s_count_def)
  then have m2: "moment_sum 2 ?v \<noteq> 0" by simp
  have "zero_out_fperr ((?n - 2) * (?n - 3) * moment_sum 2 ?v ^ 2) = (?n - 2) * (?n - 3) * moment_sum 2 ?v ^ 2"
    using den by (intro zero_out_fperr_id) (simp add: s_count_def)
  moreover have "zero_out_fperr (?n * (?n + 1) * (?n - 1) * moment_sum 4 ?v) = ?n * (?n + 1) * (?n - 1) * moment_sum 4 ?v"
    using num by (intro zero_out_fperr_id) (simp add: s_count_def)
  ultimately show ?thesis
    using four m2 kurt_convention [OF n m2, of "moment_sum 4 ?v"]
    by (simp add: s_kurt_def sample_excess_kurtosis_def s_count_def Let_def)
qed

theorem describe_kurtosis_convention_witness:
  "st_kurtosis (describe [Some 1, Some 2, Some 3, Some 4]) = Fin (sample_excess_kurtosis (dropna [Some 1, Some 2, Some 3, Some 4]))"
  by (rule describe_kurtosis_convention) (simp_all add: stats_defs power2_eq_square power_divide)

end
