(* ===== verification/TTest.thy ===== *)
theory TTest
  imports Stats
begin

text \<open>
  The hypothesis test of lines 43, 44 and 68 of \<^verbatim>\<open>analyze_split\<close>:
  \<^verbatim>\<open>ttest_ind(group['2021_HE'], group['2019_HE'], nan_policy='omit')\<close>, the
  one-tailed p-value \<^verbatim>\<open>pvalue / 2\<close> and the flag
  \<^verbatim>\<open>one_tailed_pvalue < 0.05 and statistic > 0\<close>.
  \<open>ttest_ind\<close> is scipy's equal-variance two-sample test as \<^verbatim>\<open>_ttest_ind_from_stats\<close>
  computes it after \<^verbatim>\<open>nan_policy='omit'\<close> has removed each sample's NaNs: an empty
  sample gives NaN results (scipy's too-small check); a sample of one value makes the
  \<^verbatim>\<open>ddof=1\<close> variance NaN, which propagates to both results; otherwise
  \<open>t = (mean1 - mean2) / sqrt(svar * (1/n1 + 1/n2))\<close> with the pooled variance
  \<open>svar\<close> over \<open>n1 + n2 - 2\<close> degrees of freedom, a float division (so \<open>\<plusminus>inf\<close> or
  NaN on a zero pooled variance), and the two-sided p-value \<open>2 * sf(|t|, df)\<close>.
  The Student-t survival function is the interface \<open>t_sf\<close>: the model takes it as a
  parameter, and no lemma depends on which function it is.
\<close>

type_synonym t_sf = "real \<Rightarrow> real \<Rightarrow> real" \<comment> \<open>\<open>sf df x\<close> is \<^verbatim>\<open>t.sf(x, df)\<close>\<close>

record ttest_result =
  statistic :: fl
  pvalue :: fl

definition t_pvalue :: "t_sf \<Rightarrow> real \<Rightarrow> fl \<Rightarrow> fl" where
  "t_pvalue sf df t =
     (case t of Fin x \<Rightarrow> Fin (2 * sf df \<bar>x\<bar>) | PInf \<Rightarrow> Fin 0 | NInf \<Rightarrow> Fin 0 | NaN \<Rightarrow> NaN)"

definition pooled_var :: "real list \<Rightarrow> real list \<Rightarrow> real" where
  "pooled_var x y =
     (let n1 = real (length x); n2 = real (length y);
          v1 = moment_sum 2 x / (n1 - 1); v2 = moment_sum 2 y / (n2 - 1)
      in ((n1 - 1) * v1 + (n2 - 1) * v2) / (n1 + n2 - 2))"

definition ttest_ind :: "t_sf \<Rightarrow> cell list \<Rightarrow> cell list \<Rightarrow> ttest_result" where
  "ttest_ind sf a b =
     (let x = dropna a; y = dropna b
      in if x = [] \<or> y = [] then \<lparr>statistic = NaN, pvalue = NaN\<rparr>
         else if length x < 2 \<or> length y < 2 then \<lparr>statistic = NaN, pvalue = NaN\<rparr>
         else
           (let n1 = real (length x); n2 = real (length y); df = n1 + n2 - 2;
                denom = sqrt (pooled_var x y * (1 / n1 + 1 / n2));
                t = fl_div (Fin (mean_of x - mean_of y)) (Fin denom)
            in \<lparr>statistic = t, pvalue = t_pvalue sf df t\<rparr>))"

definition one_tailed :: "fl \<Rightarrow> fl" where
  "one_tailed p = fl_div p (Fin 2)"

definition significant :: "fl \<Rightarrow> fl \<Rightarrow> bool" where
  "significant p t \<longleftrightarrow> fl_less p (Fin (5 / 100)) \<and> fl_less (Fin 0) t"

text \<open>A survival-function stand-in of the right range, for the witnesses.\<close>

definition half_sf :: t_sf where
  "half_sf df x = 1 / (2 + x)"

subsection \<open>Lemmas on the test\<close>

lemma pooled_var_eq:
  assumes "2 \<le> length x" and "2 \<le> length y"
  shows "pooled_var x y = (moment_sum 2 x + moment_sum 2 y) / (real (length x) + real (length y) - 2)"
proof -
  have "real (length x) - 1 \<noteq> 0" and "real (length y) - 1 \<noteq> 0" using assms by auto
  then show ?thesis by (simp add: pooled_var_def Let_def)
qed

lemma pooled_var_nonneg: "2 \<le> length x \<Longrightarrow> 2 \<le> length y \<Longrightarrow> 0 \<le> pooled_var x y"
  by (simp add: pooled_var_eq)

lemma ttest_ind_small:
  "length (dropna a) < 2 \<or> length (dropna b) < 2 \<Longrightarrow>
   ttest_ind sf a b = \<lparr>statistic = NaN, pvalue = NaN\<rparr>"
  by (simp add: ttest_ind_def Let_def)

lemma ttest_ind_main:
  assumes "2 \<le> length (dropna a)" and "2 \<le> length (dropna b)"
  shows "ttest_ind sf a b =
    (let x = dropna a; y = dropna b; n1 = real (length x); n2 = real (length y);
         t = fl_div (Fin (mean_of x - mean_of y)) (Fin (sqrt (pooled_var x y * (1 / n1 + 1 / n2))))
     in \<lparr>statistic = t, pvalue = t_pvalue sf (n1 + n2 - 2) t\<rparr>)"
proof -
  have "dropna a \<noteq> []" "dropna b \<noteq> []" "\<not> length (dropna a) < 2" "\<not> length (dropna b) < 2"
    using assms by auto
  then show ?thesis by (simp add: ttest_ind_def Let_def del: fl_div.simps)
qed

text \<open>The statistic is positive exactly when the first sample's mean is the larger.\<close>

lemma fl_div_pos_iff: "0 \<le> b \<Longrightarrow> fl_less (Fin 0) (fl_div (Fin a) (Fin b)) \<longleftrightarrow> 0 < a"
  by (cases "b = 0") (auto simp: fl_simps zero_less_divide_iff)

lemma ttest_statistic_pos_iff:
  "fl_less (Fin 0) (statistic (ttest_ind sf a b)) \<longleftrightarrow>
     2 \<le> length (dropna a) \<and> 2 \<le> length (dropna b) \<and> mean_of (dropna b) < mean_of (dropna a)"
proof (cases "2 \<le> length (dropna a) \<and> 2 \<le> length (dropna b)")
  case True
  then have "0 \<le> pooled_var (dropna a) (dropna b)" by (simp add: pooled_var_nonneg)
  then have den: "0 \<le> sqrt (pooled_var (dropna a) (dropna b)
                * (1 / real (length (dropna a)) + 1 / real (length (dropna b))))"
    by simp
  have "statistic (ttest_ind sf a b) =
        fl_div (Fin (mean_of (dropna a) - mean_of (dropna b)))
          (Fin (sqrt (pooled_var (dropna a) (dropna b)
                * (1 / real (length (dropna a)) + 1 / real (length (dropna b))))))"
    using True by (simp add: ttest_ind_main Let_def del: fl_div.simps)
  with True show ?thesis by (simp only: fl_div_pos_iff [OF den]) simp
next
  case False
  then have "length (dropna a) < 2 \<or> length (dropna b) < 2" by linarith
  then have "ttest_ind sf a b = \<lparr>statistic = NaN, pvalue = NaN\<rparr>" by (rule ttest_ind_small)
  with False show ?thesis by auto
qed

lemma one_tailed_Fin [simp]: "one_tailed (Fin q) = Fin (q / 2)" and one_tailed_NaN [simp]: "one_tailed NaN = NaN"
  by (simp_all add: one_tailed_def)

end
