(* ===== verification/Analysis.thy ===== *)
theory Analysis
  imports Splitter TTest
begin

text \<open>
  \<^verbatim>\<open>analyze_split(data, percentile_threshold)\<close>, lines 21 to 72: the Splitter's two
  groups, then for each group (upper first) the t-test of \<^verbatim>\<open>2021_HE\<close> against
  \<^verbatim>\<open>2019_HE\<close>, the one-tailed p-value, the significance flag and the statistics of both
  columns, stored in the dict \<^verbatim>\<open>results\<close> under the labels \<^verbatim>\<open>Top {p}%\<close> and
  \<^verbatim>\<open>Bottom {100-p}%\<close>. \<open>analyze_group\<close> is the loop body (lines 42 to 70), with the
  column reads in the source's order: \<^verbatim>\<open>group['2021_HE']\<close> before \<^verbatim>\<open>group['2019_HE']\<close>.
  A \<^verbatim>\<open>KeyError\<close> anywhere aborts the whole call, so no partial dict is returned.
\<close>

record group_result =
  gr_data :: frame
  gr_pvalue :: fl
  gr_statistic :: fl
  gr_significant :: bool
  gr_stats :: "(string \<times> desc_stats) list"

definition analyze_group :: "t_sf \<Rightarrow> frame \<Rightarrow> py_error + group_result" where
  "analyze_group sf g =
     (case get_column g he2021_col of
        Inl e \<Rightarrow> Inl e
      | Inr c21 \<Rightarrow>
          (case get_column g he2019_col of
             Inl e \<Rightarrow> Inl e
           | Inr c19 \<Rightarrow>
               (let r = ttest_ind sf c21 c19; p1 = one_tailed (pvalue r)
                in Inr \<lparr>gr_data = g, gr_pvalue = p1, gr_statistic = statistic r,
                        gr_significant = significant p1 (statistic r),
                        gr_stats = dict_set (dict_set [] he2019_col (describe c19))
                                     he2021_col (describe c21)\<rparr>)))"

definition top_label :: "int \<Rightarrow> string" where
  "top_label p = ''Top '' @ int_str p @ ''%''"

definition bottom_label :: "int \<Rightarrow> string" where
  "bottom_label p = ''Bottom '' @ int_str (100 - p) @ ''%''"

definition analyze_split :: "t_sf \<Rightarrow> frame \<Rightarrow> int \<Rightarrow> py_error + (string \<times> group_result) list" where
  "analyze_split sf data p =
     (case split_groups data p of
        Inl e \<Rightarrow> Inl e
      | Inr (u, l) \<Rightarrow>
          (case analyze_group sf u of
             Inl e \<Rightarrow> Inl e
           | Inr ru \<Rightarrow>
               (case analyze_group sf l of
                  Inl e \<Rightarrow> Inl e
                | Inr rl \<Rightarrow> Inr (dict_set (dict_set [] (top_label p) ru) (bottom_label p) rl))))"

text \<open>Rows with both health-expenditure values, for the witnesses.\<close>

definition he_row :: "real \<Rightarrow> cell \<Rightarrow> cell \<Rightarrow> row" where
  "he_row g h19 h21 = (\<lambda>c. if c = gdp_col then Some g else if c = he2019_col then h19
                            else if c = he2021_col then h21 else None)"

definition he_frame :: "(real \<times> cell \<times> cell) list \<Rightarrow> frame" where
  "he_frame xs =
     \<lparr>columns = [gdp_col, he2019_col, he2021_col],
      rows = map (\<lambda>(i, g, h19, h21). (i, he_row g h19 h21)) (zip [0..<length xs] xs)\<rparr>"

text \<open>A group whose rows with both values all fall from 2019 to 2021.\<close>

definition gap_group :: frame where
  "gap_group = he_frame [(3, None, Some 10), (2, Some 2, Some 1), (1, Some 3, Some 2), (0, Some 0, None)]"

subsection \<open>Lemmas on the composition\<close>

lemma get_column_Inr:
  "c \<in> set (columns df) \<Longrightarrow> get_column df c = Inr (map (row_key c) (rows df))"
  by (simp add: get_column_def row_key_def)

lemma get_column_Inl:
  "c \<notin> set (columns df) \<Longrightarrow> get_column df c = Inl (KeyError c)"
  by (simp add: get_column_def)

lemma analyze_group_Inr:
  assumes "get_column g he2021_col = Inr c21" and "get_column g he2019_col = Inr c19"
  shows "analyze_group sf g =
           Inr \<lparr>gr_data = g, gr_pvalue = one_tailed (pvalue (ttest_ind sf c21 c19)),
                gr_statistic = statistic (ttest_ind sf c21 c19),
                gr_significant = significant (one_tailed (pvalue (ttest_ind sf c21 c19)))
                                   (statistic (ttest_ind sf c21 c19)),
                gr_stats = [(he2019_col, describe c19), (he2021_col, describe c21)]\<rparr>"
  using assms by (simp add: analyze_group_def Let_def)

lemma analyze_group_cols:
  assumes "he2021_col \<in> set (columns g)" and "he2019_col \<in> set (columns g)"
  shows "\<exists>r. analyze_group sf g = Inr r \<and> gr_data r = g \<and>
           gr_statistic r = statistic (ttest_ind sf (map (row_key he2021_col) (rows g)) (map (row_key he2019_col) (rows g))) \<and>
           gr_pvalue r = one_tailed (pvalue (ttest_ind sf (map (row_key he2021_col) (rows g)) (map (row_key he2019_col) (rows g)))) \<and>
           gr_stats r = [(he2019_col, describe (map (row_key he2019_col) (rows g))),
                         (he2021_col, describe (map (row_key he2021_col) (rows g)))]"
  using assms by (simp add: analyze_group_Inr get_column_Inr)

lemma labels_differ: "top_label p \<noteq> bottom_label q"
  by (simp add: top_label_def bottom_label_def)

lemma pvalue_Fin_or_NaN: "pvalue (ttest_ind sf a b) = NaN \<or> (\<exists>q. pvalue (ttest_ind sf a b) = Fin q)"
  by (cases "2 \<le> length (dropna a) \<and> 2 \<le> length (dropna b)")
     (auto simp: ttest_ind_main ttest_ind_small Let_def t_pvalue_def split: fl.split simp del: fl_div.simps)

lemma significant_iff:
  "significant (one_tailed (pvalue (ttest_ind sf a b))) (statistic (ttest_ind sf a b)) \<longleftrightarrow>
     (\<exists>q. one_tailed (pvalue (ttest_ind sf a b)) = Fin q \<and> q < 5 / 100) \<and>
     2 \<le> length (dropna a) \<and> 2 \<le> length (dropna b) \<and> mean_of (dropna b) < mean_of (dropna a)"
proof -
  consider "pvalue (ttest_ind sf a b) = NaN" | q where "pvalue (ttest_ind sf a b) = Fin q"
    using pvalue_Fin_or_NaN [of sf a b] by blast
  then show ?thesis
  proof cases
    case 1
    then show ?thesis by (simp add: significant_def)
  next
    case (2 q)
    then show ?thesis
      by (auto simp: significant_def ttest_statistic_pos_iff intro: exI [of _ "q / 2"])
  qed
qed

lemma analyze_split_Inr:
  assumes "split_groups data p = Inr (u, l)" and "analyze_group sf u = Inr ru"
    and "analyze_group sf l = Inr rl"
  shows "analyze_split sf data p = Inr [(top_label p, ru), (bottom_label p, rl)]"
  using assms labels_differ [of p p] by (simp add: analyze_split_def)

lemma split_groups_analyzable:
  assumes "gdp_col \<in> set (columns data)" and "he2019_col \<in> set (columns data)"
    and "he2021_col \<in> set (columns data)"
  obtains u l ru rl where "split_groups data p = Inr (u, l)"
    and "analyze_group sf u = Inr ru" and "analyze_group sf l = Inr rl"
    and "gr_data ru = u" and "gr_data rl = l"
proof -
  obtain u l where ul: "split_groups data p = Inr (u, l)"
    and cu: "columns u = columns data" and cl: "columns l = columns data"
    using split_groups_Inr [OF assms(1)] by fastforce
  obtain ru where ru: "analyze_group sf u = Inr ru" "gr_data ru = u"
    using analyze_group_cols [of u sf] assms cu by auto
  obtain rl where rl: "analyze_group sf l = Inr rl" "gr_data rl = l"
    using analyze_group_cols [of l sf] assms cl by auto
  show ?thesis by (rule that [OF ul ru(1) rl(1) ru(2) rl(2)])
qed

lemma sum_list_less_list_all2:
  "list_all2 (<) xs ys \<Longrightarrow> xs \<noteq> [] \<Longrightarrow> sum_list xs < (sum_list ys :: real)"
proof (induction xs ys rule: list_all2_induct)
  case Nil
  then show ?case by simp
next
  case (Cons x xs y ys)
  show ?case
  proof (cases "xs = []")
    case True
    with Cons show ?thesis by simp
  next
    case False
    with Cons show ?thesis by (simp add: add_strict_mono)
  qed
qed

lemma mean_of_less_list_all2:
  assumes "list_all2 (<) xs ys" and "xs \<noteq> []"
  shows "mean_of xs < mean_of ys"
proof -
  have "length ys = length xs" using assms(1) by (simp add: list_all2_lengthD)
  moreover have "0 < real (length xs)" using assms(2) by simp
  ultimately show ?thesis
    using sum_list_less_list_all2 [OF assms] by (simp add: mean_of_def divide_strict_right_mono)
qed

subsection \<open>Properties of the analysis\<close>

text \<open>
  C6. With the three columns present, \<^verbatim>\<open>analyze_split\<close> returns a dict of exactly two
  entries, the upper group's result under \<^verbatim>\<open>Top {p}%\<close> first and the lower group's under
  \<^verbatim>\<open>Bottom {100-p}%\<close> second, each holding its group of the split.
\<close>

theorem analyze_split_results:
  assumes "gdp_col \<in> set (columns data)" and "he2019_col \<in> set (columns data)"
    and "he2021_col \<in> set (columns data)"
  shows "\<exists>u l ru rl. split_groups data p = Inr (u, l) \<and>
           analyze_split sf data p = Inr [(top_label p, ru), (bottom_label p, rl)] \<and>
           analyze_group sf u = Inr ru \<and> analyze_group sf l = Inr rl \<and>
           gr_data ru = u \<and> gr_data rl = l"
proof -
  obtain u l ru rl where "split_groups data p = Inr (u, l)"
    and "analyze_group sf u = Inr ru" and "analyze_group sf l = Inr rl"
    and "gr_data ru = u" and "gr_data rl = l"
    using assms by (rule split_groups_analyzable)
  then show ?thesis by (blast intro: analyze_split_Inr)
qed

theorem analyze_split_results_witness:
  "\<exists>u l ru rl. split_groups ten_rows 50 = Inr (u, l) \<and>
     analyze_split half_sf ten_rows 50 = Inr [(top_label 50, ru), (bottom_label 50, rl)] \<and>
     analyze_group half_sf u = Inr ru \<and> analyze_group half_sf l = Inr rl \<and> gr_data ru = u \<and> gr_data rl = l"
  by (rule analyze_split_results) (simp_all add: ten_rows_def)

text \<open>
  C7. A missing column is a \<^verbatim>\<open>KeyError\<close> for the whole call, naming the first column
  the code reads that is not there: \<^verbatim>\<open>2021_GDP\<close> (the sort), then \<^verbatim>\<open>2021_HE\<close> and
  \<^verbatim>\<open>2019_HE\<close> (the t-test's arguments, left to right). No partial result is returned.
\<close>

theorem analyze_split_missing_column:
  assumes "\<not> (gdp_col \<in> set (columns data) \<and> he2021_col \<in> set (columns data) \<and>
              he2019_col \<in> set (columns data))"
  shows "analyze_split sf data p =
           Inl (KeyError (hd (filter (\<lambda>c. c \<notin> set (columns data)) [gdp_col, he2021_col, he2019_col])))"
proof (cases "gdp_col \<in> set (columns data)")
  case False
  then show ?thesis by (simp add: analyze_split_def split_groups_Inl)
next
  case True
  obtain u l where ul: "split_groups data p = Inr (u, l)" and cu: "columns u = columns data"
    using split_groups_Inr [OF True] by fastforce
  show ?thesis
  proof (cases "he2021_col \<in> set (columns data)")
    case False
    with True ul cu show ?thesis
      by (simp add: analyze_split_def analyze_group_def get_column_Inl)
  next
    case c21: True
    with assms True have "he2019_col \<notin> set (columns data)" by simp
    with True c21 ul cu show ?thesis
      by (simp add: analyze_split_def analyze_group_def get_column_Inl get_column_Inr)
  qed
qed

theorem analyze_split_missing_column_witness:
  "analyze_split half_sf \<lparr>columns = [gdp_col, he2021_col], rows = []\<rparr> 50 = Inl (KeyError he2019_col)"
  using analyze_split_missing_column [of "\<lparr>columns = [gdp_col, he2021_col], rows = []\<rparr>" half_sf 50]
  by simp

text \<open>
  C4. A group is flagged significant exactly when its one-tailed p-value is a number
  below 0.05, both samples have at least two values, and the 2021 mean exceeds the
  2019 mean: the flag never supports the hypothesis in the wrong direction.
\<close>

theorem analyze_group_significant:
  assumes "get_column g he2021_col = Inr c21" and "get_column g he2019_col = Inr c19"
  shows "\<exists>r. analyze_group sf g = Inr r \<and>
           (gr_significant r \<longleftrightarrow>
              (\<exists>q. gr_pvalue r = Fin q \<and> q < 5 / 100) \<and>
              2 \<le> length (dropna c21) \<and> 2 \<le> length (dropna c19) \<and>
              mean_of (dropna c19) < mean_of (dropna c21))"
  using assms by (simp add: analyze_group_Inr significant_iff)

theorem analyze_group_significant_witness:
  "\<exists>r. analyze_group half_sf (he_frame [(1, Some 1, Some 5), (0, Some 1, Some 5)]) = Inr r \<and>
     (gr_significant r \<longleftrightarrow>
        (\<exists>q. gr_pvalue r = Fin q \<and> q < 5 / 100) \<and>
        2 \<le> length (dropna [Some 5, Some 5]) \<and> 2 \<le> length (dropna [Some 1, Some 1]) \<and>
        mean_of (dropna [Some 1, Some 1]) < mean_of (dropna [Some 5, Some 5]))"
  by (rule analyze_group_significant)
     (simp_all add: get_column_def he_frame_def he_row_def)

text \<open>
  C11. The spec's synthetic group: when every row has both values and its 2021 value
  is below its 2019 value, the group is never flagged significant, whatever the p-value.
\<close>

theorem analyze_group_rowwise_less:
  assumes "get_column g he2021_col = Inr (map Some xs)"
    and "get_column g he2019_col = Inr (map Some ys)"
    and "list_all2 (<) xs ys"
  shows "\<exists>r. analyze_group sf g = Inr r \<and> \<not> gr_significant r"
proof (cases "xs = []")
  case True
  then show ?thesis using assms by (simp add: analyze_group_Inr significant_iff dropna_simps)
next
  case False
  then have "mean_of xs < mean_of ys" using assms(3) by (rule mean_of_less_list_all2 [rotated])
  then show ?thesis using assms by (simp add: analyze_group_Inr significant_iff dropna_simps)
qed

theorem analyze_group_rowwise_less_witness:
  "\<exists>r. analyze_group half_sf (he_frame [(2, Some 3, Some 1), (1, Some 4, Some 2), (0, Some 5, Some 3)]) = Inr r
     \<and> \<not> gr_significant r"
  by (rule analyze_group_rowwise_less [of _ "[1, 2, 3]" "[3, 4, 5]"])
     (simp_all add: get_column_def he_frame_def he_row_def)

text \<open>
  With missing values the row-wise reading of C11 fails, as this example shows: in the
  group \<open>gap_group\<close> every row
  that has both values has its 2021 value below its 2019 value, yet the statistic is
  positive, because \<^verbatim>\<open>nan_policy='omit'\<close> drops each sample's missing values
  independently.
\<close>

lemma analyze_group_missing_breaks_rowwise:
  "list_all (\<lambda>(i, r). case (r he2021_col, r he2019_col) of (Some x, Some y) \<Rightarrow> x < y | _ \<Rightarrow> True)
     (rows gap_group) \<and>
   (\<exists>r. analyze_group sf gap_group = Inr r \<and> fl_less (Fin 0) (gr_statistic r))"
proof -
  have "get_column gap_group he2021_col = Inr [Some 10, Some 1, Some 2, None]"
    and "get_column gap_group he2019_col = Inr [None, Some 2, Some 3, Some 0]"
    by (simp_all add: gap_group_def get_column_def he_frame_def he_row_def)
  moreover have "fl_less (Fin 0) (statistic (ttest_ind sf [Some 10, Some 1, Some 2, None] [None, Some 2, Some 3, Some 0]))"
    by (simp add: ttest_statistic_pos_iff mean_of_def)
  ultimately show ?thesis
    by (simp add: analyze_group_Inr gap_group_def he_frame_def he_row_def)
qed

text \<open>
  C15. On a frame of one row (or none) the code raises nothing, contrary to the spec's
  \<open>InsufficientDataError\<close>: it returns both entries, the lower group empty, its statistic
  and p-value NaN, not significant, and every statistic of both columns the NaN sentinel
  (\<^verbatim>\<open>Sum\<close> and \<^verbatim>\<open>Count\<close> 0); the upper group's statistic is NaN as well.
\<close>

theorem analyze_split_too_small:
  assumes "gdp_col \<in> set (columns data)" and "he2019_col \<in> set (columns data)"
    and "he2021_col \<in> set (columns data)" and small: "length (rows data) \<le> 1"
  shows "\<exists>ru rl. analyze_split sf data p = Inr [(top_label p, ru), (bottom_label p, rl)] \<and>
           rows (gr_data rl) = [] \<and> gr_statistic rl = NaN \<and> gr_pvalue rl = NaN \<and>
           \<not> gr_significant rl \<and>
           gr_stats rl = [(he2019_col, describe []), (he2021_col, describe [])] \<and>
           gr_statistic ru = NaN \<and> \<not> gr_significant ru"
proof -
  obtain u l ru rl where res0: "split_groups data p = Inr (u, l)"
      "analyze_group sf u = Inr ru" "analyze_group sf l = Inr rl" "gr_data ru = u" "gr_data rl = l"
    using assms(1-3) by (rule split_groups_analyzable)
  then have "analyze_split sf data p = Inr [(top_label p, ru), (bottom_label p, rl)]"
    by (blast intro: analyze_split_Inr)
  note res = res0(1) this res0(2-5)
  have "length (rows data) \<le> nat (cutoff_idx (length (rows data)) p)"
    using small cutoff_idx_pos [of "length (rows data)" p] by linarith
  then have "rows l = []" and "length (rows u) \<le> 1" and "columns u = columns data" and "columns l = columns data"
    using small by (simp_all add: split_groups_rows [OF res(1)])
  then have "length (dropna (map (row_key he2021_col) (rows u))) < 2"
    using length_dropna_le [of "map (row_key he2021_col) (rows u)"] by simp
  then have "ttest_ind sf (map (row_key he2021_col) (rows u)) (map (row_key he2019_col) (rows u))
             = \<lparr>statistic = NaN, pvalue = NaN\<rparr>"
    by (intro ttest_ind_small) simp
  with \<open>rows l = []\<close> \<open>columns u = columns data\<close> \<open>columns l = columns data\<close> show ?thesis
    using res assms(2,3)
    by (auto simp: analyze_group_Inr get_column_Inr significant_def ttest_ind_small)
qed

theorem analyze_split_too_small_witness:
  "\<exists>ru rl. analyze_split half_sf (he_frame [(1, Some 2, Some 3)]) 50 =
       Inr [(top_label 50, ru), (bottom_label 50, rl)] \<and>
     rows (gr_data rl) = [] \<and> gr_statistic rl = NaN \<and> gr_pvalue rl = NaN \<and> \<not> gr_significant rl \<and>
     gr_stats rl = [(he2019_col, describe []), (he2021_col, describe [])] \<and>
     gr_statistic ru = NaN \<and> \<not> gr_significant ru"
  by (rule analyze_split_too_small) (simp_all add: he_frame_def)

end
