(* ===== verification/Plots.thy ===== *)
theory Plots
  imports Analysis
begin

text \<open>
  \<^verbatim>\<open>create_plots(percentile)\<close>, lines 74 to 168: run \<^verbatim>\<open>analyze_split\<close>, build a 2 by 3
  subplot figure titled from the two result keys, and add, for each group in the dict's
  order (row \<open>i + 1\<close>), two box traces (column 1), one KDE line per column with values
  (column 2) and two histograms (column 3); then set the layout and the axis titles.
  The module-level \<^verbatim>\<open>data\<close> is an explicit argument. A trace keeps what the figure shows:
  its kind, name, subplot cell, data and colour (opacity, fill and the other style
  arguments are not modelled).
  \<open>gaussian_kde\<close> is scipy's: a sample of fewer than two points raises \<^verbatim>\<open>ValueError\<close>,
  a sample of zero variance makes the Cholesky factorisation of its covariance raise
  \<^verbatim>\<open>LinAlgError\<close>; otherwise the estimate is the Gaussian mixture with Scott's bandwidth
  \<open>h\<^sup>2 = var * n powr (-2/5)\<close>. \<open>linspace\<close> is numpy's, its last point set to the end
  point exactly.
\<close>

datatype trace_kind = Box | KdeLine | Histogram

record trace =
  tr_kind :: trace_kind
  tr_name :: string
  tr_row :: nat
  tr_col :: nat
  tr_x :: "real list"
  tr_y :: "real list"
  tr_color :: string

record figure =
  fig_titles :: "string list"
  fig_traces :: "trace list"
  fig_title_text :: string
  fig_height :: nat
  fig_width :: nat
  fig_boxmode :: string
  fig_barmode :: string
  fig_axes :: "((nat \<times> nat) \<times> string \<times> string) list"

definition linspace :: "real \<Rightarrow> real \<Rightarrow> nat \<Rightarrow> real list" where
  "linspace a b n =
     (if n = 0 then [] else if n = 1 then [a]
      else map (\<lambda>i. a + real i * ((b - a) / real (n - 1))) [0..<n - 1] @ [b])"

definition kde_bandwidth_sq :: "real list \<Rightarrow> real" where
  "kde_bandwidth_sq v = moment_sum 2 v / (real (length v) - 1) * real (length v) powr (- 2 / 5)"

definition kde_eval :: "real list \<Rightarrow> real \<Rightarrow> real" where
  "kde_eval v x =
     (let h2 = kde_bandwidth_sq v
      in sum_list (map (\<lambda>xi. exp (- ((x - xi) ^ 2) / (2 * h2)) / sqrt (2 * pi * h2)) v)
         / real (length v))"

definition kde_size_msg :: string where
  "kde_size_msg = ''`dataset` input should have multiple elements.''"

definition gaussian_kde :: "real list \<Rightarrow> py_error + (real \<Rightarrow> real)" where
  "gaussian_kde v =
     (if length v \<le> 1 then Inl (ValueError kde_size_msg)
      else if moment_sum 2 v = 0 then Inl LinAlgError
      else Inr (kde_eval v))"

definition trace_color :: "string \<Rightarrow> string" where
  "trace_color y = (if y = he2019_col then ''#1E88E5'' else ''#FF8C00'')"

definition box_trace :: "nat \<Rightarrow> string \<Rightarrow> cell list \<Rightarrow> trace" where
  "box_trace row y col =
     \<lparr>tr_kind = Box, tr_name = y, tr_row = row, tr_col = 1, tr_x = [], tr_y = dropna col,
      tr_color = trace_color y\<rparr>"

definition hist_trace :: "nat \<Rightarrow> string \<Rightarrow> cell list \<Rightarrow> trace" where
  "hist_trace row y col =
     \<lparr>tr_kind = Histogram, tr_name = y, tr_row = row, tr_col = 3, tr_x = dropna col, tr_y = [],
      tr_color = trace_color y\<rparr>"

definition kde_trace :: "nat \<Rightarrow> string \<Rightarrow> cell list \<Rightarrow> py_error + trace list" where
  "kde_trace row y col =
     (let d = dropna col in
      if d = [] then Inr []
      else
        (let xs = linspace (Min (set d)) (Max (set d)) 1000 in
         case gaussian_kde d of
           Inl e \<Rightarrow> Inl e
         | Inr f \<Rightarrow>
             Inr [\<lparr>tr_kind = KdeLine, tr_name = y, tr_row = row, tr_col = 2, tr_x = xs,
                   tr_y = map f xs, tr_color = trace_color y\<rparr>]))"

text \<open>The three inner loops for one group, in the source's order.\<close>

definition group_traces :: "nat \<Rightarrow> frame \<Rightarrow> py_error + trace list" where
  "group_traces row g =
     (case get_column g he2019_col of
        Inl e \<Rightarrow> Inl e
      | Inr c19 \<Rightarrow>
          (case get_column g he2021_col of
             Inl e \<Rightarrow> Inl e
           | Inr c21 \<Rightarrow>
               (case kde_trace row he2019_col c19 of
                  Inl e \<Rightarrow> Inl e
                | Inr k19 \<Rightarrow>
                    (case kde_trace row he2021_col c21 of
                       Inl e \<Rightarrow> Inl e
                     | Inr k21 \<Rightarrow>
                         Inr ([box_trace row he2019_col c19, box_trace row he2021_col c21]
                              @ k19 @ k21 @
                              [hist_trace row he2019_col c19, hist_trace row he2021_col c21])))))"

text \<open>The outer loop \<^verbatim>\<open>for i, (group_name, result) in enumerate(results.items())\<close>.\<close>

fun results_traces :: "nat \<Rightarrow> (string \<times> group_result) list \<Rightarrow> py_error + trace list" where
  "results_traces i [] = Inr []"
| "results_traces i ((name, r) # rs) =
     (case group_traces (i + 1) (gr_data r) of
        Inl e \<Rightarrow> Inl e
      | Inr ts \<Rightarrow> (case results_traces (Suc i) rs of Inl e \<Rightarrow> Inl e | Inr ts' \<Rightarrow> Inr (ts @ ts')))"

definition subplot_titles :: "string \<Rightarrow> string \<Rightarrow> string list" where
  "subplot_titles a b =
     [''Boxplot ('' @ a @ '')'', ''KDE Plot ('' @ a @ '')'', ''Histogram ('' @ a @ '')'',
      ''Boxplot ('' @ b @ '')'', ''KDE Plot ('' @ b @ '')'', ''Histogram ('' @ b @ '')'']"

definition axis_titles :: "((nat \<times> nat) \<times> string \<times> string) list" where
  "axis_titles =
     concat (map (\<lambda>i. map (\<lambda>j. ((i, j), if j = 1 then ''Year'' else ''$ HEpp'',
                                 if j = 1 then ''$ HEpp'' else if j = 2 then ''Density'' else ''Count''))
                         [1..<4]) [1..<3])"

definition create_plots :: "t_sf \<Rightarrow> frame \<Rightarrow> int \<Rightarrow> py_error + figure \<times> (string \<times> group_result) list" where
  "create_plots sf data p =
     (case analyze_split sf data p of
        Inl e \<Rightarrow> Inl e
      | Inr results \<Rightarrow>
          (let keys = map fst results in
           if length keys < 2 then Inl IndexError
           else
             (case results_traces 0 results of
                Inl e \<Rightarrow> Inl e
              | Inr ts \<Rightarrow>
                  Inr (\<lparr>fig_titles = subplot_titles (keys ! 0) (keys ! 1), fig_traces = ts,
                        fig_title_text = ''GDP Split Analysis at '' @ int_str p @ ''% cutoff'',
                        fig_height = 800, fig_width = 1200, fig_boxmode = ''group'',
                        fig_barmode = ''overlay'', fig_axes = axis_titles\<rparr>, results))))"

text \<open>The figure \<^verbatim>\<open>create_plots\<close> returns once its traces are built.\<close>

definition plots_figure :: "int \<Rightarrow> trace list \<Rightarrow> figure" where
  "plots_figure p ts =
     \<lparr>fig_titles = subplot_titles (top_label p) (bottom_label p), fig_traces = ts,
      fig_title_text = ''GDP Split Analysis at '' @ int_str p @ ''% cutoff'',
      fig_height = 800, fig_width = 1200, fig_boxmode = ''group'',
      fig_barmode = ''overlay'', fig_axes = axis_titles\<rparr>"

text \<open>When the KDE of a column can be built: no values, or two values or more that differ.\<close>

definition kde_ok :: "cell list \<Rightarrow> bool" where
  "kde_ok col \<longleftrightarrow> dropna col = [] \<or> (2 \<le> length (dropna col) \<and> moment_sum 2 (dropna col) \<noteq> 0)"

definition plots_ok :: "frame \<Rightarrow> bool" where
  "plots_ok g \<longleftrightarrow> kde_ok (map (row_key he2019_col) (rows g)) \<and> kde_ok (map (row_key he2021_col) (rows g))"

definition plain_traces :: "nat \<Rightarrow> frame \<Rightarrow> trace list" where
  "plain_traces row g =
     [box_trace row he2019_col (map (row_key he2019_col) (rows g)),
      box_trace row he2021_col (map (row_key he2021_col) (rows g)),
      hist_trace row he2019_col (map (row_key he2019_col) (rows g)),
      hist_trace row he2021_col (map (row_key he2021_col) (rows g))]"

text \<open>
  Four countries with both health-expenditure values, for the witnesses: at the slider's
  lowest percentile the top group is one country, at 50 both groups have two values that
  differ.
\<close>

definition four_frame :: frame where
  "four_frame = he_frame [(40, Some 4, Some 5), (30, Some 3, Some 4), (20, Some 2, Some 3), (10, Some 1, Some 2)]"

text \<open>
  Four countries, the two richest without a 2019 value and only the richest with a 2021
  value: at 50 the top group's first non-empty column has one value.
\<close>

definition sparse_frame :: frame where
  "sparse_frame = he_frame [(40, None, Some 5), (30, None, None), (20, Some 2, Some 3), (10, Some 1, Some 2)]"

subsection \<open>Lemmas on the traces\<close>

lemma length_linspace [simp]: "length (linspace a b n) = n"
  by (simp add: linspace_def)

lemma linspace_hd_last:
  "2 \<le> n \<Longrightarrow> hd (linspace a b n) = a \<and> last (linspace a b n) = b"
  by (cases n) (auto simp: linspace_def upt_conv_Cons)

lemma linspace_sorted:
  assumes "a \<le> b"
  shows "sorted (linspace a b n)"
proof -
  define s where "s = (b - a) / real (n - 1)"
  have s0: "0 \<le> s" using assms by (simp add: s_def)
  have lin: "linspace a b n =
    (if n = 0 then [] else if n = 1 then [a] else map (\<lambda>i. a + real i * s) [0..<n - 1] @ [b])"
    by (simp add: linspace_def s_def)
  have mono: "sorted (map (\<lambda>i. a + real i * s) [0..<n - 1])"
    using s0 by (auto simp: sorted_iff_nth_mono intro: mult_right_mono)
  have "a + real i * s \<le> b" if "i < n - 1" for i
  proof -
    have "real i * s \<le> real (n - 1) * s"
      using that s0 by (intro mult_right_mono) auto
    also have "\<dots> = b - a" using that by (simp add: s_def)
    finally show ?thesis by simp
  qed
  with mono show ?thesis by (auto simp: lin sorted_append)
qed

lemma kde_bandwidth_sq_pos:
  assumes "2 \<le> length v" and "moment_sum 2 v \<noteq> 0"
  shows "0 < kde_bandwidth_sq v"
proof -
  have "0 < moment_sum 2 v" using assms(2) moment_sum_2_nonneg [of v] by linarith
  moreover have "0 < real (length v) - 1" using assms(1) by simp
  moreover have "0 < length v" using assms(1) by linarith
  then have "0 < real (length v) powr (- 2 / 5)" by simp
  ultimately show ?thesis by (simp add: kde_bandwidth_sq_def)
qed

lemma kde_eval_pos:
  assumes "2 \<le> length v" and "moment_sum 2 v \<noteq> 0"
  shows "0 < kde_eval v x"
proof -
  have h: "0 < kde_bandwidth_sq v" using assms by (rule kde_bandwidth_sq_pos)
  have "0 < sum_list (map (\<lambda>xi. exp (- ((x - xi) ^ 2) / (2 * kde_bandwidth_sq v))
                                 / sqrt (2 * pi * kde_bandwidth_sq v)) v)"
    using h assms(1) by (intro sum_list_pos_map) auto
  moreover have "0 < length v" using assms(1) by linarith
  ultimately show ?thesis by (simp add: kde_eval_def Let_def)
qed

lemma kde_trace_Inr:
  assumes "kde_ok col" and "dropna col \<noteq> []"
  shows "kde_trace row y col =
           Inr [\<lparr>tr_kind = KdeLine, tr_name = y, tr_row = row, tr_col = 2,
                 tr_x = linspace (Min (set (dropna col))) (Max (set (dropna col))) 1000,
                 tr_y = map (kde_eval (dropna col)) (linspace (Min (set (dropna col))) (Max (set (dropna col))) 1000),
                 tr_color = trace_color y\<rparr>]"
  using assms by (simp add: kde_trace_def kde_ok_def gaussian_kde_def Let_def)

lemma kde_trace_empty: "dropna col = [] \<Longrightarrow> kde_trace row y col = Inr []"
  by (simp add: kde_trace_def)

lemma kde_trace_Inl:
  assumes "\<not> kde_ok col"
  shows "kde_trace row y col = Inl (if length (dropna col) = 1 then ValueError kde_size_msg else LinAlgError)"
proof -
  have ne: "dropna col \<noteq> []" and bad: "length (dropna col) < 2 \<or> moment_sum 2 (dropna col) = 0"
    using assms by (auto simp: kde_ok_def)
  then have "length (dropna col) \<noteq> 0" by simp
  with bad consider "length (dropna col) = 1" | "2 \<le> length (dropna col)" "moment_sum 2 (dropna col) = 0"
    by linarith
  then show ?thesis
  proof cases
    case 1
    with ne show ?thesis by (simp add: kde_trace_def gaussian_kde_def Let_def)
  next
    case 2
    with ne show ?thesis by (simp add: kde_trace_def gaussian_kde_def Let_def)
  qed
qed

lemma kde_trace_ok:
  assumes "kde_ok col"
  shows "\<exists>ks. kde_trace row y col = Inr ks \<and> length ks \<le> 1 \<and>
           (\<forall>t\<in>set ks. tr_kind t = KdeLine \<and> tr_row t = row \<and> length (tr_x t) = 1000)"
proof (cases "dropna col = []")
  case True
  then show ?thesis by (simp add: kde_trace_empty)
next
  case False
  with assms show ?thesis by (simp add: kde_trace_Inr)
qed

lemma group_traces_Inr:
  assumes "he2019_col \<in> set (columns g)" and "he2021_col \<in> set (columns g)" and "plots_ok g"
  shows "\<exists>ks. group_traces row g = Inr ks \<and> filter (\<lambda>t. tr_kind t \<noteq> KdeLine) ks = plain_traces row g \<and>
           (\<forall>t\<in>set ks. tr_kind t = KdeLine \<longrightarrow> tr_row t = row \<and> length (tr_x t) = 1000)"
proof -
  obtain k19 where k19: "kde_trace row he2019_col (map (row_key he2019_col) (rows g)) = Inr k19"
      "\<forall>t\<in>set k19. tr_kind t = KdeLine \<and> tr_row t = row \<and> length (tr_x t) = 1000"
    using kde_trace_ok [of "map (row_key he2019_col) (rows g)" row he2019_col] assms(3) by (auto simp: plots_ok_def)
  obtain k21 where k21: "kde_trace row he2021_col (map (row_key he2021_col) (rows g)) = Inr k21"
      "\<forall>t\<in>set k21. tr_kind t = KdeLine \<and> tr_row t = row \<and> length (tr_x t) = 1000"
    using kde_trace_ok [of "map (row_key he2021_col) (rows g)" row he2021_col] assms(3) by (auto simp: plots_ok_def)
  have "filter (\<lambda>t. tr_kind t \<noteq> KdeLine) (k19 @ k21) = []"
    using k19(2) k21(2) by (auto simp: filter_empty_conv)
  then show ?thesis
    using assms(1,2) k19 k21
    by (auto simp: group_traces_def get_column_Inr plain_traces_def box_trace_def hist_trace_def)
qed

lemma single_row_traces:
  assumes "he2019_col \<in> set (columns g)" and "he2021_col \<in> set (columns g)"
    and "rows g = [x]" and "row_key he2019_col x \<noteq> None \<or> row_key he2021_col x \<noteq> None"
  shows "group_traces row g = Inl (ValueError kde_size_msg)"
proof (cases "row_key he2019_col x")
  case None
  then have "kde_trace row he2019_col (map (row_key he2019_col) (rows g)) = Inr []"
    using assms(3) by (simp add: kde_trace_empty)
  moreover obtain y where "row_key he2021_col x = Some y" using None assms(4) by auto
  then have "kde_trace row he2021_col (map (row_key he2021_col) (rows g)) = Inl (ValueError kde_size_msg)"
    using assms(3) by (simp add: kde_trace_Inl kde_ok_def)
  ultimately show ?thesis
    using assms(1,2) by (simp add: group_traces_def get_column_Inr)
next
  case (Some y)
  then have "kde_trace row he2019_col (map (row_key he2019_col) (rows g)) = Inl (ValueError kde_size_msg)"
    using assms(3) by (simp add: kde_trace_Inl kde_ok_def)
  then show ?thesis
    using assms(1,2) by (simp add: group_traces_def get_column_Inr)
qed

text \<open>
  The first KDE a group computes on a non-empty column decides: when that column has a
  single value, \<^verbatim>\<open>gaussian_kde\<close> raises \<^verbatim>\<open>ValueError\<close> before anything else.
\<close>

lemma group_traces_first_single:
  assumes c19: "he2019_col \<in> set (columns g)" and c21: "he2021_col \<in> set (columns g)"
    and first: "dropWhile (\<lambda>c. dropna c = [])
                  [map (row_key he2019_col) (rows g), map (row_key he2021_col) (rows g)] = c # cs"
    and one: "length (dropna c) = 1"
  shows "group_traces row g = Inl (ValueError kde_size_msg)"
proof (cases "dropna (map (row_key he2019_col) (rows g)) = []")
  case True
  then have c: "c = map (row_key he2021_col) (rows g)" using first by (simp split: if_splits)
  have "\<not> kde_ok c" using one by (auto simp: kde_ok_def)
  then have "kde_trace row he2021_col (map (row_key he2021_col) (rows g)) = Inl (ValueError kde_size_msg)"
    using one kde_trace_Inl [of c] c by simp
  with True show ?thesis using c19 c21 by (simp add: group_traces_def get_column_Inr kde_trace_empty)
next
  case False
  then have c: "c = map (row_key he2019_col) (rows g)" using first by simp
  have "\<not> kde_ok c" using one by (auto simp: kde_ok_def)
  then have "kde_trace row he2019_col (map (row_key he2019_col) (rows g)) = Inl (ValueError kde_size_msg)"
    using one kde_trace_Inl [of c] c by simp
  then show ?thesis using c19 c21 by (simp add: group_traces_def get_column_Inr)
qed

lemma group_traces_no_values:
  assumes "he2019_col \<in> set (columns g)" and "he2021_col \<in> set (columns g)"
    and "dropna (map (row_key he2019_col) (rows g)) = []" and "dropna (map (row_key he2021_col) (rows g)) = []"
  shows "\<exists>ts. group_traces row g = Inr ts"
  using assms by (simp add: group_traces_def get_column_Inr kde_trace_empty)

lemma results_traces_two:
  "results_traces 0 [(a, ru), (b, rl)] =
     (case group_traces 1 (gr_data ru) of
        Inl e \<Rightarrow> Inl e
      | Inr ts \<Rightarrow> (case group_traces 2 (gr_data rl) of Inl e \<Rightarrow> Inl e | Inr ts' \<Rightarrow> Inr (ts @ ts')))"
  by (simp add: numeral_2_eq_2 split: sum.split)

lemma create_plots_results:
  assumes "analyze_split sf data p = Inr [(top_label p, ru), (bottom_label p, rl)]"
  shows "create_plots sf data p =
           (case results_traces 0 [(top_label p, ru), (bottom_label p, rl)] of
              Inl e \<Rightarrow> Inl e
            | Inr ts \<Rightarrow>
                Inr (\<lparr>fig_titles = subplot_titles (top_label p) (bottom_label p), fig_traces = ts,
                      fig_title_text = ''GDP Split Analysis at '' @ int_str p @ ''% cutoff'',
                      fig_height = 800, fig_width = 1200, fig_boxmode = ''group'',
                      fig_barmode = ''overlay'', fig_axes = axis_titles\<rparr>,
                     [(top_label p, ru), (bottom_label p, rl)]))"
  using assms by (simp add: create_plots_def Let_def del: results_traces.simps split: sum.split)

lemma create_plots_trace_error:
  assumes "analyze_split sf data p = Inr [(top_label p, ru), (bottom_label p, rl)]"
    and "results_traces 0 [(top_label p, ru), (bottom_label p, rl)] = Inl e"
  shows "create_plots sf data p = Inl e"
  using assms(2) by (simp add: create_plots_results [OF assms(1)])

lemma results_traces_Inl:
  assumes "group_traces 1 (gr_data ru) = Inl e \<or>
           (\<exists>ku. group_traces 1 (gr_data ru) = Inr ku \<and> group_traces 2 (gr_data rl) = Inl e)"
  shows "results_traces 0 [(a, ru), (b, rl)] = Inl e"
  using assms by (auto simp only: results_traces_two sum.case)

lemma create_plots_figure:
  assumes "gdp_col \<in> set (columns data)" and "he2019_col \<in> set (columns data)"
    and "he2021_col \<in> set (columns data)"
    and "split_groups data p = Inr (u, l)" and "plots_ok u" and "plots_ok l"
  shows "\<exists>ru rl ku kl. analyze_split sf data p = Inr [(top_label p, ru), (bottom_label p, rl)] \<and>
           filter (\<lambda>t. tr_kind t \<noteq> KdeLine) ku = plain_traces 1 u \<and>
           (\<forall>t\<in>set ku. tr_kind t = KdeLine \<longrightarrow> tr_row t = 1 \<and> length (tr_x t) = 1000) \<and>
           filter (\<lambda>t. tr_kind t \<noteq> KdeLine) kl = plain_traces 2 l \<and>
           (\<forall>t\<in>set kl. tr_kind t = KdeLine \<longrightarrow> tr_row t = 2 \<and> length (tr_x t) = 1000) \<and>
           create_plots sf data p = Inr (plots_figure p (ku @ kl), [(top_label p, ru), (bottom_label p, rl)])"
proof -
  obtain u' l' ru rl where ul: "split_groups data p = Inr (u', l')"
    and ru: "analyze_group sf u' = Inr ru" and rl: "analyze_group sf l' = Inr rl"
    and du: "gr_data ru = u'" and dl: "gr_data rl = l'"
    using split_groups_analyzable [OF assms(1-3)] by metis
  have eq: "u' = u" "l' = l" using ul assms(4) by simp_all
  have an: "analyze_split sf data p = Inr [(top_label p, ru), (bottom_label p, rl)]"
    using analyze_split_Inr [OF ul ru rl] .
  have cu: "columns u = columns data" and cl: "columns l = columns data"
    using split_groups_rows [OF assms(4)] by simp_all
  obtain ku where ku: "group_traces 1 u = Inr ku"
      "filter (\<lambda>t. tr_kind t \<noteq> KdeLine) ku = plain_traces 1 u"
      "\<forall>t\<in>set ku. tr_kind t = KdeLine \<longrightarrow> tr_row t = 1 \<and> length (tr_x t) = 1000"
    using group_traces_Inr [of u 1] assms(2,3,5) cu by auto
  obtain kl where kl: "group_traces 2 l = Inr kl"
      "filter (\<lambda>t. tr_kind t \<noteq> KdeLine) kl = plain_traces 2 l"
      "\<forall>t\<in>set kl. tr_kind t = KdeLine \<longrightarrow> tr_row t = 2 \<and> length (tr_x t) = 1000"
    using group_traces_Inr [of l 2] assms(2,3,6) cl by auto
  have "results_traces 0 [(top_label p, ru), (bottom_label p, rl)] = Inr (ku @ kl)"
    using ku(1) kl(1) du dl eq by (simp only: results_traces_two) simp
  then have "create_plots sf data p = Inr (plots_figure p (ku @ kl), [(top_label p, ru), (bottom_label p, rl)])"
    by (simp add: create_plots_results [OF an] plots_figure_def)
  with an ku(2,3) kl(2,3) show ?thesis by blast
qed

lemma four_rows_cut: "nat (cutoff_idx (Suc (Suc (Suc (Suc 0)))) 50) = 2"
  using cutoff_idx_4_50 by (simp add: eval_nat_numeral)

lemma four_frame_cols:
  "gdp_col \<in> set (columns four_frame)" "he2019_col \<in> set (columns four_frame)"
  "he2021_col \<in> set (columns four_frame)"
  by (simp_all add: four_frame_def he_frame_def)

lemma four_frame_50: "\<exists>u l. split_groups four_frame 50 = Inr (u, l) \<and> plots_ok u \<and> plots_ok l"
proof -
  obtain u l where ul: "split_groups four_frame 50 = Inr (u, l)"
    using split_groups_Inr [OF four_frame_cols(1)] by blast
  have u: "rows u = take 2 (rows four_frame)" and l: "rows l = drop 2 (rows four_frame)"
    using split_groups_rows(2,3) [OF ul]
    by (simp_all add: four_frame_def he_frame_def four_rows_cut nargsort_desc_def
        row_key_def he_row_def)
  have "plots_ok u" "plots_ok l"
    using u l by (simp_all add: plots_ok_def kde_ok_def four_frame_def he_frame_def row_key_def
        he_row_def moment_sum_def mean_of_def)
  with ul show ?thesis by blast
qed

subsection \<open>Properties of the figure\<close>

text \<open>
  C21. When both groups have, in each health-expenditure column, either no value or two
  values or more that differ, \<^verbatim>\<open>create_plots\<close> returns the figure and the results of
  \<^verbatim>\<open>analyze_split\<close>: the six subplot titles name the two labels, the title names the
  percentile, the box plots and histograms are those of the upper group in row 1 and of
  the lower group in row 2, in the source's order, and every KDE line has 1000 points.
\<close>

theorem create_plots_layout:
  assumes "gdp_col \<in> set (columns data)" and "he2019_col \<in> set (columns data)"
    and "he2021_col \<in> set (columns data)"
    and "split_groups data p = Inr (u, l)" and "plots_ok u" and "plots_ok l"
  shows "\<exists>fig res. create_plots sf data p = Inr (fig, res) \<and> analyze_split sf data p = Inr res \<and>
           fig_titles fig = subplot_titles (top_label p) (bottom_label p) \<and>
           fig_title_text fig = ''GDP Split Analysis at '' @ int_str p @ ''% cutoff'' \<and>
           filter (\<lambda>t. tr_kind t \<noteq> KdeLine) (fig_traces fig) = plain_traces 1 u @ plain_traces 2 l \<and>
           (\<forall>t\<in>set (fig_traces fig). tr_kind t = KdeLine \<longrightarrow> length (tr_x t) = 1000)"
proof -
  obtain ru rl ku kl where an: "analyze_split sf data p = Inr [(top_label p, ru), (bottom_label p, rl)]"
    and ku: "filter (\<lambda>t. tr_kind t \<noteq> KdeLine) ku = plain_traces 1 u"
      "\<forall>t\<in>set ku. tr_kind t = KdeLine \<longrightarrow> tr_row t = 1 \<and> length (tr_x t) = 1000"
    and kl: "filter (\<lambda>t. tr_kind t \<noteq> KdeLine) kl = plain_traces 2 l"
      "\<forall>t\<in>set kl. tr_kind t = KdeLine \<longrightarrow> tr_row t = 2 \<and> length (tr_x t) = 1000"
    and fig: "create_plots sf data p = Inr (plots_figure p (ku @ kl), [(top_label p, ru), (bottom_label p, rl)])"
    using create_plots_figure [OF assms] by blast
  then show ?thesis
    by (auto simp: plots_figure_def)
qed

theorem create_plots_layout_witness:
  "\<exists>u l. split_groups four_frame 50 = Inr (u, l) \<and>
     (\<exists>fig res. create_plots half_sf four_frame 50 = Inr (fig, res) \<and>
        analyze_split half_sf four_frame 50 = Inr res \<and>
        fig_titles fig = subplot_titles (top_label 50) (bottom_label 50) \<and>
        fig_title_text fig = ''GDP Split Analysis at '' @ int_str 50 @ ''% cutoff'' \<and>
        filter (\<lambda>t. tr_kind t \<noteq> KdeLine) (fig_traces fig) = plain_traces 1 u @ plain_traces 2 l \<and>
        (\<forall>t\<in>set (fig_traces fig). tr_kind t = KdeLine \<longrightarrow> length (tr_x t) = 1000))"
proof -
  obtain u l where ul: "split_groups four_frame 50 = Inr (u, l)" and ok: "plots_ok u" "plots_ok l"
    using four_frame_50 by blast
  show ?thesis
    using create_plots_layout [OF four_frame_cols ul ok] ul by blast
qed

text \<open>
  C13. The first KDE that meets a single value raises: \<^verbatim>\<open>create_plots\<close> builds the
  KDEs in the order top 2019, top 2021, bottom 2019, bottom 2021, skipping empty columns,
  and when the first non-empty one has exactly one value, scipy's \<^verbatim>\<open>gaussian_kde\<close>
  refuses it with \<^verbatim>\<open>ValueError\<close> and no figure is returned, whatever the other
  columns hold.
\<close>

theorem create_plots_single_value_error:
  assumes "gdp_col \<in> set (columns data)" and "he2019_col \<in> set (columns data)"
    and "he2021_col \<in> set (columns data)" and ul: "split_groups data p = Inr (u, l)"
    and first: "dropWhile (\<lambda>c. dropna c = [])
                  [map (row_key he2019_col) (rows u), map (row_key he2021_col) (rows u),
                   map (row_key he2019_col) (rows l), map (row_key he2021_col) (rows l)] = c # cs"
    and one: "length (dropna c) = 1"
  shows "create_plots sf data p = Inl (ValueError kde_size_msg)"
proof -
  obtain u' l' ru rl where ul': "split_groups data p = Inr (u', l')"
    and ru: "analyze_group sf u' = Inr ru" and rl: "analyze_group sf l' = Inr rl"
    and du: "gr_data ru = u" and dl: "gr_data rl = l"
    using split_groups_analyzable [OF assms(1-3)] ul by (metis Inr_inject prod.inject)
  have "u' = u" "l' = l" using ul ul' by simp_all
  with ul' ru rl have ul: "split_groups data p = Inr (u, l)"
    and ru: "analyze_group sf u = Inr ru" and rl: "analyze_group sf l = Inr rl" by simp_all
  have an: "analyze_split sf data p = Inr [(top_label p, ru), (bottom_label p, rl)]"
    using analyze_split_Inr [OF ul ru rl] .
  have cu: "he2019_col \<in> set (columns u)" "he2021_col \<in> set (columns u)"
    and cl: "he2019_col \<in> set (columns l)" "he2021_col \<in> set (columns l)"
    using split_groups_rows(4,5) [OF ul] assms(2,3) by simp_all
  have "group_traces 1 u = Inl (ValueError kde_size_msg) \<or>
        (\<exists>ku. group_traces 1 u = Inr ku \<and> group_traces 2 l = Inl (ValueError kde_size_msg))"
  proof (cases "dropna (map (row_key he2019_col) (rows u)) = [] \<and> dropna (map (row_key he2021_col) (rows u)) = []")
    case True
    then have "dropWhile (\<lambda>c. dropna c = [])
                 [map (row_key he2019_col) (rows l), map (row_key he2021_col) (rows l)] = c # cs"
      using first by simp
    then have "group_traces 2 l = Inl (ValueError kde_size_msg)"
      using cl one by (intro group_traces_first_single)
    moreover obtain ku where "group_traces 1 u = Inr ku"
      using group_traces_no_values [OF cu] True by blast
    ultimately show ?thesis by blast
  next
    case False
    then obtain cs' where "dropWhile (\<lambda>c. dropna c = [])
                 [map (row_key he2019_col) (rows u), map (row_key he2021_col) (rows u)] = c # cs'"
      using first by (auto split: if_splits)
    then show ?thesis using cu one group_traces_first_single by blast
  qed
  then show ?thesis
    using create_plots_trace_error [OF an] results_traces_Inl [of ru "ValueError kde_size_msg" rl] du dl
    by auto
qed

theorem create_plots_single_value_error_witness:
  "\<exists>u l. split_groups sparse_frame 50 = Inr (u, l) \<and>
     dropWhile (\<lambda>c. dropna c = [])
       [map (row_key he2019_col) (rows u), map (row_key he2021_col) (rows u),
        map (row_key he2019_col) (rows l), map (row_key he2021_col) (rows l)] =
       [[Some 5, None], [Some 2, Some 1], [Some 3, Some 2]] \<and>
     length (dropna [Some (5::real), None]) = 1 \<and>
     create_plots half_sf sparse_frame 50 = Inl (ValueError kde_size_msg)"
proof -
  have cols: "gdp_col \<in> set (columns sparse_frame)" "he2019_col \<in> set (columns sparse_frame)"
    "he2021_col \<in> set (columns sparse_frame)" by (simp_all add: sparse_frame_def he_frame_def)
  obtain u l where ul: "split_groups sparse_frame 50 = Inr (u, l)"
    using split_groups_Inr [OF cols(1)] by blast
  have "rows u = take 2 (rows sparse_frame)" and "rows l = drop 2 (rows sparse_frame)"
    using split_groups_rows(2,3) [OF ul]
    by (simp_all add: sparse_frame_def he_frame_def four_rows_cut nargsort_desc_def row_key_def he_row_def)
  then have first: "dropWhile (\<lambda>c. dropna c = [])
       [map (row_key he2019_col) (rows u), map (row_key he2021_col) (rows u),
        map (row_key he2019_col) (rows l), map (row_key he2021_col) (rows l)] =
       [Some 5, None] # [[Some 2, Some 1], [Some 3, Some 2]]"
    by (simp add: sparse_frame_def he_frame_def row_key_def he_row_def)
  have "create_plots half_sf sparse_frame 50 = Inl (ValueError kde_size_msg)"
    using create_plots_single_value_error [OF cols ul first] by simp
  with ul first show ?thesis by auto
qed

text \<open>
  C22. The KDE line of a column whose values can be estimated has 1000 points spread
  evenly and in order from the column's smallest value to its largest, and the estimated
  density is positive at each of them.
\<close>

theorem kde_trace_shape:
  assumes "kde_ok col" and "dropna col \<noteq> []"
  shows "\<exists>t. kde_trace row y col = Inr [t] \<and> tr_kind t = KdeLine \<and> tr_col t = 2 \<and>
           tr_x t = linspace (Min (set (dropna col))) (Max (set (dropna col))) 1000 \<and>
           sorted (tr_x t) \<and> hd (tr_x t) = Min (set (dropna col)) \<and>
           last (tr_x t) = Max (set (dropna col)) \<and>
           length (tr_y t) = 1000 \<and> (\<forall>v\<in>set (tr_y t). 0 < v)"
proof -
  let ?d = "dropna col"
  have ok: "2 \<le> length ?d" "moment_sum 2 ?d \<noteq> 0" using assms by (auto simp: kde_ok_def)
  have "Min (set ?d) \<le> Max (set ?d)" using assms(2) by simp
  then have "sorted (linspace (Min (set ?d)) (Max (set ?d)) 1000)" by (rule linspace_sorted)
  moreover have "\<forall>v\<in>set (map (kde_eval ?d) (linspace (Min (set ?d)) (Max (set ?d)) 1000)). 0 < v"
    using kde_eval_pos [OF ok] by simp
  ultimately show ?thesis
    using kde_trace_Inr [OF assms, of row y] linspace_hd_last [of 1000 "Min (set ?d)" "Max (set ?d)"]
    by simp
qed

theorem kde_trace_shape_witness:
  "kde_ok [Some 1, None, Some 3] \<and> dropna [Some 1, None, Some 3] \<noteq> [] \<and>
   (\<exists>t. kde_trace 1 he2019_col [Some 1, None, Some 3] = Inr [t] \<and> tr_kind t = KdeLine \<and> tr_col t = 2 \<and>
        tr_x t = linspace 1 3 1000 \<and> sorted (tr_x t) \<and> hd (tr_x t) = 1 \<and> last (tr_x t) = 3 \<and>
        length (tr_y t) = 1000 \<and> (\<forall>v\<in>set (tr_y t). 0 < v))"
proof -
  have ok: "kde_ok [Some 1, None, Some 3]"
    by (simp add: kde_ok_def moment_sum_def mean_of_def)
  show ?thesis
    using kde_trace_shape [OF ok, of 1 he2019_col] ok by simp
qed

end
