(* ===== verification/Callbacks.thy ===== *)
theory Callbacks
  imports Plots
begin

text \<open>
  The two Dash callbacks, lines 309 to 405. \<^verbatim>\<open>update_percentile_value\<close> shows the
  slider's value; \<^verbatim>\<open>update_analysis\<close> calls \<^verbatim>\<open>create_plots\<close> and turns each group's
  result into the seven outputs of its panel: the label, the statistic and the p-value
  printed with \<^verbatim>\<open>:.4f\<close>, the significance as Yes/No and True/False, the table title,
  and the table of the twelve statistics of \<^verbatim>\<open>create_stats_table\<close>, whose cells print a
  float with \<^verbatim>\<open>:.2f\<close> and anything else (the count) as it is.
  A result's \<^verbatim>\<open>stats[year]\<close> dict is \<open>desc_items\<close>, its items in the source's order,
  each a float or an int (\<open>stat_val\<close>); dict lookups are \<open>dict_get\<close>, with KeyError.
  \<open>fmt_fixed d x\<close> is Python's \<^verbatim>\<open>format(x, '.df')\<close>: the value rounded half to even
  at \<open>d\<close> decimals (Python rounds the exact binary value correctly; here the value is a
  real), a minus sign for every negative value, even one that rounds to zero, and
  \<^verbatim>\<open>nan\<close>, \<^verbatim>\<open>inf\<close>, \<^verbatim>\<open>-inf\<close> for the special values.
  The slider of the layout (line 180) ranges over 5, 10, ..., 95.
\<close>

datatype stat_val = SFloat fl | SInt nat

definition desc_items :: "desc_stats \<Rightarrow> (string \<times> stat_val) list" where
  "desc_items st =
     [(''Mean'', SFloat (st_mean st)), (''Standard Error'', SFloat (st_std_error st)),
      (''Median'', SFloat (st_median st)), (''Standard Deviation'', SFloat (st_std st)),
      (''Sample Variance'', SFloat (st_variance st)), (''Kurtosis'', SFloat (st_kurtosis st)),
      (''Skewness'', SFloat (st_skewness st)), (''Range'', SFloat (st_range st)),
      (''Minimum'', SFloat (st_minimum st)), (''Maximum'', SFloat (st_maximum st)),
      (''Sum'', SFloat (st_sum st)), (''Count'', SInt (st_count st))]"

definition stat_names :: "(string \<times> string) list" where
  "stat_names =
     [(''Mean'', ''Mean''), (''Standard Error'', ''Std Err''), (''Median'', ''Median''),
      (''Standard Deviation'', ''Std Dev''), (''Sample Variance'', ''Variance''),
      (''Kurtosis'', ''Kurtosis''), (''Skewness'', ''Skewness''), (''Range'', ''Range''),
      (''Minimum'', ''Min''), (''Maximum'', ''Max''), (''Sum'', ''Sum''), (''Count'', ''Count'')]"

definition dict_get :: "(string \<times> 'v) list \<Rightarrow> string \<Rightarrow> py_error + 'v" where
  "dict_get d k = (case map_of d k of Some v \<Rightarrow> Inr v | None \<Rightarrow> Inl (KeyError k))"

text \<open>A list comprehension whose element expression may raise: the first error wins.\<close>

fun map_err :: "('a \<Rightarrow> py_error + 'b) \<Rightarrow> 'a list \<Rightarrow> py_error + 'b list" where
  "map_err f [] = Inr []"
| "map_err f (x # xs) =
     (case f x of Inl e \<Rightarrow> Inl e | Inr y \<Rightarrow> (case map_err f xs of Inl e \<Rightarrow> Inl e | Inr ys \<Rightarrow> Inr (y # ys)))"

subsection \<open>Fixed-point formatting\<close>

definition pad_zeros :: "nat \<Rightarrow> string \<Rightarrow> string" where
  "pad_zeros d s = replicate (d - length s) (CHR ''0'') @ s"

definition fmt_fixed :: "nat \<Rightarrow> fl \<Rightarrow> string" where
  "fmt_fixed d x =
     (case x of
        NaN \<Rightarrow> ''nan''
      | PInf \<Rightarrow> ''inf''
      | NInf \<Rightarrow> ''-inf''
      | Fin v \<Rightarrow>
          (let n = nat \<bar>round_half_even (v * 10 ^ d)\<bar>
           in (if v < 0 then ''-'' else []) @ nat_str (n div 10 ^ d)
              @ (if d = 0 then [] else CHR ''.'' # pad_zeros d (nat_str (n mod 10 ^ d)))))"

fun render_stat :: "stat_val \<Rightarrow> string" where
  "render_stat (SFloat x) = fmt_fixed 2 x"
| "render_stat (SInt n) = nat_str n"

subsection \<open>The callbacks\<close>

definition slider_values :: "int list" where
  "slider_values = map (\<lambda>i. 5 * int i) [1..<20]"

definition update_percentile_value :: "int \<Rightarrow> string" where
  "update_percentile_value p = int_str p @ ''%''"

record html_table =
  thead :: "string list"
  tbody :: "string list list"

definition stat_cell :: "group_result \<Rightarrow> string \<Rightarrow> string \<Rightarrow> py_error + string" where
  "stat_cell r year name =
     (case dict_get (gr_stats r) year of
        Inl e \<Rightarrow> Inl e
      | Inr st \<Rightarrow> (case dict_get (desc_items st) name of Inl e \<Rightarrow> Inl e | Inr v \<Rightarrow> Inr (render_stat v)))"

definition stats_row :: "group_result \<Rightarrow> string \<times> string \<Rightarrow> py_error + string list" where
  "stats_row r = (\<lambda>(name, short).
     (case stat_cell r he2019_col name of
        Inl e \<Rightarrow> Inl e
      | Inr c19 \<Rightarrow> (case stat_cell r he2021_col name of Inl e \<Rightarrow> Inl e | Inr c21 \<Rightarrow> Inr [short, c19, c21])))"

definition create_stats_table :: "(string \<times> group_result) list \<Rightarrow> string \<Rightarrow> py_error + html_table" where
  "create_stats_table results name =
     (case dict_get results name of
        Inl e \<Rightarrow> Inl e
      | Inr r \<Rightarrow>
          (case map_err (stats_row r) stat_names of
             Inl e \<Rightarrow> Inl e
           | Inr rs \<Rightarrow> Inr \<lparr>thead = [''Statistic'', ''2019 HE'', ''2021 HE''], tbody = rs\<rparr>))"

record panel =
  gv_title :: string
  gv_t_stat :: string
  gv_p_value :: string
  gv_significant :: string
  gv_hypothesis :: string
  gv_stats_title :: string
  gv_table :: html_table

text \<open>The seven outputs of one group's panel, in the order of the returned tuple.\<close>

definition group_panel :: "(string \<times> group_result) list \<Rightarrow> string \<Rightarrow> py_error + panel" where
  "group_panel results name =
     (case dict_get results name of
        Inl e \<Rightarrow> Inl e
      | Inr r \<Rightarrow>
          (case create_stats_table results name of
             Inl e \<Rightarrow> Inl e
           | Inr t \<Rightarrow>
               Inr \<lparr>gv_title = name, gv_t_stat = fmt_fixed 4 (gr_statistic r),
                    gv_p_value = fmt_fixed 4 (gr_pvalue r),
                    gv_significant = (if gr_significant r then ''Yes'' else ''No''),
                    gv_hypothesis = (if gr_significant r then ''True'' else ''False''),
                    gv_stats_title = ''Statistics for '' @ name, gv_table = t\<rparr>))"

definition update_analysis ::
  "t_sf \<Rightarrow> frame \<Rightarrow> int \<Rightarrow> py_error + figure \<times> panel \<times> panel" where
  "update_analysis sf data p =
     (case create_plots sf data p of
        Inl e \<Rightarrow> Inl e
      | Inr (fig, results) \<Rightarrow>
          (let names = map fst results in
           if length names < 2 then Inl IndexError
           else
             (case group_panel results (names ! 0) of
                Inl e \<Rightarrow> Inl e
              | Inr tp \<Rightarrow>
                  (case group_panel results (names ! 1) of
                     Inl e \<Rightarrow> Inl e
                   | Inr bt \<Rightarrow> Inr (fig, tp, bt)))))"

subsection \<open>Lemmas on the callbacks\<close>

lemma analyze_group_stats:
  "analyze_group sf g = Inr r \<Longrightarrow>
     \<exists>c19 c21. gr_stats r = [(he2019_col, describe c19), (he2021_col, describe c21)]"
  by (auto simp: analyze_group_def Let_def split: sum.splits)

lemma analyze_split_shape:
  assumes "analyze_split sf data p = Inr res"
  shows "\<exists>ru rl. res = [(top_label p, ru), (bottom_label p, rl)] \<and>
           (\<exists>c19 c21. gr_stats ru = [(he2019_col, describe c19), (he2021_col, describe c21)]) \<and>
           (\<exists>c19 c21. gr_stats rl = [(he2019_col, describe c19), (he2021_col, describe c21)])"
  using assms labels_differ [of p p]
  by (auto simp: analyze_split_def split: sum.splits) (use analyze_group_stats in blast)+

lemma create_plots_Inr:
  "create_plots sf data p = Inr (fig, res) \<Longrightarrow> analyze_split sf data p = Inr res"
  by (auto simp: create_plots_def Let_def split: sum.splits if_splits)

lemma stats_table_body:
  assumes "gr_stats r = [(he2019_col, s19), (he2021_col, s21)]"
  shows "map_err (stats_row r) stat_names =
           Inr (map (\<lambda>((name, short), v19, v21). [short, render_stat v19, render_stat v21])
                    (zip stat_names (zip (map snd (desc_items s19)) (map snd (desc_items s21)))))"
  using assms
  by (simp add: stat_names_def stats_row_def stat_cell_def dict_get_def desc_items_def)

lemma group_panel_Inr:
  assumes "map_of results name = Some r" and "gr_stats r = [(he2019_col, s19), (he2021_col, s21)]"
  shows "group_panel results name =
           Inr \<lparr>gv_title = name, gv_t_stat = fmt_fixed 4 (gr_statistic r),
                gv_p_value = fmt_fixed 4 (gr_pvalue r),
                gv_significant = (if gr_significant r then ''Yes'' else ''No''),
                gv_hypothesis = (if gr_significant r then ''True'' else ''False''),
                gv_stats_title = ''Statistics for '' @ name,
                gv_table = \<lparr>thead = [''Statistic'', ''2019 HE'', ''2021 HE''],
                  tbody = map (\<lambda>((name, short), v19, v21). [short, render_stat v19, render_stat v21])
                            (zip stat_names (zip (map snd (desc_items s19)) (map snd (desc_items s21))))\<rparr>\<rparr>"
  using assms stats_table_body [OF assms(2)]
  by (simp add: group_panel_def create_stats_table_def dict_get_def)

lemma update_analysis_Inr:
  assumes "create_plots sf data p = Inr (fig, res)"
  shows "\<exists>ru rl tp bt. res = [(top_label p, ru), (bottom_label p, rl)] \<and>
           update_analysis sf data p = Inr (fig, tp, bt) \<and>
           group_panel res (top_label p) = Inr tp \<and> group_panel res (bottom_label p) = Inr bt"
proof -
  obtain ru rl s19 s21 t19 t21 where res: "res = [(top_label p, ru), (bottom_label p, rl)]"
    and su: "gr_stats ru = [(he2019_col, describe s19), (he2021_col, describe s21)]"
    and sl: "gr_stats rl = [(he2019_col, describe t19), (he2021_col, describe t21)]"
    using analyze_split_shape [OF create_plots_Inr [OF assms]] by blast
  have "map_of res (top_label p) = Some ru" "map_of res (bottom_label p) = Some rl"
    using res labels_differ [of p p] by simp_all
  then obtain tp bt where "group_panel res (top_label p) = Inr tp" "group_panel res (bottom_label p) = Inr bt"
    using group_panel_Inr [OF _ su] group_panel_Inr [OF _ sl] by blast
  with res assms show ?thesis by (simp add: update_analysis_def)
qed

subsection \<open>Properties of the callbacks\<close>

text \<open>
  C23. Whenever \<^verbatim>\<open>create_plots\<close> returns, \<^verbatim>\<open>update_analysis\<close> returns its figure and
  one panel per group, top first: each panel is titled with the group's label, prints
  the statistic and the one-tailed p-value of that group with four decimals, shows
  Yes and True exactly when the group is flagged significant (No and False otherwise),
  and lists the twelve statistics under their short names in the source's order.
\<close>

theorem update_analysis_panels:
  assumes "create_plots sf data p = Inr (fig, res)"
  shows "\<exists>ru rl tp bt. res = [(top_label p, ru), (bottom_label p, rl)] \<and>
           update_analysis sf data p = Inr (fig, tp, bt) \<and>
           gv_title tp = top_label p \<and> gv_title bt = bottom_label p \<and>
           gv_t_stat tp = fmt_fixed 4 (gr_statistic ru) \<and> gv_p_value tp = fmt_fixed 4 (gr_pvalue ru) \<and>
           gv_t_stat bt = fmt_fixed 4 (gr_statistic rl) \<and> gv_p_value bt = fmt_fixed 4 (gr_pvalue rl) \<and>
           (gv_significant tp = ''Yes'' \<longleftrightarrow> gr_significant ru) \<and>
           (gv_hypothesis tp = ''True'' \<longleftrightarrow> gr_significant ru) \<and>
           (gv_significant bt = ''Yes'' \<longleftrightarrow> gr_significant rl) \<and>
           (gv_hypothesis bt = ''True'' \<longleftrightarrow> gr_significant rl) \<and>
           map hd (tbody (gv_table tp)) = map snd stat_names \<and>
           map hd (tbody (gv_table bt)) = map snd stat_names"
proof -
  obtain ru rl tp bt where res: "res = [(top_label p, ru), (bottom_label p, rl)]"
    and up: "update_analysis sf data p = Inr (fig, tp, bt)"
    and tp: "group_panel res (top_label p) = Inr tp" and bt: "group_panel res (bottom_label p) = Inr bt"
    using update_analysis_Inr [OF assms] by blast
  obtain s19 s21 t19 t21 where
    su: "gr_stats ru = [(he2019_col, describe s19), (he2021_col, describe s21)]"
    and sl: "gr_stats rl = [(he2019_col, describe t19), (he2021_col, describe t21)]"
    using analyze_split_shape [OF create_plots_Inr [OF assms]] res by auto
  have "map_of res (top_label p) = Some ru" "map_of res (bottom_label p) = Some rl"
    using res labels_differ [of p p] by simp_all
  then show ?thesis
    using res up tp bt group_panel_Inr [OF _ su, of res "top_label p"]
      group_panel_Inr [OF _ sl, of res "bottom_label p"]
    by (auto simp: stat_names_def desc_items_def)
qed

theorem update_analysis_panels_witness:
  "\<exists>fig res. create_plots half_sf four_frame 50 = Inr (fig, res) \<and>
     (\<exists>ru rl tp bt. res = [(top_label 50, ru), (bottom_label 50, rl)] \<and>
        update_analysis half_sf four_frame 50 = Inr (fig, tp, bt) \<and>
        gv_title tp = top_label 50 \<and> gv_title bt = bottom_label 50 \<and>
        gv_t_stat tp = fmt_fixed 4 (gr_statistic ru) \<and> gv_p_value tp = fmt_fixed 4 (gr_pvalue ru) \<and>
        gv_t_stat bt = fmt_fixed 4 (gr_statistic rl) \<and> gv_p_value bt = fmt_fixed 4 (gr_pvalue rl) \<and>
        (gv_significant tp = ''Yes'' \<longleftrightarrow> gr_significant ru) \<and>
        (gv_hypothesis tp = ''True'' \<longleftrightarrow> gr_significant ru) \<and>
        (gv_significant bt = ''Yes'' \<longleftrightarrow> gr_significant rl) \<and>
        (gv_hypothesis bt = ''True'' \<longleftrightarrow> gr_significant rl) \<and>
        map hd (tbody (gv_table tp)) = map snd stat_names \<and>
        map hd (tbody (gv_table bt)) = map snd stat_names)"
proof -
  obtain u l where ul: "split_groups four_frame 50 = Inr (u, l)" and ok: "plots_ok u" "plots_ok l"
    using four_frame_50 by blast
  obtain fig res where fig: "create_plots half_sf four_frame 50 = Inr (fig, res)"
    using create_plots_figure [OF four_frame_cols ul ok, of half_sf] by blast
  show ?thesis
    by (rule exI [of _ fig], rule exI [of _ res], rule conjI [OF fig], rule update_analysis_panels [OF fig])
qed

text \<open>
  C24. \<^verbatim>\<open>update_analysis\<close> fails exactly when \<^verbatim>\<open>create_plots\<close> fails, with the same
  exception: building the panels never raises (no KeyError on a label, a year or a
  statistic name, no IndexError on the group names).
\<close>

theorem update_analysis_errors:
  "update_analysis sf data p = Inl e \<longleftrightarrow> create_plots sf data p = Inl e"
proof (cases "create_plots sf data p")
  case (Inl e')
  then show ?thesis by (simp add: update_analysis_def)
next
  case (Inr fr)
  then obtain fig res where "create_plots sf data p = Inr (fig, res)" by (cases fr) auto
  then show ?thesis using update_analysis_Inr by fastforce
qed

text \<open>
  C25. The statistics table of a group: the header row, then one row per statistic in
  the order of \<^verbatim>\<open>stat_names\<close>, its short name and the 2019 and 2021 values, every float
  printed with two decimals and the count printed as an integer.
\<close>

theorem create_stats_table_rows:
  assumes "map_of results name = Some r"
    and "gr_stats r = [(he2019_col, s19), (he2021_col, s21)]"
  shows "create_stats_table results name =
           Inr \<lparr>thead = [''Statistic'', ''2019 HE'', ''2021 HE''],
                tbody =
                  [[''Mean'', fmt_fixed 2 (st_mean s19), fmt_fixed 2 (st_mean s21)],
                   [''Std Err'', fmt_fixed 2 (st_std_error s19), fmt_fixed 2 (st_std_error s21)],
                   [''Median'', fmt_fixed 2 (st_median s19), fmt_fixed 2 (st_median s21)],
                   [''Std Dev'', fmt_fixed 2 (st_std s19), fmt_fixed 2 (st_std s21)],
                   [''Variance'', fmt_fixed 2 (st_variance s19), fmt_fixed 2 (st_variance s21)],
                   [''Kurtosis'', fmt_fixed 2 (st_kurtosis s19), fmt_fixed 2 (st_kurtosis s21)],
                   [''Skewness'', fmt_fixed 2 (st_skewness s19), fmt_fixed 2 (st_skewness s21)],
                   [''Range'', fmt_fixed 2 (st_range s19), fmt_fixed 2 (st_range s21)],
                   [''Min'', fmt_fixed 2 (st_minimum s19), fmt_fixed 2 (st_minimum s21)],
                   [''Max'', fmt_fixed 2 (st_maximum s19), fmt_fixed 2 (st_maximum s21)],
                   [''Sum'', fmt_fixed 2 (st_sum s19), fmt_fixed 2 (st_sum s21)],
                   [''Count'', nat_str (st_count s19), nat_str (st_count s21)]]\<rparr>"
  using assms stats_table_body [OF assms(2)]
  by (simp add: create_stats_table_def dict_get_def stat_names_def desc_items_def)

theorem create_stats_table_rows_witness:
  "create_stats_table [(''Top 50%'', \<lparr>gr_data = four_frame, gr_pvalue = NaN, gr_statistic = NaN,
        gr_significant = False,
        gr_stats = [(he2019_col, describe [Some 1, None]), (he2021_col, describe [])]\<rparr>)] ''Top 50%'' =
     Inr \<lparr>thead = [''Statistic'', ''2019 HE'', ''2021 HE''],
          tbody =
            [[''Mean'', fmt_fixed 2 (Fin 1), ''nan''], [''Std Err'', ''nan'', ''nan''],
             [''Median'', fmt_fixed 2 (Fin 1), ''nan''], [''Std Dev'', ''nan'', ''nan''],
             [''Variance'', ''nan'', ''nan''], [''Kurtosis'', ''nan'', ''nan''],
             [''Skewness'', ''nan'', ''nan''], [''Range'', fmt_fixed 2 (Fin 0), ''nan''],
             [''Min'', fmt_fixed 2 (Fin 1), ''nan''], [''Max'', fmt_fixed 2 (Fin 1), ''nan''],
             [''Sum'', fmt_fixed 2 (Fin 1), fmt_fixed 2 (Fin 0)], [''Count'', ''1'', ''0'']]\<rparr>"
  by (simp add: create_stats_table_rows [of _ _ _ "describe [Some 1, None]" "describe []"])
    (simp add: fmt_fixed_def describe_def stats_defs s_mean_def s_median_def s_std_def s_var_def
      s_kurt_def s_skew_def s_min_def s_max_def s_sum_def median_of_def nat_str.simps)

end
