(* ===== verification/Layout.thy ===== *)
theory Layout
  imports Callbacks "HOL-Library.Sublist"
begin

text \<open>
  The page, lines 171 to 306, and the wiring of the callbacks, lines 309 to 338.
  \<^item> \<open>component\<close>: a Dash component as the layout writes it: an HTML element with its
    tag, optional \<^verbatim>\<open>id\<close>, text and children; the slider with its id, \<^verbatim>\<open>min\<close>,
    \<^verbatim>\<open>max\<close>, \<^verbatim>\<open>step\<close>, initial \<^verbatim>\<open>value\<close> and \<^verbatim>\<open>marks\<close>; the graph with its id.
    Style dictionaries are not modelled.
  \<^item> \<open>layout\<close>: \<^verbatim>\<open>app.layout\<close>, lines 174 to 264; \<open>py_range\<close> is Python's
    \<^verbatim>\<open>range(start, stop, step)\<close> for a positive step, used for the marks.
  \<^item> \<open>percentile_cb\<close> and \<open>analysis_cb\<close>: the \<^verbatim>\<open>@app.callback\<close> declarations, each
    output and input a component id and a property; \<open>analysis_outputs\<close> is the tuple
    \<^verbatim>\<open>update_analysis\<close> returns (lines 387 to 405), \<open>out_val\<close> the kind of each value.
  \<^item> \<open>prop_accepts\<close>: which values a property takes (a figure for a graph's
    \<^verbatim>\<open>figure\<close>, text or a table for an element's \<^verbatim>\<open>children\<close>, an integer for a
    slider's \<^verbatim>\<open>value\<close>).
  \<^item> \<open>index_string\<close>: \<^verbatim>\<open>app.index_string\<close>, lines 267 to 306, and \<open>dash_set_index\<close>
    Dash's check on assignment, which raises \<^verbatim>\<open>InvalidIndexException\<close> naming
    those of \<^verbatim>\<open>{%app_entry%}\<close>, \<^verbatim>\<open>{%config%}\<close>, \<^verbatim>\<open>{%scripts%}\<close>,
    \<^verbatim>\<open>{%renderer%}\<close> the template lacks; \<open>py_in\<close> is Python's
    substring test, shown equal to the library's \<open>sublist\<close>.
\<close>

datatype component =
    Html string "string option" string "component list"
  | Slider string int int int int "(int \<times> string) list"
  | Graph string

function py_range :: "int \<Rightarrow> int \<Rightarrow> int \<Rightarrow> int list" where
  "py_range a b s = (if 0 < s \<and> a < b then a # py_range (a + s) b s else [])"
  by pat_completeness auto
termination
  by (relation "measure (\<lambda>(a, b, s). nat (b - a))") auto

declare py_range.simps [simp del]

fun comp_ids :: "component \<Rightarrow> string list" where
  "comp_ids (Html tag i txt kids) = (case i of Some x \<Rightarrow> [x] | None \<Rightarrow> []) @ concat (map comp_ids kids)"
| "comp_ids (Slider i mn mx st v mk) = [i]"
| "comp_ids (Graph i) = [i]"

fun find_comp :: "string \<Rightarrow> component \<Rightarrow> component option"
and find_first_comp :: "string \<Rightarrow> component list \<Rightarrow> component option" where
  "find_comp x (Html tag i txt kids) =
     (if i = Some x then Some (Html tag i txt kids)
      else find_first_comp x kids)"
| "find_comp x (Slider i mn mx st v mk) = (if i = x then Some (Slider i mn mx st v mk) else None)"
| "find_comp x (Graph i) = (if i = x then Some (Graph i) else None)"
| "find_first_comp x [] = None"
| "find_first_comp x (c # cs) = (case find_comp x c of Some r \<Rightarrow> Some r | None \<Rightarrow> find_first_comp x cs)"

text \<open>The results panel of one group, lines 197 to 221 (top) and 223 to 247 (bottom).\<close>

definition result_panel :: "string \<Rightarrow> component" where
  "result_panel g =
     Html ''Div'' None []
       [Html ''H3'' (Some (g @ ''-group-title'')) [] [],
        Html ''Table'' None []
          [Html ''Tr'' None [] [Html ''Th'' None ''Measure'' [], Html ''Th'' None ''Result'' []],
           Html ''Tr'' None [] [Html ''Td'' None ''T-statistic'' [], Html ''Td'' (Some (g @ ''-t-stat'')) [] []],
           Html ''Tr'' None [] [Html ''Td'' None ''One-tailed p-value'' [], Html ''Td'' (Some (g @ ''-p-value'')) [] []],
           Html ''Tr'' None [] [Html ''Td'' None ''Significant'' [], Html ''Td'' (Some (g @ ''-significant'')) [] []],
           Html ''Tr'' None [] [Html ''Td'' None ''Hypothesis (2021 > 2019)'' [], Html ''Td'' (Some (g @ ''-hypothesis'')) [] []]]]"

text \<open>The statistics panel of one group, lines 254 to 257 (top) and 259 to 262 (bottom).\<close>

definition stats_panel :: "string \<Rightarrow> component" where
  "stats_panel g =
     Html ''Div'' None [] [Html ''H3'' (Some (g @ ''-stats-title'')) [] [], Html ''Div'' (Some (g @ ''-stats-table'')) [] []]"

definition layout :: component where
  "layout =
     Html ''Div'' None []
       [Html ''H1'' None ''GDP Split Analysis'' [],
        Html ''Div'' None []
          [Html ''H3'' None ''Adjust GDP Percentile Split:'' [],
           Html ''Div'' (Some ''percentile-value'') [] [],
           Slider ''percentile-slider'' 5 95 5 50 (map (\<lambda>i. (i, int_str i @ ''%'')) (py_range 5 96 10))],
        Graph ''plot-area'',
        Html ''Div'' None []
          [Html ''H2'' None ''Hypothesis Test Results'' [],
           Html ''Div'' None [] [result_panel ''top'', result_panel ''bottom'']],
        Html ''Div'' None []
          [Html ''H2'' None ''Descriptive Statistics'' [], stats_panel ''top'', stats_panel ''bottom'']]"

record callback_decl =
  cb_outputs :: "(string \<times> string) list"
  cb_inputs :: "(string \<times> string) list"

definition percentile_cb :: callback_decl where
  "percentile_cb = \<lparr>cb_outputs = [(''percentile-value'', ''children'')],
                    cb_inputs = [(''percentile-slider'', ''value'')]\<rparr>"

definition panel_deps :: "string \<Rightarrow> (string \<times> string) list" where
  "panel_deps g =
     [(g @ ''-group-title'', ''children''), (g @ ''-t-stat'', ''children''),
      (g @ ''-p-value'', ''children''), (g @ ''-significant'', ''children''),
      (g @ ''-hypothesis'', ''children''), (g @ ''-stats-title'', ''children''),
      (g @ ''-stats-table'', ''children'')]"

definition analysis_cb :: callback_decl where
  "analysis_cb = \<lparr>cb_outputs = (''plot-area'', ''figure'') # panel_deps ''top'' @ panel_deps ''bottom'',
                   cb_inputs = [(''percentile-slider'', ''value'')]\<rparr>"

datatype out_val = OFigure figure | OText string | OTable html_table | OInt int

definition panel_outputs :: "panel \<Rightarrow> out_val list" where
  "panel_outputs v =
     [OText (gv_title v), OText (gv_t_stat v), OText (gv_p_value v), OText (gv_significant v),
      OText (gv_hypothesis v), OText (gv_stats_title v), OTable (gv_table v)]"

definition analysis_outputs :: "figure \<times> panel \<times> panel \<Rightarrow> out_val list" where
  "analysis_outputs r = (case r of (fig, tp, bt) \<Rightarrow> OFigure fig # panel_outputs tp @ panel_outputs bt)"

definition percentile_outputs :: "int \<Rightarrow> out_val list" where
  "percentile_outputs p = [OText (update_percentile_value p)]"

fun prop_accepts :: "component option \<Rightarrow> string \<Rightarrow> out_val \<Rightarrow> bool" where
  "prop_accepts (Some (Graph _)) pr (OFigure _) = (pr = ''figure'')"
| "prop_accepts (Some (Html _ _ _ _)) pr (OText _) = (pr = ''children'')"
| "prop_accepts (Some (Html _ _ _ _)) pr (OTable _) = (pr = ''children'')"
| "prop_accepts (Some (Slider _ _ _ _ _ _)) pr (OInt _) = (pr = ''value'')"
| "prop_accepts _ _ _ = False"

definition outputs_fit :: "callback_decl \<Rightarrow> out_val list \<Rightarrow> bool" where
  "outputs_fit cb vs = list_all2 (\<lambda>(i, pr) v. prop_accepts (find_comp i layout) pr v) (cb_outputs cb) vs"

definition slider_of :: "component \<Rightarrow> (int \<times> int \<times> int \<times> int \<times> (int \<times> string) list) option" where
  "slider_of c =
     (case find_comp ''percentile-slider'' c of
        Some (Slider _ mn mx st v mk) \<Rightarrow> Some (mn, mx, st, v, mk)
      | _ \<Rightarrow> None)"

definition slider_positions :: "component \<Rightarrow> int list" where
  "slider_positions c = (case slider_of c of Some (mn, mx, st, v, mk) \<Rightarrow> py_range mn (mx + 1) st | None \<Rightarrow> [])"

definition index_lines :: "string list" where
  "index_lines =
    [''<!DOCTYPE html>'',
     ''<html>'',
     ''    <head>'',
     ''        {%metas%}'',
     ''        <title>GDP Split Analysis</title>'',
     ''        {%favicon%}'',
     ''        {%css%}'',
     ''        <style>'',
     ''            table {'',
     ''                border-collapse: collapse;'',
     ''                width: 100%;'',
     ''                margin: 20px 0;'',
     ''            }'',
     ''            th, td {'',
     ''                border: 1px solid #ddd;'',
     ''                padding: 8px;'',
     ''            }'',
     ''            th {'',
     ''                background-color: #f2f2f2;'',
     ''                text-align: left;'',
     ''            }'',
     ''            td.numeric {'',
     ''                text-align: right;'',
     ''            }'',
     ''            tr:nth-child(even) {'',
     ''                background-color: #f9f9f9;'',
     ''            }'',
     ''        </style>'',
     ''    </head>'',
     ''    <body>'',
     ''        {%app_entry%}'',
     ''        <footer>'',
     ''            {%config%}'',
     ''            {%scripts%}'',
     ''            {%renderer%}'',
     ''        </footer>'',
     ''    </body>'',
     ''</html>'']"

definition index_string :: string where
  "index_string = concat (map (\<lambda>l. CHR 10 # l) index_lines) @ [CHR 10]"

definition index_required :: "string list" where
  "index_required = [''{%app_entry%}'', ''{%config%}'', ''{%scripts%}'', ''{%renderer%}'']"

text \<open>Python's \<^verbatim>\<open>k in s\<close> on strings, as Dash tests each placeholder.\<close>

fun py_in :: "string \<Rightarrow> string \<Rightarrow> bool" where
  "py_in k [] = (k = [])"
| "py_in k (c # cs) = (take (length k) (c # cs) = k \<or> py_in k cs)"

definition dash_set_index :: "string \<Rightarrow> py_error + string" where
  "dash_set_index s =
     (let missing = filter (\<lambda>k. \<not> py_in k s) index_required
      in if missing = [] then Inr s else Inl (InvalidIndex missing))"

subsection \<open>Lemmas on the page\<close>

lemma py_in_sublist: "py_in k s \<longleftrightarrow> sublist k s"
proof (induction s)
  case Nil
  then show ?case by simp
next
  case (Cons c cs)
  have "take (length k) (c # cs) = k \<longleftrightarrow> prefix k (c # cs)"
  proof
    assume "take (length k) (c # cs) = k"
    then show "prefix k (c # cs)" by (metis append_take_drop_id prefix_def)
  next
    assume "prefix k (c # cs)"
    then show "take (length k) (c # cs) = k" by (auto simp: prefix_def)
  qed
  then show ?case using Cons by (simp add: sublist_Cons_right)
qed

lemma py_range_marks: "py_range 5 96 10 = [5, 15, 25, 35, 45, 55, 65, 75, 85, 95]"
  by (simp add: py_range.simps)

lemma slider_of_layout:
  "slider_of layout = Some (5, 95, 5, 50, map (\<lambda>i. (i, int_str i @ ''%'')) [5, 15, 25, 35, 45, 55, 65, 75, 85, 95])"
  by (simp add: slider_of_def layout_def result_panel_def stats_panel_def py_range_marks)

lemma slider_values_list:
  "slider_values = [5, 10, 15, 20, 25, 30, 35, 40, 45, 50, 55, 60, 65, 70, 75, 80, 85, 90, 95]"
  by (simp add: slider_values_def upt_rec)

lemma slider_positions_layout: "slider_positions layout = slider_values"
  by (simp add: slider_positions_def slider_of_layout slider_values_list py_range.simps)

lemma index_has_placeholders:
  "py_in ''{%app_entry%}'' index_string" "py_in ''{%config%}'' index_string"
  "py_in ''{%scripts%}'' index_string" "py_in ''{%renderer%}'' index_string"
  by (simp_all add: index_string_def index_lines_def)

lemmas layout_defs = layout_def result_panel_def stats_panel_def

subsection \<open>Properties of the page\<close>

text \<open>
  C28. The callbacks are wired to the page: the ids of the layout are distinct, every
  output and input of both callbacks names one of them, and every value the callbacks
  return fits the property it is sent to, in order: the figure to the graph's
  \<^verbatim>\<open>figure\<close>, each text and the tables to an element's \<^verbatim>\<open>children\<close>, as many values
  as outputs; the slider's value fits both inputs.
\<close>

theorem callbacks_wired:
  "distinct (comp_ids layout) \<and>
   set (map fst (cb_outputs analysis_cb @ cb_inputs analysis_cb @ cb_outputs percentile_cb @ cb_inputs percentile_cb))
     \<subseteq> set (comp_ids layout) \<and>
   outputs_fit analysis_cb (analysis_outputs v) \<and> outputs_fit percentile_cb (percentile_outputs q) \<and>
   list_all (\<lambda>(i, pr). prop_accepts (find_comp i layout) pr (OInt q)) (cb_inputs analysis_cb @ cb_inputs percentile_cb)"
proof -
  obtain fig tp bt where v: "v = (fig, tp, bt)" by (cases v) auto
  show ?thesis
    by (simp add: v layout_defs analysis_cb_def percentile_cb_def panel_deps_def outputs_fit_def
        analysis_outputs_def panel_outputs_def percentile_outputs_def)
qed

text \<open>
  C29. The page is set up as the callbacks expect: Dash accepts the template (it has
  every placeholder Dash requires), the slider's positions are exactly the percentiles
  5, 10, ..., 95 the model's slider takes, its initial value 50 is one of them, and
  each mark is at a position and labelled as \<^verbatim>\<open>update_percentile_value\<close> shows it.
\<close>

theorem app_setup:
  "dash_set_index index_string = Inr index_string \<and> slider_positions layout = slider_values \<and>
   (case slider_of layout of
      Some (mn, mx, st, v, mk) \<Rightarrow>
        v \<in> set slider_values \<and> set (map fst mk) \<subseteq> set slider_values \<and>
        map snd mk = map (update_percentile_value \<circ> fst) mk
    | None \<Rightarrow> False)"
proof -
  have "dash_set_index index_string = Inr index_string"
    by (simp add: dash_set_index_def index_required_def index_has_placeholders)
  moreover note slider_positions_layout
  moreover have "case slider_of layout of
      Some (mn, mx, st, v, mk) \<Rightarrow>
        v \<in> set slider_values \<and> set (map fst mk) \<subseteq> set slider_values \<and>
        map snd mk = map (update_percentile_value \<circ> fst) mk
    | None \<Rightarrow> False"
    by (simp add: slider_of_layout slider_values_list update_percentile_value_def)
  ultimately show ?thesis by (intro conjI)
qed

end
