(* ===== verification/App.thy ===== *)
theory App
  imports Layout
begin

text \<open>
  The running page: Dash's runtime driving the two callbacks of lines 309 to 338 over the
  layout, as a state machine.
  \<^item> \<open>cb_name\<close> names the two callbacks in the order the code registers them
    (\<^verbatim>\<open>update_percentile_value\<close>, then \<^verbatim>\<open>update_analysis\<close>); \<open>decl_of\<close> gives the
    declaration of each and \<open>run_callback\<close> the values its Python function returns, an
    exception as \<open>Inl\<close>.
  \<^item> \<open>app_state\<close>: the slider's value, the store of the properties the callbacks have
    set (a map from (id, property) to value), and the callbacks whose input changed and
    whose response has not been applied yet.
  \<^item> \<open>app_step\<close>: the user moves the slider to another of its positions, which
    triggers every callback with the slider as input (\<open>move\<close>); or the response of a
    pending callback arrives, computed from the current slider value, and its values are
    written to its outputs in order (\<open>respond\<close>). A callback that raises leaves its
    outputs as they were, as Dash does. Responses may arrive in any order.
  \<^item> \<open>app_init\<close>: the page as loaded: the slider at the layout's initial value and
    every callback triggered, as Dash fires all callbacks on load; \<open>app_reach\<close> the
    states reachable from it.
  \<^item> \<open>page_shows\<close>: the page shows what the two callbacks return for the slider's
    current value (for \<^verbatim>\<open>update_analysis\<close>, when it returns).
  These are Dash's rules, not code of this repository; the callbacks, their
  declarations and the layout they act on are the code's.
\<close>

datatype cb_name = UpdatePercentileValue | UpdateAnalysis

definition all_callbacks :: "cb_name list" where
  "all_callbacks = [UpdatePercentileValue, UpdateAnalysis]"

fun decl_of :: "cb_name \<Rightarrow> callback_decl" where
  "decl_of UpdatePercentileValue = percentile_cb"
| "decl_of UpdateAnalysis = analysis_cb"

fun run_callback :: "t_sf \<Rightarrow> frame \<Rightarrow> cb_name \<Rightarrow> int \<Rightarrow> py_error + out_val list" where
  "run_callback sf data UpdatePercentileValue p = Inr (percentile_outputs p)"
| "run_callback sf data UpdateAnalysis p = map_sum id analysis_outputs (update_analysis sf data p)"

record app_state =
  slider_val :: int
  store :: "string \<times> string \<Rightarrow> out_val option"
  pending :: "cb_name list"

definition triggered :: "string \<times> string \<Rightarrow> cb_name list" where
  "triggered k = filter (\<lambda>c. k \<in> set (cb_inputs (decl_of c))) all_callbacks"

definition slider_init :: int where
  "slider_init = (case slider_of layout of Some (_, _, _, v, _) \<Rightarrow> v | None \<Rightarrow> 0)"

definition app_init :: app_state where
  "app_init = \<lparr>slider_val = slider_init, store = Map.empty,
               pending = triggered (''percentile-slider'', ''value'')\<rparr>"

definition respond :: "t_sf \<Rightarrow> frame \<Rightarrow> cb_name \<Rightarrow> app_state \<Rightarrow> app_state" where
  "respond sf data c s =
     (case run_callback sf data c (slider_val s) of
        Inl _ \<Rightarrow> s\<lparr>pending := remove1 c (pending s)\<rparr>
      | Inr vs \<Rightarrow> s\<lparr>store := store s ++ map_of (zip (cb_outputs (decl_of c)) vs),
                   pending := remove1 c (pending s)\<rparr>)"

definition move :: "int \<Rightarrow> app_state \<Rightarrow> app_state" where
  "move v s = s\<lparr>slider_val := v,
                 pending := remdups (pending s @ triggered (''percentile-slider'', ''value''))\<rparr>"

inductive app_step :: "t_sf \<Rightarrow> frame \<Rightarrow> app_state \<Rightarrow> app_state \<Rightarrow> bool" for sf data where
  slide: "v \<in> set (slider_positions layout) \<Longrightarrow> v \<noteq> slider_val s \<Longrightarrow> app_step sf data s (move v s)"
| arrive: "c \<in> set (pending s) \<Longrightarrow> app_step sf data s (respond sf data c s)"

inductive app_reach :: "t_sf \<Rightarrow> frame \<Rightarrow> app_state \<Rightarrow> bool" for sf data where
  start: "app_reach sf data app_init"
| step: "app_reach sf data s \<Longrightarrow> app_step sf data s t \<Longrightarrow> app_reach sf data t"

text \<open>
  A callback is current in a state when its outputs hold what it returns for the current
  slider value; a callback that raises there is current by default, since Dash leaves its
  outputs as they were.
\<close>

definition cb_current :: "t_sf \<Rightarrow> frame \<Rightarrow> app_state \<Rightarrow> cb_name \<Rightarrow> bool" where
  "cb_current sf data s c =
     (case run_callback sf data c (slider_val s) of
        Inl _ \<Rightarrow> True
      | Inr vs \<Rightarrow> list_all2 (\<lambda>k v. store s k = Some v) (cb_outputs (decl_of c)) vs)"

definition app_inv :: "t_sf \<Rightarrow> frame \<Rightarrow> app_state \<Rightarrow> bool" where
  "app_inv sf data s \<longleftrightarrow>
     slider_val s \<in> set (slider_positions layout) \<and> distinct (pending s) \<and>
     list_all (\<lambda>c. c \<in> set (pending s) \<or> cb_current sf data s c) all_callbacks"

definition page_shows :: "t_sf \<Rightarrow> frame \<Rightarrow> app_state \<Rightarrow> bool" where
  "page_shows sf data s \<longleftrightarrow>
     store s (''percentile-value'', ''children'') = Some (OText (update_percentile_value (slider_val s))) \<and>
     (case update_analysis sf data (slider_val s) of
        Inl _ \<Rightarrow> True
      | Inr r \<Rightarrow> list_all2 (\<lambda>k v. store s k = Some v) (cb_outputs analysis_cb) (analysis_outputs r))"

text \<open>The runtime answering the given requests in turn.\<close>

fun settle :: "t_sf \<Rightarrow> frame \<Rightarrow> cb_name list \<Rightarrow> app_state \<Rightarrow> app_state" where
  "settle sf data [] s = s"
| "settle sf data (c # cs) s = settle sf data cs (respond sf data c s)"

section \<open>Lemmas\<close>

lemma triggered_slider: "triggered (''percentile-slider'', ''value'') = all_callbacks"
  by (simp add: triggered_def all_callbacks_def percentile_cb_def analysis_cb_def)

lemma in_all_callbacks [simp]: "c \<in> set all_callbacks"
  by (cases c) (simp_all add: all_callbacks_def)


lemma decl_outputs_distinct: "distinct (cb_outputs (decl_of c))"
  by (cases c) (simp_all add: percentile_cb_def analysis_cb_def panel_deps_def)

lemma decl_outputs_disjoint:
  "c \<noteq> c' \<Longrightarrow> k \<in> set (cb_outputs (decl_of c')) \<Longrightarrow> k \<notin> set (cb_outputs (decl_of c))"
  by (cases c; cases c') (auto simp: percentile_cb_def analysis_cb_def panel_deps_def)

lemma run_callback_length:
  "run_callback sf data c p = Inr vs \<Longrightarrow> length vs = length (cb_outputs (decl_of c))"
proof (cases c)
  case UpdatePercentileValue
  then show "run_callback sf data c p = Inr vs \<Longrightarrow> ?thesis"
    by (auto simp: percentile_outputs_def percentile_cb_def)
next
  case UpdateAnalysis
  then show "run_callback sf data c p = Inr vs \<Longrightarrow> ?thesis"
    by (cases "update_analysis sf data p")
      (auto simp: analysis_cb_def panel_deps_def analysis_outputs_def panel_outputs_def)
qed

lemma respond_simps [simp]:
  "slider_val (respond sf data c s) = slider_val s"
  "pending (respond sf data c s) = remove1 c (pending s)"
  by (simp_all add: respond_def split: sum.split)

lemma cb_current_cong:
  assumes "slider_val t = slider_val s" and "\<forall>k\<in>set (cb_outputs (decl_of c)). store t k = store s k"
  shows "cb_current sf data t c = cb_current sf data s c"
  using assms by (auto simp: cb_current_def list_all2_conv_all_nth split: sum.split)

lemma cb_current_respond_self: "cb_current sf data (respond sf data c s) c"
proof (cases "run_callback sf data c (slider_val s)")
  case (Inl e)
  then show ?thesis by (simp add: cb_current_def)
next
  case (Inr vs)
  then have "length (cb_outputs (decl_of c)) = length vs" by (simp add: run_callback_length)
  with Inr show ?thesis
    by (simp add: cb_current_def respond_def map_add_zip_hit decl_outputs_distinct)
qed

lemma cb_current_respond_other:
  assumes "c' \<noteq> c"
  shows "cb_current sf data (respond sf data c s) c' = cb_current sf data s c'"
proof (rule cb_current_cong)
  show "\<forall>k\<in>set (cb_outputs (decl_of c')). store (respond sf data c s) k = store s k"
  proof
    fix k assume "k \<in> set (cb_outputs (decl_of c'))"
    with assms have "k \<notin> set (cb_outputs (decl_of c))" by (intro decl_outputs_disjoint) auto
    then show "store (respond sf data c s) k = store s k"
      by (simp add: respond_def map_add_zip_other split: sum.split)
  qed
qed simp

lemma slider_init_val: "slider_init = 50"
  by (simp add: slider_init_def slider_of_layout)

lemma pending_app_init: "pending app_init = all_callbacks"
  by (simp add: app_init_def triggered_slider)

lemma slider_app_init: "slider_val app_init = 50"
  by (simp add: app_init_def slider_init_val)

lemma app_inv_init: "app_inv sf data app_init"
  by (simp add: app_inv_def pending_app_init slider_app_init list_all_iff slider_positions_layout
      slider_values_list all_callbacks_def)

lemma app_inv_step: "app_step sf data s t \<Longrightarrow> app_inv sf data s \<Longrightarrow> app_inv sf data t"
proof (induction rule: app_step.induct)
  case (slide v s)
  then show ?case by (simp add: app_inv_def move_def triggered_slider list_all_iff)
next
  case (arrive c s)
  have "list_all (\<lambda>c'. c' \<in> set (remove1 c (pending s)) \<or> cb_current sf data (respond sf data c s) c')
          all_callbacks"
    unfolding list_all_iff
  proof
    fix c' assume "c' \<in> set all_callbacks"
    show "c' \<in> set (remove1 c (pending s)) \<or> cb_current sf data (respond sf data c s) c'"
    proof (cases "c' = c")
      case True
      then show ?thesis using cb_current_respond_self by simp
    next
      case False
      from arrive.prems have "c' \<in> set (pending s) \<or> cb_current sf data s c'"
        by (simp add: app_inv_def list_all_iff)
      with False show ?thesis by (simp add: cb_current_respond_other)
    qed
  qed
  with arrive.prems show ?case by (simp add: app_inv_def)
qed

lemma app_reach_inv: "app_reach sf data s \<Longrightarrow> app_inv sf data s"
  by (induction rule: app_reach.induct) (auto intro: app_inv_init app_inv_step)

lemma app_reach_steps: "(app_step sf data)\<^sup>*\<^sup>* s t \<Longrightarrow> app_reach sf data s \<Longrightarrow> app_reach sf data t"
  by (induction rule: rtranclp_induct) (auto intro: app_reach.step)

lemma settle_simps [simp]:
  "slider_val (settle sf data cs s) = slider_val s"
  "pending (settle sf data cs s) = fold remove1 cs (pending s)"
  by (induction cs arbitrary: s) simp_all

lemma settle_steps:
  "set cs \<subseteq> set (pending s) \<Longrightarrow> distinct cs \<Longrightarrow> (app_step sf data)\<^sup>*\<^sup>* s (settle sf data cs s)"
proof (induction cs arbitrary: s)
  case Nil
  then show ?case by simp
next
  case (Cons c cs)
  have "app_step sf data s (respond sf data c s)" using Cons.prems by (intro app_step.arrive) simp
  moreover have "set cs \<subseteq> set (pending (respond sf data c s))"
  proof
    fix x assume "x \<in> set cs"
    with Cons.prems have "x \<noteq> c" "x \<in> set (pending s)" by auto
    then show "x \<in> set (pending (respond sf data c s))" by (simp add: in_set_remove1)
  qed
  then have "(app_step sf data)\<^sup>*\<^sup>* (respond sf data c s) (settle sf data cs (respond sf data c s))"
    using Cons by simp
  ultimately show ?case by (simp add: converse_rtranclp_into_rtranclp)
qed

lemma settle_pending_steps:
  "app_inv sf data s \<Longrightarrow> (app_step sf data)\<^sup>*\<^sup>* s (settle sf data (pending s) s)"
  by (rule settle_steps) (simp_all add: app_inv_def)

lemma app_reach_settle: "app_reach sf data s \<Longrightarrow> app_reach sf data (settle sf data (pending s) s)"
  by (blast intro: app_reach_steps settle_pending_steps app_reach_inv)

lemma quiescent_page_shows:
  assumes inv: "app_inv sf data s" and q: "pending s = []"
  shows "page_shows sf data s"
proof -
  have p: "cb_current sf data s UpdatePercentileValue" and a: "cb_current sf data s UpdateAnalysis"
    using inv q by (simp_all add: app_inv_def all_callbacks_def)
  from p have "store s (''percentile-value'', ''children'') = Some (OText (update_percentile_value (slider_val s)))"
    by (simp add: cb_current_def percentile_outputs_def percentile_cb_def)
  moreover from a have "case update_analysis sf data (slider_val s) of
      Inl _ \<Rightarrow> True
    | Inr r \<Rightarrow> list_all2 (\<lambda>k v. store s k = Some v) (cb_outputs analysis_cb) (analysis_outputs r)"
    by (cases "update_analysis sf data (slider_val s)") (simp_all add: cb_current_def)
  ultimately show ?thesis by (simp add: page_shows_def)
qed

lemma app_reach_loaded: "app_reach sf data (settle sf data all_callbacks app_init)"
  using app_reach_settle [OF app_reach.start] by (simp add: pending_app_init)

lemma app_reach_moved:
  "app_reach half_sf four_frame (move 35 (settle half_sf four_frame all_callbacks app_init))"
proof (rule app_reach.step [OF app_reach_loaded])
  show "app_step half_sf four_frame (settle half_sf four_frame all_callbacks app_init)
          (move 35 (settle half_sf four_frame all_callbacks app_init))"
    by (rule app_step.slide) (simp_all add: slider_positions_layout slider_values_list slider_app_init)
qed

subsection \<open>Properties of the running page\<close>

text \<open>
  C26. Whatever the user does and in whatever order the responses arrive, whenever no
  request is pending the page shows what the code computes for the slider's current
  value: the value label is \<^verbatim>\<open>update_percentile_value\<close> of it and, when
  \<^verbatim>\<open>update_analysis\<close> returns, every one of its fifteen outputs holds the returned
  value; and the slider's value is one of the percentiles 5, 10, ..., 95.
\<close>

theorem app_quiescent_shows:
  assumes "app_reach sf data s" and "pending s = []"
  shows "slider_val s \<in> set slider_values \<and> page_shows sf data s"
proof -
  have inv: "app_inv sf data s" using assms(1) by (rule app_reach_inv)
  then have "slider_val s \<in> set slider_values" by (simp add: app_inv_def slider_positions_layout)
  with quiescent_page_shows [OF inv assms(2)] show ?thesis by simp
qed


theorem app_quiescent_shows_witness:
  "app_reach half_sf four_frame
     (settle half_sf four_frame all_callbacks (move 35 (settle half_sf four_frame all_callbacks app_init))) \<and>
   pending (settle half_sf four_frame all_callbacks (move 35 (settle half_sf four_frame all_callbacks app_init))) = [] \<and>
   slider_val (settle half_sf four_frame all_callbacks (move 35 (settle half_sf four_frame all_callbacks app_init))) = 35 \<and>
   35 \<in> set slider_values \<and>
   page_shows half_sf four_frame
     (settle half_sf four_frame all_callbacks (move 35 (settle half_sf four_frame all_callbacks app_init)))"
proof -
  have m: "pending (move 35 (settle half_sf four_frame all_callbacks app_init)) = all_callbacks"
    by (simp add: move_def pending_app_init fold_remove1_self triggered_slider all_callbacks_def)
  have r: "app_reach half_sf four_frame
      (settle half_sf four_frame all_callbacks (move 35 (settle half_sf four_frame all_callbacks app_init)))"
    using app_reach_settle [OF app_reach_moved] by (simp only: m)
  have q: "pending (settle half_sf four_frame all_callbacks (move 35 (settle half_sf four_frame all_callbacks app_init))) = []"
    by (simp add: m fold_remove1_self)
  from app_quiescent_shows [OF r q] r q show ?thesis by (simp add: move_def)
qed


end
