(* ===== verification/Spec2Isabelle.thy ===== *)
theory Spec2Isabelle
  imports App
begin

text \<open>
  \<^bold>\<open>A model of the GDP split analysis of \<^verbatim>\<open>src/interactive_report.py\<close>.\<close>

  The program reads a table of countries (\<^verbatim>\<open>2021_GDP\<close>, \<^verbatim>\<open>2019_HE\<close>, \<^verbatim>\<open>2021_HE\<close>,
  health expenditure per person), and for a percentile chosen on a slider
  \<^item> \<^verbatim>\<open>analyze_split\<close> (lines 21 to 72) sorts the rows by \<^verbatim>\<open>2021_GDP\<close> descending,
    cuts them at \<^verbatim>\<open>max(1, min(int(len * p / 100), len - 1))\<close> into a top and a bottom
    group, and for each group runs scipy's \<^verbatim>\<open>ttest_ind\<close> of 2021 against 2019
    (\<^verbatim>\<open>nan_policy='omit'\<close>), halves its p-value, flags the group significant when the
    one-tailed p-value is below 0.05 and the statistic positive, and computes twelve
    descriptive statistics of each column with pandas; the result is a dict from the
    labels \<^verbatim>\<open>Top p%\<close> and \<^verbatim>\<open>Bottom (100-p)%\<close> to the group results;
  \<^item> \<^verbatim>\<open>create_plots\<close> (lines 74 to 168) runs \<^verbatim>\<open>analyze_split\<close> and draws, per group,
    box plots, a Gaussian KDE line per column and histograms in a 2 by 3 figure;
  \<^item> the Dash layout (lines 171 to 306) holds a slider over 5, 10, ..., 95, the
    graph and the panels, in a page template; the callbacks (lines 309 to 405) show the slider's value and, on each move,
    call \<^verbatim>\<open>create_plots\<close> and fill each group's panel: label, statistic and
    p-value to four decimals, Yes/No and True/False, and the table of the twelve
    statistics to two decimals;
  \<^item> the start-up code (lines 13 to 18, 407 to 428) loads the CSV and serves the page.

  \<^bold>\<open>Theories.\<close> Each theory models one part, in the order of the code:
  \<^item> \<open>Prelude\<close>: floats as \<open>fl\<close> (a real, NaN, +inf or -inf) with IEEE comparison,
    subtraction and division; cells as \<open>real option\<close> (\<open>None\<close> is NaN) and pandas'
    \<^verbatim>\<open>dropna\<close>; the exceptions as the datatype \<open>py_error\<close>, every fallible operation
    returning \<open>py_error + 'a\<close>; Python's insertion-ordered dict assignment
    \<open>dict_set\<close>; \<^verbatim>\<open>str(int)\<close> as \<open>int_str\<close>.
  \<^item> \<open>Frame\<close>: a DataFrame as a record of column labels and indexed rows, with
    \<^verbatim>\<open>df[c]\<close> (\<open>get_column\<close>, KeyError when absent), \<^verbatim>\<open>iloc\<close> slices, and
    \<^verbatim>\<open>sort_values(ascending=False)\<close> as pandas' \<^verbatim>\<open>nargsort\<close> computes it
    (\<open>nargsort_desc\<close>: NaN keys last, reverse, stable sort, reverse).
  \<^item> \<open>Binary64\<close>: IEEE round-to-nearest-even for doubles (\<open>f64_round\<close>), built on
    the binary exponent \<open>fexp\<close>, a \<^theory_text>\<open>function\<close> with a termination proof by a
    measure, shown to pick the nearest double (\<open>f64_representable\<close>, IEEE's
    closest-value specification) and to be monotone.
  \<^item> \<open>Splitter\<close>: \<open>py_int\<close> (Python's truncating \<^verbatim>\<open>int()\<close>), \<open>cutoff_idx\<close> and
    \<open>split_groups\<close>, lines 23 to 33, the cutoff computed in binary64 as Python
    computes \<^verbatim>\<open>int(len * (p / 100))\<close>; and the spec's split in exact arithmetic,
    \<open>cutoff_floor\<close> and \<open>split_groups_floor\<close>, which the code's split refines.
  \<^item> \<open>Stats\<close>: the twelve metrics of lines 48 to 62 (\<open>describe\<close>, record
    \<open>desc_stats\<close>) with pandas' nanops semantics: skipna, \<open>ddof = 1\<close>, the bias-corrected
    skewness and excess kurtosis with the \<^verbatim>\<open>_zero_out_fperr\<close> guard, NaN for too few
    values, a sum of 0 and a count of 0 for none.
  \<^item> \<open>TTest\<close>: \<^verbatim>\<open>ttest_ind\<close> with pooled variance (line 43), \<open>one_tailed\<close>
    (line 44) and \<open>significant\<close> (line 68).
  \<^item> \<open>Analysis\<close>: \<open>analyze_group\<close> (the loop body, lines 42 to 70) and
    \<open>analyze_split\<close>, composed as the code composes them: the sort column is read
    first, then for the top group and then the bottom group \<^verbatim>\<open>2021_HE\<close> before
    \<^verbatim>\<open>2019_HE\<close>, so the first KeyError raised is the one the model returns.
  \<^item> \<open>Plots\<close>: \<open>create_plots\<close> and its traces (\<open>group_traces\<close>, \<open>box_trace\<close>,
    \<open>kde_trace\<close>, \<open>hist_trace\<close>), scipy's \<open>gaussian_kde\<close> with Scott's bandwidth and
    its two failures (ValueError below two points, LinAlgError on zero variance), numpy's
    \<open>linspace\<close>, the subplot titles and the layout values.
  \<^item> \<open>Callbacks\<close>: \<open>update_percentile_value\<close>, \<open>update_analysis\<close> with its panels
    (\<open>group_panel\<close>, record \<open>panel\<close>) and \<open>create_stats_table\<close>, the dict
    lookups with KeyError (\<open>dict_get\<close>), the list comprehension with the first error
    (\<open>map_err\<close>), the slider's values, and Python's \<^verbatim>\<open>:.{d}f\<close> formatting
    (\<open>fmt_fixed\<close>, rounding half to even by \<open>round_half_even\<close>).
  \<^item> \<open>Layout\<close>: the page of lines 171 to 306 as a tree of components (\<open>layout\<close>) with
    the slider and its marks (\<open>py_range\<close>, Python's \<^verbatim>\<open>range\<close>, another
    \<^theory_text>\<open>function\<close> with a measure), the two callback declarations
    (\<open>percentile_cb\<close>, \<open>analysis_cb\<close>) and the values they return
    (\<open>analysis_outputs\<close>), the page template \<open>index_string\<close> and Dash's check of it
    (\<open>dash_set_index\<close>, with Python's \<^verbatim>\<open>in\<close> as \<open>py_in\<close>).
  \<^item> \<open>App\<close>: the running page, Dash's runtime over that layout and those callbacks as
    an inductive step relation \<open>app_step\<close> on the record \<open>app_state\<close> (slider
    value, the store of output properties, the pending requests): a slider move
    triggers both callbacks, a response writes a callback's outputs for the current
    slider value, in any order; \<open>app_reach\<close> is the inductive set of reachable states.
  \<^item> This theory: the property that needs the split, the figure and the callbacks
    together.

  \<^bold>\<open>Interfaces.\<close> The module-level \<^verbatim>\<open>data\<close> is an explicit argument. The Student-t
  survival function of scipy is the parameter \<open>sf\<close> of type \<open>t_sf\<close> (degrees of freedom,
  point), the p-value being \<open>2 * sf df |t|\<close> and 0 at an infinite statistic; no
  lemma depends on which function it is, and the witnesses use the closed-form stand-in
  \<open>half_sf df x = 1 / (2 + x)\<close>. The callbacks meet the runtime through their
  declarations (\<open>decl_of\<close>) and their results (\<open>run_callback\<close>).

  \<^bold>\<open>What the lemmas show.\<close> Claims C1 to C29, in the order of the manifest:
  \<^item> the split (Splitter): both groups non-empty and a partition of the sorted rows
    (C1, C2); the code's binary64 split is the spec's floor split whenever \<open>n * p\<close> is
    not a multiple of 100 (C3), and its cutoff is the spec's or one less (C10, with
    180 rows at 35 as the case of one less); ranking order (C5), monotone in the
    percentile (C14), frames of at most one row (C16), independence of the tie-break
    for the GDP values (C17);
  \<^item> the statistics (Stats): all-missing columns (C8), Count (C9), the skewness and
    kurtosis conventions against the reference formulas G1 and G2 (C18, C19), and the
    Standard Error's divisor (C20);
  \<^item> the test and the composition (Analysis): the significance flag exactly when the
    2021 mean exceeds the 2019 mean with a p-value below 0.05 (C4), the two labelled
    results in order (C6), the KeyError order (C7), groups falling row by row never
    significant (C11), frames of at most one row (C15);
  \<^item> across the parts (this theory): every frame of fewer than \<open>100 / p\<close> rows whose
    highest-GDP country has a health-expenditure value makes the callback raise (C12);
  \<^item> the figure (Plots): the first KDE on a single value raises ValueError (C13), the
    layout and traces when the KDEs can be built (C21), and the shape of a KDE line
    (C22);
  \<^item> the callbacks (Callbacks): the two panels of every figure (C23), the callback
    failing exactly when \<^verbatim>\<open>create_plots\<close> does (C24), the statistics table (C25);
  \<^item> the running page (App): in every reachable state with no request pending the
    page shows the callbacks' results for the current slider value (C26, an invariant
    by rule induction), and from every reachable state such a state is reached (C27,
    liveness);
  \<^item> the page (Layout): the callbacks' ids exist once each and every returned value
    fits its property (C28), Dash accepts the template and the slider's positions and
    marks are the percentiles the model takes (C29).
  Every claim with a hypothesis has a witness at a concrete frame, column or state.

  \<^bold>\<open>Bounds and fuel.\<close> Every loop of the code is a structural recursion or a map over
  a list (rows, groups, the 1000 KDE points, the layout's children), so every function
  of the model is total and no fuel is needed. The two searches that are not
  structural terminate by a measure: \<open>fexp\<close> halves or doubles its argument
  (\<open>fexp_measure\<close>, the ceiling of \<open>x\<close> or of \<open>1 / x\<close>, decreases) and \<open>py_range\<close>
  steps towards its stop. The runtime's \<open>settle\<close> answers a finite list of requests.
  The comparison of the binary64 cutoff with the spec's is stated for percentiles in
  \<open>[0, 100]\<close> and fewer than \<open>2^40\<close> rows, where the two roundings stay within
  \<open>1/100\<close> of the exact product (\<open>cutoff_product_error\<close>).

  \<^bold>\<open>Idealisations and what is not modelled.\<close>
  \<^item> The cutoff is computed in binary64 as the code computes it. The other finite floats
    are reals: sums, means, moments, the t statistic and the KDE are exact. So a
    constant column has exactly zero variance in the model where pandas may leave a
    residue such as \<open>2.9e-34\<close> for \<open>[0.1, 0.1, 0.1]\<close>; no claim of the development
    depends on such an exact cancellation or on a mean lying between the minimum and
    maximum, and the model's LinAlgError on a zero variance is not the subject of any
    claim. \<open>f64_round\<close> has no exponent bound (no overflow or subnormals), which the
    percentile arithmetic cannot reach.
  \<^item> The health-expenditure columns are float64 (as when they have a missing or
    fractional value): every statistic but Count is then a float and printed with two
    decimals; an int64 column would print its minimum, maximum and sum unformatted.
  \<^item> The sort is the stable order; pandas' default \<^verbatim>\<open>quicksort\<close> is not stable above
    16 rows, which C17 shows does not change the GDP values of either group.
  \<^item> Dash's runtime is modelled from its documented behaviour (every callback fires on
    load and when its input changes, an exception leaves the outputs unchanged); a
    response is computed from the slider's value when it is applied, which is how
    Dash's discarding of outdated requests behaves.
  \<^item> Not modelled: plotly's and Dash's style arguments (dictionaries of CSS values),
    the browser's rendering and the transport of values, and the start-up code:
    creating \<^verbatim>\<open>/tmp/output\<close>, reading \<^verbatim>\<open>all.csv\<close> (the model starts from the
    frame), opening the browser and serving the page. They are I/O with no computation
    the results depend on.
\<close>

section \<open>Properties across the components\<close>

text \<open>
  C12. At a small percentile the page breaks on a small table: when the frame has
  at least two rows but fewer than \<open>100 / p\<close>, the clamp makes the top group the single
  highest-GDP country, and if that country has a health-expenditure value the KDE of
  its column has one point, so \<^verbatim>\<open>update_analysis\<close> raises scipy's \<^verbatim>\<open>ValueError\<close>
  whatever the data of the other countries.
\<close>

theorem update_analysis_small_frame_crash:
  assumes "gdp_col \<in> set (columns data)" and "he2019_col \<in> set (columns data)"
    and "he2021_col \<in> set (columns data)"
    and "2 \<le> length (rows data)" and "real (length (rows data)) * real_of_int p < 100"
    and "row_key he2019_col (hd (nargsort_desc (row_key gdp_col) (rows data))) \<noteq> None \<or>
         row_key he2021_col (hd (nargsort_desc (row_key gdp_col) (rows data))) \<noteq> None"
  shows "update_analysis sf data p = Inl (ValueError kde_size_msg)"
proof -
  let ?S = "nargsort_desc (row_key gdp_col) (rows data)"
  obtain u l ru rl where ul: "split_groups data p = Inr (u, l)"
    and ru: "analyze_group sf u = Inr ru" and rl: "analyze_group sf l = Inr rl"
    and du: "gr_data ru = u"
    using split_groups_analyzable [OF assms(1-3)] by metis
  have "?S \<noteq> []" using assms(4) by (auto simp flip: length_0_conv)
  then have "rows u = [hd ?S]"
    using split_groups_rows(2) [OF ul] cutoff_idx_small [OF assms(5)] by (cases ?S) simp_all
  moreover have "columns u = columns data" using split_groups_rows(4) [OF ul] .
  ultimately have "group_traces 1 u = Inl (ValueError kde_size_msg)"
    using assms(2,3,6) by (intro single_row_traces) simp_all
  then have "create_plots sf data p = Inl (ValueError kde_size_msg)"
    using create_plots_trace_error [OF analyze_split_Inr [OF ul ru rl]]
      results_traces_Inl [of ru "ValueError kde_size_msg" rl] du by simp
  then show ?thesis by (simp add: update_analysis_def)
qed

theorem update_analysis_small_frame_crash_witness:
  "update_analysis half_sf four_frame 10 = Inl (ValueError kde_size_msg)"
proof -
  have "row_key he2019_col (hd (nargsort_desc (row_key gdp_col) (rows four_frame))) = Some 4"
    by (simp add: four_frame_def he_frame_def nargsort_desc_def row_key_def he_row_def)
  moreover have "2 \<le> length (rows four_frame)" "real (length (rows four_frame)) * real_of_int 10 < 100"
    by (simp_all add: four_frame_def he_frame_def)
  ultimately show ?thesis
    using update_analysis_small_frame_crash [OF four_frame_cols] by simp
qed

end
